theory Spec2Isabelle
  imports Complex_Main
begin

section \<open>Numbers\<close>

text \<open>
  JavaScript numbers are modelled as exact reals.  The one place of the simulation core
  where an unguarded division can leave the finite numbers is the gravity stage
  (\<^verbatim>\<open>G * effectiveGravMass / distSq\<close>); there the IEEE special values are modelled
  explicitly by the type \<open>num\<close>: a finite real, plus or minus infinity, or NaN.
  The orbit cache also stores \<^verbatim>\<open>Infinity\<close> for degenerate orbits.
\<close>

datatype num = Fin real | PInf | NInf | NaN

fun isFinite :: "num \<Rightarrow> bool" where
  "isFinite (Fin a) = True"
| "isFinite PInf = False"
| "isFinite NInf = False"
| "isFinite NaN = False"

text \<open>Sign of a non-NaN value: \<open>1\<close>, \<open>0\<close> or \<open>-1\<close>.\<close>

fun num_sgn :: "num \<Rightarrow> real" where
  "num_sgn (Fin a) = sgn a"
| "num_sgn PInf = 1"
| "num_sgn NInf = -1"
| "num_sgn NaN = 0"

definition inf_of_sign :: "real \<Rightarrow> num" where
  "inf_of_sign c = (if c > 0 then PInf else if c < 0 then NInf else NaN)"

text \<open>IEEE multiplication: infinity times zero is NaN.\<close>

fun num_mul :: "num \<Rightarrow> num \<Rightarrow> num" where
  "num_mul NaN b = NaN"
| "num_mul a NaN = NaN"
| "num_mul (Fin a) (Fin b) = Fin (a * b)"
| "num_mul a b = inf_of_sign (num_sgn a * num_sgn b)"

text \<open>
  IEEE division: a nonzero finite value over zero is an infinity, zero over zero and
  infinity over infinity are NaN.  The zero divisors of the code are sums of squares,
  hence positive zeros.
\<close>

fun num_div :: "num \<Rightarrow> num \<Rightarrow> num" where
  "num_div NaN b = NaN"
| "num_div a NaN = NaN"
| "num_div (Fin a) (Fin b) = (if b = 0 then inf_of_sign a else Fin (a / b))"
| "num_div (Fin a) b = Fin 0"
| "num_div a (Fin b) = inf_of_sign (num_sgn a * (if b < 0 then -1 else 1))"
| "num_div a b = NaN"

fun num_add :: "num \<Rightarrow> num \<Rightarrow> num" where
  "num_add NaN b = NaN"
| "num_add a NaN = NaN"
| "num_add (Fin a) (Fin b) = Fin (a + b)"
| "num_add (Fin a) b = b"
| "num_add a (Fin b) = a"
| "num_add a b = (if a = b then a else NaN)"

section \<open>Constants (constants.js)\<close>

definition PLAYER_RADIUS :: real where "PLAYER_RADIUS = 30"
definition DENSITY :: real where "DENSITY = 1000"
definition SUN_GRAVITATIONAL_MASS :: real where "SUN_GRAVITATIONAL_MASS = 10 ^ 20"
definition G :: real where "G = 6.67430 / 10 ^ 11 * 0.1"
definition SUN_DISPLAY_RADIUS :: real where "SUN_DISPLAY_RADIUS = 120"

text \<open>utils.js\<close>

definition calculateRadiusFromMass :: "real \<Rightarrow> real" where
  "calculateRadiusFromMass m =
     (if m \<le> 0 then 0.1
      else (let volume = m / DENSITY in root 3 ((3 * volume) / (4 * pi))))"

definition calculateMassFromRadius :: "real \<Rightarrow> real" where
  "calculateMassFromRadius r = (4 / 3) * pi * (max 0.1 r) ^ 3 * DENSITY"

definition getSunDisplayRadius :: "real \<Rightarrow> real" where
  "getSunDisplayRadius gameMassFraction = SUN_DISPLAY_RADIUS * root 3 (max 0 gameMassFraction)"

text \<open>The derived constants of \<^verbatim>\<open>initDerivedConstants\<close>, \<^verbatim>\<open>initBodyMassConstant\<close>
  and \<^verbatim>\<open>initSparkMass\<close>.\<close>

definition PLAYER_INITIAL_MASS :: real where
  "PLAYER_INITIAL_MASS = calculateMassFromRadius PLAYER_RADIUS"
definition MIN_PLAYER_MASS :: real where "MIN_PLAYER_MASS = PLAYER_INITIAL_MASS * 0.1"
definition SUN_GAME_MASS :: real where "SUN_GAME_MASS = PLAYER_INITIAL_MASS * 180"
definition GRAVITY_CROSSOVER_MULTIPLIER :: real where
  "GRAVITY_CROSSOVER_MULTIPLIER = SUN_GRAVITATIONAL_MASS / SUN_GAME_MASS"
definition MIN_BODY_MASS :: real where "MIN_BODY_MASS = PLAYER_INITIAL_MASS * 0.005"
definition SPARK_MASS :: real where "SPARK_MASS = PLAYER_INITIAL_MASS * 0.00001"

definition INIT_NUM_BODIES :: nat where "INIT_NUM_BODIES = 400"
definition ORBIT_HISTORY_LENGTH :: nat where "ORBIT_HISTORY_LENGTH = 90"
definition MIN_TRAIL_RADIUS_PX :: real where "MIN_TRAIL_RADIUS_PX = 1.5"

definition BASE_EJECTION_MASS_PERCENT :: real where "BASE_EJECTION_MASS_PERCENT = 0.0005"
definition MAX_EJECTION_MULTIPLIER :: real where "MAX_EJECTION_MULTIPLIER = 85"
definition EJECTION_GROWTH_RATE :: real where "EJECTION_GROWTH_RATE = 3"
definition QUICK_CLICK_THRESHOLD :: int where "QUICK_CLICK_THRESHOLD = 260"
definition MAX_EJECTION_PERCENTAGE :: real where "MAX_EJECTION_PERCENTAGE = 0.5"
definition EJECTION_BASE_SPEED :: real where "EJECTION_BASE_SPEED = 1200"
definition EJECTION_PROPULSION_MULTIPLIER :: real where "EJECTION_PROPULSION_MULTIPLIER = 45"
definition EJECTION_DECAY_RATE :: real where "EJECTION_DECAY_RATE = 0.97"
definition EJECTION_DECAY_INTERVAL :: int where "EJECTION_DECAY_INTERVAL = 300"

definition MASS_TRANSFER_PERCENT_PER_SEC :: real where "MASS_TRANSFER_PERCENT_PER_SEC = 4.0"
definition EJECTION_COLLISION_DELAY :: int where "EJECTION_COLLISION_DELAY = 300"

definition SUN_ABSORPTION_RATE :: real where "SUN_ABSORPTION_RATE = 1.5"
definition SUN_ABSORPTION_START_RATIO :: real where "SUN_ABSORPTION_START_RATIO = 0.4"
definition SUN_ABSORPTION_RANGE_MULTIPLIER :: real where "SUN_ABSORPTION_RANGE_MULTIPLIER = 2.5"

definition MIN_SPARKS :: real where "MIN_SPARKS = 2"
definition MAX_SPARKS :: real where "MAX_SPARKS = 20"
definition MIN_SPARK_SPEED_MULTIPLIER :: real where "MIN_SPARK_SPEED_MULTIPLIER = 0.8"
definition MAX_SPARK_SPEED_MULTIPLIER :: real where "MAX_SPARK_SPEED_MULTIPLIER = 2.2"
definition SPARK_SPEED_RANDOMNESS :: real where "SPARK_SPEED_RANDOMNESS = 0.2"
definition MAX_SPARK_SPREAD_ANGLE :: real where "MAX_SPARK_SPREAD_ANGLE = pi / 6"
definition MIN_SPARK_SPREAD_ANGLE :: real where "MIN_SPARK_SPREAD_ANGLE = pi / 18"
definition SPARK_LIFESPAN :: int where "SPARK_LIFESPAN = 1600"

definition BASE_GAME_SPEED :: real where "BASE_GAME_SPEED = 0.1"
definition FAST_GAME_SPEED :: real where "FAST_GAME_SPEED = 1.0"

definition TRAIL_FADE_IN_RATE :: real where "TRAIL_FADE_IN_RATE = 0.6"
definition TRAIL_FADE_OUT_RATE :: real where "TRAIL_FADE_OUT_RATE = 0.4"
definition TRAIL_PROXIMITY_FACTOR :: real where "TRAIL_PROXIMITY_FACTOR = 5.2"

section \<open>Bodies and the global state (celestial-body.js, state.js)\<close>

text \<open>
  A \<^verbatim>\<open>CelestialBody\<close> object.  \<open>b_mass\<close> and \<open>b_radius\<close> are the private fields
  \<^verbatim>\<open>_mass\<close> and \<^verbatim>\<open>_radius\<close>; \<open>b_x\<close>, \<open>b_y\<close>, \<open>b_vx\<close>, \<open>b_vy\<close> are \<^verbatim>\<open>x\<close>,
  \<^verbatim>\<open>y\<close>, \<^verbatim>\<open>vx\<close>, \<^verbatim>\<open>vy\<close>.  The \<^verbatim>\<open>id\<close> string (a role letter, the creation time
  and random digits) is never read by the simulation and is left out.
\<close>

record body =
  b_x :: real
  b_y :: real
  b_vx :: real
  b_vy :: real
  b_mass :: real
  isPlayer :: bool
  isSun :: bool
  isSpark :: bool
  isGravitationalCenter :: bool
  creationTime :: int
  angle :: real
  b_radius :: real
  orbitA :: num
  orbitB :: num
  orbitE :: real
  orbitPeriapsisAngle :: real
  orbitCollidesCenter :: bool
  trailOpacity :: real

text \<open>An entry of \<^verbatim>\<open>orbitHistory\<close>: the solver's result with the two absorption fields.\<close>

record orbit_params =
  op_a :: num
  op_b :: num
  op_e :: real
  op_periapsisAngle :: real
  op_collidesCenter :: bool

record orbit_entry = orbit_params +
  absorbing :: bool
  absorptionProgress :: real

text \<open>
  Bodies are JavaScript objects, shared by reference between the registry
  \<^verbatim>\<open>celestialBodies\<close> and the local variables of the functions.  The model keeps an
  explicit store: \<open>heap\<close> maps a reference to the object's current fields, the registry
  is a list of references, and \<open>nextRef\<close> is the next unused reference
  (\<^verbatim>\<open>new CelestialBody\<close> takes it).  The other fields are the global variables of
  state.js that the simulation reads or writes.
\<close>

type_synonym ref = nat

record state =
  heap :: "ref \<Rightarrow> body"
  nextRef :: ref
  celestialBodies :: "ref list"
  gameWon :: bool
  playerIsGravitationalCenter :: bool
  sunAbsorptionProgress :: real
  gravityBlendFactor :: real
  sunCurrentGameMass :: real
  collisionDetectedThisFrame :: bool
  playerNeedsReset :: bool
  currentGameSpeed :: real
  lastClickTime :: int
  lastEjectionDecayTime :: int
  currentEjectionMultiplier :: real
  currentWarningIntensity :: real
  orbitHistory :: "orbit_entry list"
  camera_x :: real
  camera_y :: real
  camera_scale :: real
  canvas_width :: real
  canvas_height :: real
  screenMouseX :: real
  screenMouseY :: real

text \<open>\<^verbatim>\<open>_calculateRadius\<close>: the sun's radius follows the global game-mass fraction.\<close>

definition calculateRadius :: "state \<Rightarrow> body \<Rightarrow> real \<Rightarrow> real" where
  "calculateRadius s b m =
     (if isSun b then getSunDisplayRadius (sunCurrentGameMass s / SUN_GAME_MASS)
      else calculateRadiusFromMass m)"

text \<open>The \<^verbatim>\<open>radius\<close> getter.\<close>

definition radius :: "state \<Rightarrow> body \<Rightarrow> real" where
  "radius s b =
     (if isSun b then max 1 (getSunDisplayRadius (sunCurrentGameMass s / SUN_GAME_MASS))
      else max 0.5 (b_radius b))"

text \<open>The \<^verbatim>\<open>mass\<close> setter, on the fields of one object.\<close>

definition set_mass :: "state \<Rightarrow> body \<Rightarrow> real \<Rightarrow> body" where
  "set_mass s b newMass =
     (let m = max 0 newMass;
          b1 = b\<lparr>b_mass := m, b_radius := calculateRadius s b m\<rparr>
      in if m < 1 / 10 ^ 9 \<and> \<not> isSun b \<and> \<not> isPlayer b then b1\<lparr>b_radius := 0.1\<rparr> else b1)"

text \<open>Writing through a reference: \<open>upd r f s\<close> replaces the object at \<open>r\<close>.\<close>

definition upd :: "ref \<Rightarrow> (body \<Rightarrow> body) \<Rightarrow> state \<Rightarrow> state" where
  "upd r f s = s\<lparr>heap := (heap s)(r := f (heap s r))\<rparr>"

definition setMass :: "ref \<Rightarrow> real \<Rightarrow> state \<Rightarrow> state" where
  "setMass r newMass s = upd r (\<lambda>b. set_mass s b newMass) s"

text \<open>
  The constructor.  \<open>now\<close> is the value of \<^verbatim>\<open>Date.now()\<close> at the call; the radius is
  computed after the role flags are assigned, as in the source.
\<close>

definition CelestialBody ::
  "state \<Rightarrow> int \<Rightarrow> real \<Rightarrow> real \<Rightarrow> real \<Rightarrow> real \<Rightarrow> real \<Rightarrow> bool \<Rightarrow> bool \<Rightarrow> bool \<Rightarrow> body" where
  "CelestialBody s now px py pvx pvy m isPl isSu isSp =
     (let b = \<lparr>b_x = px, b_y = py, b_vx = pvx, b_vy = pvy, b_mass = m,
               isPlayer = isPl, isSun = isSu, isSpark = isSp,
               isGravitationalCenter = isSu, creationTime = now, angle = 0,
               b_radius = 0, orbitA = Fin 0, orbitB = Fin 0, orbitE = 0,
               orbitPeriapsisAngle = 0, orbitCollidesCenter = False, trailOpacity = 0\<rparr>
      in b\<lparr>b_radius := calculateRadius s b m\<rparr>)"

text \<open>\<^verbatim>\<open>celestialBodies.push(new CelestialBody(...))\<close>: allocate and append.\<close>

definition push :: "body \<Rightarrow> state \<Rightarrow> state" where
  "push b s = s\<lparr>heap := (heap s)(nextRef s := b), nextRef := Suc (nextRef s),
                celestialBodies := celestialBodies s @ [nextRef s]\<rparr>"

text \<open>\<^verbatim>\<open>celestialBodies.find(pred)\<close>: the first registered object satisfying \<open>pred\<close>.\<close>

definition findBody :: "(body \<Rightarrow> bool) \<Rightarrow> state \<Rightarrow> ref option" where
  "findBody pred s = find (\<lambda>r. pred (heap s r)) (celestialBodies s)"

text \<open>\<^verbatim>\<open>array.splice(k, 1)\<close>.\<close>

definition splice1 :: "nat \<Rightarrow> 'a list \<Rightarrow> 'a list" where
  "splice1 k xs = take k xs @ drop (Suc k) xs"

section \<open>Collisions (collision.js)\<close>

text \<open>
  The outcome of one pass through the body of the inner loop: go on with the next \<open>j\<close>
  (\<^verbatim>\<open>continue\<close>, or the end of the body), leave the inner loop with a new value of
  \<open>i\<close> (\<^verbatim>\<open>i = bigI; break\<close>), or leave the function (\<^verbatim>\<open>return\<close>).
\<close>

datatype pair_result = Continue state | Break nat state | Return state

text \<open>The immunity flags \<^verbatim>\<open>n1\<close>, \<^verbatim>\<open>n2\<close> of a recently created ordinary body.\<close>

definition immune :: "int \<Rightarrow> body \<Rightarrow> bool" where
  "immune now b =
     (\<not> isSpark b \<and> \<not> isSun b \<and> \<not> isPlayer b \<and> now - creationTime b < EJECTION_COLLISION_DELAY)"

text \<open>The seven exclusion rules, in the order of the source; each one is a \<^verbatim>\<open>continue\<close>.\<close>

definition excluded :: "int \<Rightarrow> body \<Rightarrow> body \<Rightarrow> bool" where
  "excluded now b1 b2 =
     (let n1 = immune now b1; n2 = immune now b2
      in if (isPlayer b1 \<and> isSpark b2) \<or> (isPlayer b2 \<and> isSpark b1) then True
         else if isSpark b1 \<and> isSpark b2 then True
         else if (isPlayer b1 \<and> n2) \<or> (isPlayer b2 \<and> n1) then True
         else if (isSpark b1 \<and> n2) \<or> (isSpark b2 \<and> n1) then True
         else if n1 \<and> n2 then True
         else if (isSpark b1 \<and> \<not> isSpark b2 \<and> \<not> isPlayer b2 \<and> \<not> isGravitationalCenter b2) \<or>
                 (isSpark b2 \<and> \<not> isSpark b1 \<and> \<not> isPlayer b1 \<and> \<not> isGravitationalCenter b1)
              then True
         else if (isPlayer b1 \<and> isSun b2) \<or> (isPlayer b2 \<and> isSun b1) then True
         else False)"

text \<open>The circle test: \<^verbatim>\<open>distSq >= cr * cr\<close> is a \<^verbatim>\<open>continue\<close>.\<close>

definition overlapping :: "state \<Rightarrow> body \<Rightarrow> body \<Rightarrow> bool" where
  "overlapping s b1 b2 =
     (let dx = b_x b2 - b_x b1; dy = b_y b2 - b_y b1;
          distSq = dx * dx + dy * dy;
          cr = radius s b1 + radius s b2
      in \<not> distSq \<ge> cr * cr)"

text \<open>The amount moved from the small body in one pair resolution.\<close>

definition transferAmount :: "real \<Rightarrow> body \<Rightarrow> real" where
  "transferAmount dt small =
     (let transfer = (if isSpark small then b_mass small
                      else min (b_mass small) (b_mass small * MASS_TRANSFER_PERCENT_PER_SEC * dt))
      in max 0 transfer)"

text \<open>
  The pair resolution proper, from the computation of \<^verbatim>\<open>transfer\<close> to the end of the
  loop body; \<open>big\<close> and \<open>small\<close> are the two objects, \<open>bigI\<close> and \<open>smallI\<close> their
  registry indices.  \<open>conserveMomentum\<close> is the velocity update of a big body that is the
  player, \<open>applyTransfer\<close> adds the two assignments to \<^verbatim>\<open>mass\<close>.
\<close>

definition conserveMomentum :: "ref \<Rightarrow> ref \<Rightarrow> real \<Rightarrow> state \<Rightarrow> state" where
  "conserveMomentum big small transfer s1 =
     (let total = b_mass (heap s1 big) + transfer
      in if isPlayer (heap s1 big) \<and> transfer > 0 \<and> total > 1 / 10 ^ 9
         then
           (let s1a = upd big (\<lambda>b. b\<lparr>b_vx :=
                  (b_mass b * b_vx b + transfer * b_vx (heap s1 small)) / total\<rparr>) s1
            in upd big (\<lambda>b. b\<lparr>b_vy :=
                  (b_mass b * b_vy b + transfer * b_vy (heap s1a small)) / total\<rparr>) s1a)
         else s1)"

definition applyTransfer :: "ref \<Rightarrow> ref \<Rightarrow> real \<Rightarrow> state \<Rightarrow> state" where
  "applyTransfer big small transfer s1 =
     (let s2 = conserveMomentum big small transfer s1;
          s3 = setMass big (b_mass (heap s2 big) + transfer) s2
      in setMass small (b_mass (heap s3 small) - transfer) s3)"

definition resolvePair :: "real \<Rightarrow> nat \<Rightarrow> nat \<Rightarrow> state \<Rightarrow> pair_result" where
  "resolvePair dt bigI smallI s1 =
     (let big = celestialBodies s1 ! bigI;
          small = celestialBodies s1 ! smallI;
          transfer = transferAmount dt (heap s1 small);
          s4 = applyTransfer big small transfer s1
      in if isPlayer (heap s4 small) \<and> b_mass (heap s4 small) < MIN_PLAYER_MASS
         then Return (s4\<lparr>playerNeedsReset := True\<rparr>)
         else if b_mass (heap s4 small) \<le> MIN_BODY_MASS \<or>
                 (isSpark (heap s4 small) \<and> transfer \<ge> b_mass (heap s4 small) * 0.99)
         then
           (let s5 = upd small (\<lambda>b. b\<lparr>trailOpacity := 0\<rparr>) s4;
                s6 = s5\<lparr>celestialBodies := splice1 smallI (celestialBodies s5)\<rparr>
            in Break (if bigI > smallI then bigI - 1 else bigI) s6)
         else Continue s4)"

text \<open>One pass through the body of the inner loop, for the indices \<open>i\<close> and \<open>j\<close>.\<close>

definition collidePair :: "real \<Rightarrow> int \<Rightarrow> nat \<Rightarrow> nat \<Rightarrow> state \<Rightarrow> pair_result" where
  "collidePair dt now i j s =
     (let b1 = heap s (celestialBodies s ! i); b2 = heap s (celestialBodies s ! j)
      in if excluded now b1 b2 then Continue s
         else if \<not> overlapping s b1 b2 then Continue s
         else
           (let s1 = s\<lparr>collisionDetectedThisFrame := True\<rparr>;
                bigI = (if b_mass b1 \<ge> b_mass b2 then i else j);
                smallI = (if b_mass b1 \<ge> b_mass b2 then j else i)
            in if isGravitationalCenter (heap s1 (celestialBodies s1 ! smallI)) \<or>
                  isSpark (heap s1 (celestialBodies s1 ! bigI))
               then Continue s1
               else resolvePair dt bigI smallI s1))"

text \<open>
  The inner loop \<^verbatim>\<open>for (let j = i - 1; j >= 0; j--)\<close>; the counter is \<open>j + 1\<close>, so
  that \<open>0\<close> is the exit of the loop.
\<close>

fun innerLoop :: "real \<Rightarrow> int \<Rightarrow> nat \<Rightarrow> nat \<Rightarrow> state \<Rightarrow> pair_result" where
  "innerLoop dt now i 0 s = Continue s"
| "innerLoop dt now i (Suc j) s =
     (case collidePair dt now i j s of
        Continue s' \<Rightarrow> innerLoop dt now i j s'
      | Break i' s' \<Rightarrow> Break i' s'
      | Return s' \<Rightarrow> Return s')"

lemma resolvePair_Break_index:
  "resolvePair dt bigI smallI s = Break k s' \<Longrightarrow>
     k = (if bigI > smallI then bigI - 1 else bigI)"
  by (simp add: resolvePair_def Let_def split: if_splits)

lemma collidePair_Break_less:
  "collidePair dt now i j s = Break k s' \<Longrightarrow> j < i \<Longrightarrow> k < i"
  by (auto simp: collidePair_def Let_def split: if_splits dest!: resolvePair_Break_index)

lemma innerLoop_Break_less:
  "innerLoop dt now i n s = Break k s' \<Longrightarrow> n \<le> i \<Longrightarrow> k < i"
proof (induction n arbitrary: s)
  case 0
  then show ?case by simp
next
  case (Suc n)
  then show ?case
    by (auto split: pair_result.splits dest: collidePair_Break_less)
qed

text \<open>
  The outer loop \<^verbatim>\<open>for (let i = length - 1; i >= 0; i--)\<close>; the counter is \<open>i + 1\<close>.
  After a \<^verbatim>\<open>break\<close> with \<^verbatim>\<open>i = bigI\<close> the loop's own \<^verbatim>\<open>i--\<close> still runs, so the
  next counter is \<open>bigI\<close>.  \<^verbatim>\<open>if (playerNeedsReset) return\<close> follows every inner loop.
\<close>

function outerLoop :: "real \<Rightarrow> int \<Rightarrow> nat \<Rightarrow> state \<Rightarrow> state" where
  "outerLoop dt now 0 s = s"
| "outerLoop dt now (Suc i) s =
     (case innerLoop dt now i i s of
        Return s' \<Rightarrow> s'
      | Continue s' \<Rightarrow> if playerNeedsReset s' then s' else outerLoop dt now i s'
      | Break k s' \<Rightarrow> if playerNeedsReset s' then s' else outerLoop dt now k s')"
  by pat_completeness auto
termination
proof (relation "measure (\<lambda>(dt, now, n, s). n)")
  show "wf (measure (\<lambda>(dt, now, n, s). n))" by simp
next
  fix dt :: real and now :: int and i :: nat and s x2 :: state
  assume "innerLoop dt now i i s = Continue x2"
  show "((dt, now, i, x2), dt, now, Suc i, s) \<in> measure (\<lambda>(dt, now, n, s). n)" by simp
next
  fix dt :: real and now :: int and i x21 :: nat and s x22 :: state
  assume "innerLoop dt now i i s = Break x21 x22"
  then have "x21 < i" by (rule innerLoop_Break_less) simp
  then show "((dt, now, x21, x22), dt, now, Suc i, s) \<in> measure (\<lambda>(dt, now, n, s). n)" by simp
qed

definition checkCollisions :: "real \<Rightarrow> int \<Rightarrow> state \<Rightarrow> state" where
  "checkCollisions dt now s = outerLoop dt now (length (celestialBodies s)) s"

section \<open>Sun absorption (absorption.js)\<close>

text \<open>
  The win transition, from \<^verbatim>\<open>gameWon = true\<close> to \<^verbatim>\<open>orbitHistory = []\<close>.
  \<^verbatim>\<open>indexOf(sun)\<close> followed by \<^verbatim>\<open>splice(sunIdx, 1)\<close> removes the first occurrence of the
  reference, which is \<open>remove1\<close>.
\<close>

definition clearOtherCenters :: "ref \<Rightarrow> state \<Rightarrow> state" where
  "clearOtherCenters player s =
     fold (\<lambda>r st. if r \<noteq> player then upd r (\<lambda>b. b\<lparr>isGravitationalCenter := False\<rparr>) st else st)
       (celestialBodies s) s"

definition winTransition :: "ref \<Rightarrow> ref \<Rightarrow> state \<Rightarrow> state" where
  "winTransition player sun s6 =
     (let s7 = s6\<lparr>gameWon := True, playerIsGravitationalCenter := True, gravityBlendFactor := 1\<rparr>;
          s8 = setMass player (b_mass (heap s7 player) + sunCurrentGameMass s7) s7;
          s9 = s8\<lparr>sunCurrentGameMass := 0\<rparr>;
          s10 = upd player (\<lambda>b. b\<lparr>isGravitationalCenter := True\<rparr>) s9;
          s11 = s10\<lparr>celestialBodies := remove1 sun (celestialBodies s10)\<rparr>;
          s12 = clearOtherCenters player s11
      in s12\<lparr>orbitHistory := []\<rparr>)"

text \<open>
  The quantities computed at the head of \<^verbatim>\<open>checkSunAbsorption\<close> for the player and
  the sun: \<^verbatim>\<open>canAbsorb\<close>, \<^verbatim>\<open>dist\<close>, \<^verbatim>\<open>touchDist\<close> and \<^verbatim>\<open>absorptionRange\<close>.
\<close>

definition canAbsorb :: "state \<Rightarrow> ref \<Rightarrow> bool" where
  "canAbsorb s player =
     (let massRatio = b_mass (heap s player) / SUN_GAME_MASS
      in massRatio \<ge> SUN_ABSORPTION_START_RATIO)"

definition sunDist :: "state \<Rightarrow> ref \<Rightarrow> ref \<Rightarrow> real" where
  "sunDist s player sun =
     (let dx = b_x (heap s sun) - b_x (heap s player);
          dy = b_y (heap s sun) - b_y (heap s player)
      in sqrt (dx * dx + dy * dy))"

definition touchDist :: "state \<Rightarrow> ref \<Rightarrow> ref \<Rightarrow> real" where
  "touchDist s player sun = radius s (heap s player) + radius s (heap s sun)"

definition absorptionRange :: "state \<Rightarrow> ref \<Rightarrow> ref \<Rightarrow> real" where
  "absorptionRange s player sun = touchDist s player sun * SUN_ABSORPTION_RANGE_MULTIPLIER"

text \<open>
  The absorbing branch, from the computation of \<^verbatim>\<open>proximity\<close> on: the transfer
  \<^verbatim>\<open>rate\<close>, the amount \<^verbatim>\<open>transfer\<close> of the tick, and the transfer itself.
\<close>

definition absorptionRate :: "ref \<Rightarrow> ref \<Rightarrow> state \<Rightarrow> real" where
  "absorptionRate player sun s =
     (let massRatio = b_mass (heap s player) / SUN_GAME_MASS;
          dist = sunDist s player sun;
          touchDist = touchDist s player sun;
          absorptionRange = absorptionRange s player sun;
          proximity = max 0 (min 1 (1 - (dist - touchDist * 0.5) / (absorptionRange - touchDist * 0.5)));
          advantage = min 2 ((massRatio - SUN_ABSORPTION_START_RATIO) / (1 - SUN_ABSORPTION_START_RATIO))
      in SUN_ABSORPTION_RATE * proximity * max 0.2 advantage)"

definition absorptionTransfer :: "real \<Rightarrow> ref \<Rightarrow> ref \<Rightarrow> state \<Rightarrow> real" where
  "absorptionTransfer dt player sun s =
     (let gameDt = dt * currentGameSpeed s;
          rate = absorptionRate player sun s;
          transfer0 = sunCurrentGameMass s * rate * gameDt;
          transfer1 = min transfer0 (sunCurrentGameMass s)
      in max 0 transfer1)"

definition absorb :: "real \<Rightarrow> ref \<Rightarrow> ref \<Rightarrow> state \<Rightarrow> state" where
  "absorb dt player sun s =
     (let transfer = absorptionTransfer dt player sun s
      in if transfer \<le> 0 then s
         else
           (let totalAfter = b_mass (heap s player) + transfer;
                s1 = (if totalAfter > 1 / 10 ^ 9
                      then
                        (let s0a = upd player (\<lambda>b. b\<lparr>b_vx :=
                               (b_mass b * b_vx b + transfer * b_vx (heap s sun)) / totalAfter\<rparr>) s
                         in upd player (\<lambda>b. b\<lparr>b_vy :=
                               (b_mass b * b_vy b + transfer * b_vy (heap s0a sun)) / totalAfter\<rparr>) s0a)
                      else s);
                s2 = setMass player (b_mass (heap s1 player) + transfer) s1;
                s3 = s2\<lparr>sunCurrentGameMass := sunCurrentGameMass s2 - transfer\<rparr>;
                s4 = setMass sun (sunCurrentGameMass s3) s3;
                s5 = s4\<lparr>sunAbsorptionProgress := 1 - sunCurrentGameMass s4 / SUN_GAME_MASS\<rparr>;
                s6 = s5\<lparr>gravityBlendFactor := min 1 (sunAbsorptionProgress s5)\<rparr>
            in if sunCurrentGameMass s6 < SUN_GAME_MASS * 0.02
               then winTransition player sun s6
               else s6))"

definition checkSunAbsorption :: "real \<Rightarrow> state \<Rightarrow> state" where
  "checkSunAbsorption dt s =
     (if gameWon s then s
      else case findBody isPlayer s of
        None \<Rightarrow> s
      | Some player \<Rightarrow>
         (case findBody isSun s of
            None \<Rightarrow> s
          | Some sun \<Rightarrow>
              if \<not> canAbsorb s player
              then
                (let s1 = (if sunDist s player sun < touchDist s player sun * 0.8
                           then s\<lparr>playerNeedsReset := True\<rparr> else s)
                 in s1\<lparr>gravityBlendFactor := max 0 (gravityBlendFactor s1 - 0.5 * dt)\<rparr>)
              else if sunDist s player sun > absorptionRange s player sun
              then s\<lparr>gravityBlendFactor := max 0 (gravityBlendFactor s - 0.3 * dt)\<rparr>
              else absorb dt player sun s))"

section \<open>Ejection (ejection.js)\<close>

text \<open>\<^verbatim>\<open>Math.atan2(y, x)\<close> on finite arguments (signed zeros not distinguished).\<close>

definition atan2 :: "real \<Rightarrow> real \<Rightarrow> real" where
  "atan2 y x =
     (if x > 0 then arctan (y / x)
      else if x < 0 then (if y \<ge> 0 then arctan (y / x) + pi else arctan (y / x) - pi)
      else if y > 0 then pi / 2
      else if y < 0 then - (pi / 2)
      else 0)"

text \<open>\<^verbatim>\<open>Math.round\<close>: the nearest integer, halves rounded up.\<close>

definition js_round :: "real \<Rightarrow> int" where
  "js_round v = \<lfloor>v + 1 / 2\<rfloor>"

text \<open>
  The spark loop.  \<open>tnew k\<close> is the value of \<^verbatim>\<open>Date.now()\<close> when the \<open>k\<close>-th body of the
  call is constructed, \<open>rnd k\<close> the \<open>k\<close>-th value of \<^verbatim>\<open>Math.random()\<close> that the
  simulation uses in the call.
\<close>

definition spawnSpark ::
  "ref \<Rightarrow> real \<Rightarrow> real \<Rightarrow> real \<Rightarrow> real \<Rightarrow> real \<Rightarrow> (nat \<Rightarrow> int) \<Rightarrow> (nat \<Rightarrow> real) \<Rightarrow> nat \<Rightarrow> state \<Rightarrow> state" where
  "spawnSpark player sd ang mainSpeed sparkSpeedMult sparkSpreadAngle tnew rnd i s =
     (let sa = ang + (rnd (2 * i) - 0.5) * sparkSpreadAngle;
          ss = mainSpeed * sparkSpeedMult * (1 + (rnd (2 * i + 1) - 0.5) * 2 * SPARK_SPEED_RANDOMNESS);
          p = heap s player
      in push (CelestialBody s (tnew (Suc i))
                 (b_x p + cos ang * sd) (b_y p + sin ang * sd)
                 (b_vx p + cos sa * ss) (b_vy p + sin sa * ss)
                 SPARK_MASS False False True) s)"

text \<open>
  The three blocks at the end of \<^verbatim>\<open>ejectMass\<close>: the ejected body (when it is not below
  \<^verbatim>\<open>MIN_BODY_MASS\<close>), the sparks, and the recoil of the player.
\<close>

definition ejectBody :: "int \<Rightarrow> ref \<Rightarrow> real \<Rightarrow> real \<Rightarrow> real \<Rightarrow> state \<Rightarrow> state" where
  "ejectBody tcreate player ejectedMass ang mainSpeed s2 =
     (if ejectedMass \<ge> MIN_BODY_MASS
      then
        (let er = calculateRadiusFromMass ejectedMass;
             sd = radius s2 (heap s2 player) + er * 1.1;
             p = heap s2 player
         in push (CelestialBody s2 tcreate
                    (b_x p + cos ang * sd) (b_y p + sin ang * sd)
                    (b_vx p + cos ang * mainSpeed) (b_vy p + sin ang * mainSpeed)
                    ejectedMass False False False) s2)
      else s2)"

definition ejectSparks ::
  "(nat \<Rightarrow> int) \<Rightarrow> (nat \<Rightarrow> real) \<Rightarrow> ref \<Rightarrow> int \<Rightarrow> real \<Rightarrow> real \<Rightarrow> real \<Rightarrow> real \<Rightarrow> state \<Rightarrow> state" where
  "ejectSparks tnew rnd player numSparks ang mainSpeed sparkSpeedMult sparkSpreadAngle s3 =
     (if numSparks > 0
      then
        (let sr = calculateRadiusFromMass SPARK_MASS;
             sd = radius s3 (heap s3 player) + sr * 1.5
         in fold (spawnSpark player sd ang mainSpeed sparkSpeedMult sparkSpreadAngle tnew rnd)
              [0 ..< nat numSparks] s3)
      else s3)"

definition recoil :: "ref \<Rightarrow> real \<Rightarrow> real \<Rightarrow> real \<Rightarrow> state \<Rightarrow> state" where
  "recoil player ejectedMass ang mainSpeed s4 =
     (if b_mass (heap s4 player) > 1 / 10 ^ 9
      then
        (let imp = (ejectedMass * mainSpeed / b_mass (heap s4 player))
                     * EJECTION_PROPULSION_MULTIPLIER;
             s4a = upd player (\<lambda>b. b\<lparr>b_vx := b_vx b - cos ang * imp\<rparr>) s4
         in upd player (\<lambda>b. b\<lparr>b_vy := b_vy b - sin ang * imp\<rparr>) s4a)
      else s4)"

text \<open>
  \<^verbatim>\<open>ejectMass\<close>, from \<^verbatim>\<open>const intRange\<close> on: the ejection itself, for the player
  \<open>player\<close> of mass \<open>initMass\<close> and the amount \<open>ejectedMass\<close>.
\<close>

definition performEjection ::
  "int \<Rightarrow> (nat \<Rightarrow> int) \<Rightarrow> (nat \<Rightarrow> real) \<Rightarrow> ref \<Rightarrow> real \<Rightarrow> real \<Rightarrow> state \<Rightarrow> state" where
  "performEjection currentTime tnew rnd player initMass ejectedMass s1 =
     (let intRange = MAX_EJECTION_PERCENTAGE - BASE_EJECTION_MASS_PERCENT;
          normInt0 = (if intRange > 1 / 10 ^ 9
                      then ((ejectedMass / initMass) - BASE_EJECTION_MASS_PERCENT) / intRange else 0);
          normInt = max 0 (min 1 normInt0);
          numSparks = js_round (MIN_SPARKS + (MAX_SPARKS - MIN_SPARKS) * normInt);
          sparkSpeedMult = MIN_SPARK_SPEED_MULTIPLIER
             + (MAX_SPARK_SPEED_MULTIPLIER - MIN_SPARK_SPEED_MULTIPLIER) * normInt * 170;
          sparkSpreadAngle = MAX_SPARK_SPREAD_ANGLE
             - (MAX_SPARK_SPREAD_ANGLE - MIN_SPARK_SPREAD_ANGLE) * normInt * 15;
          speedF = (if ejectedMass > 1 / 10 ^ 9
                    then sqrt ((initMass * BASE_EJECTION_MASS_PERCENT) / ejectedMass) else 1);
          mainSpeed = EJECTION_BASE_SPEED * speedF;
          s2 = setMass player (b_mass (heap s1 player) - ejectedMass) s1;
          px = (b_x (heap s2 player) - camera_x s2) * camera_scale s2 + canvas_width s2 / 2;
          py = (b_y (heap s2 player) - camera_y s2) * camera_scale s2 + canvas_height s2 / 2;
          ang = atan2 (screenMouseY s2 - py) (screenMouseX s2 - px);
          s3 = ejectBody (tnew 0) player ejectedMass ang mainSpeed s2;
          s4 = ejectSparks tnew rnd player numSparks ang mainSpeed sparkSpeedMult sparkSpreadAngle s3;
          s5 = recoil player ejectedMass ang mainSpeed s4
      in s5\<lparr>lastClickTime := currentTime\<rparr>)"

text \<open>The combo rule: the value assigned to \<^verbatim>\<open>currentEjectionMultiplier\<close> by a click.\<close>

definition comboMultiplier :: "int \<Rightarrow> state \<Rightarrow> real" where
  "comboMultiplier currentTime s =
     (let timeSince = currentTime - lastClickTime s
      in if timeSince \<le> QUICK_CLICK_THRESHOLD
         then min (currentEjectionMultiplier s * EJECTION_GROWTH_RATE) MAX_EJECTION_MULTIPLIER
         else 1)"

text \<open>\<^verbatim>\<open>ejectMass\<close>; \<open>now\<close> is the value of \<^verbatim>\<open>Date.now()\<close> read into \<^verbatim>\<open>currentTime\<close>.\<close>

definition ejectMass :: "int \<Rightarrow> (nat \<Rightarrow> int) \<Rightarrow> (nat \<Rightarrow> real) \<Rightarrow> state \<Rightarrow> state" where
  "ejectMass now tnew rnd s =
     (case findBody isPlayer s of
        None \<Rightarrow> s
      | Some player \<Rightarrow>
         if b_mass (heap s player) \<le> MIN_PLAYER_MASS then s
         else
           (let currentTime = now;
                initMass = b_mass (heap s player);
                s1 = s\<lparr>currentEjectionMultiplier := comboMultiplier currentTime s\<rparr>;
                ejectedMass0 = min (initMass * BASE_EJECTION_MASS_PERCENT * currentEjectionMultiplier s1)
                                   (initMass * MAX_EJECTION_PERCENTAGE)
            in if initMass - ejectedMass0 < MIN_PLAYER_MASS
               then
                 (let ejectedMass = initMass - MIN_PLAYER_MASS
                  in if ejectedMass \<le> 1 / 10 ^ 9 then s1
                     else performEjection currentTime tnew rnd player initMass ejectedMass s1)
               else performEjection currentTime tnew rnd player initMass ejectedMass0 s1))"

definition decayEjectionMultiplier :: "int \<Rightarrow> state \<Rightarrow> state" where
  "decayEjectionMultiplier now s =
     (if now - lastClickTime s > QUICK_CLICK_THRESHOLD \<and>
         now - lastEjectionDecayTime s > EJECTION_DECAY_INTERVAL
      then s\<lparr>currentEjectionMultiplier := max 1 (currentEjectionMultiplier s * EJECTION_DECAY_RATE),
              lastEjectionDecayTime := now\<rparr>
      else s)"

section \<open>The orbit solver (physics.js)\<close>

text \<open>The sentinel results of the solver.\<close>

definition orbit_zero :: orbit_params where
  "orbit_zero = \<lparr>op_a = Fin 0, op_b = Fin 0, op_e = 0, op_periapsisAngle = 0, op_collidesCenter = False\<rparr>"

definition orbit_degenerate :: orbit_params where
  "orbit_degenerate = \<lparr>op_a = PInf, op_b = PInf, op_e = 1, op_periapsisAngle = 0, op_collidesCenter = False\<rparr>"

text \<open>The blended gravitational mass of the centre (\<^verbatim>\<open>effectiveGravMass\<close>).\<close>

definition effectiveGravMass :: "state \<Rightarrow> ref \<Rightarrow> real" where
  "effectiveGravMass s center =
     (if isSun (heap s center)
      then
        (let egm = SUN_GRAVITATIONAL_MASS * (1 - gravityBlendFactor s)
         in case findBody isPlayer s of
              None \<Rightarrow> egm
            | Some pl \<Rightarrow>
                if gravityBlendFactor s > 0
                then egm + b_mass (heap s pl) * GRAVITY_CROSSOVER_MULTIPLIER * gravityBlendFactor s
                else egm)
      else if isPlayer (heap s center) \<and> isGravitationalCenter (heap s center)
      then b_mass (heap s center) * GRAVITY_CROSSOVER_MULTIPLIER
      else b_mass (heap s center))"

text \<open>The solver's \<^verbatim>\<open>mu\<close>.\<close>

definition orbit_mu :: "state \<Rightarrow> ref \<Rightarrow> ref \<Rightarrow> real" where
  "orbit_mu s body center = G * (effectiveGravMass s center + b_mass (heap s body))"

text \<open>
  The Kepler computation of \<^verbatim>\<open>calculateOrbitParameters\<close>, from \<^verbatim>\<open>const r\<close> on: the
  relative position \<open>(rx, ry)\<close> and velocity \<open>(vx, vy)\<close>, the parameter \<open>mu\<close>, and the sum
  \<open>radii\<close> of the two radii.  Over the reals every intermediate value is finite, so the two
  \<^verbatim>\<open>isFinite\<close> tests always succeed.  The arithmetic is exact, while the program computes
  in doubles; a result of the program can differ from the one given here by the rounding,
  and a comparison of two numbers that rounding makes neighbours can fall the other way.
\<close>

definition keplerParams :: "real \<Rightarrow> real \<Rightarrow> real \<Rightarrow> real \<Rightarrow> real \<Rightarrow> real \<Rightarrow> orbit_params" where
  "keplerParams rx ry vx vy mu radii =
     (let r = sqrt (rx * rx + ry * ry + 1 / 10 ^ 9);
          vSq = vx * vx + vy * vy;
          rdotv = rx * vx + ry * vy;
          E = vSq / 2 - mu / r
      in if E \<ge> - (1 / 10 ^ 9) then orbit_degenerate
         else
           (let a = - mu / (2 * E)
            in if a \<le> 0 then orbit_degenerate
               else
                 (let h = rx * vy - ry * vx;
                      eSq = 1 + (2 * E * h * h) / (mu * mu);
                      e = (if eSq > 1 / 10 ^ 9 then sqrt eSq else 0);
                      b = a * sqrt (max 0 (1 - e * e));
                      muInv = 1 / mu; rInv = 1 / r;
                      fac = vSq * muInv - rInv;
                      ex = fac * rx - rdotv * vx * muInv;
                      ey = fac * ry - rdotv * vy * muInv;
                      periapsisAngle = atan2 ey ex;
                      collidesCenter = (a * (1 - e) \<le> radii)
                  in \<lparr>op_a = Fin a, op_b = Fin b, op_e = e,
                      op_periapsisAngle = periapsisAngle,
                      op_collidesCenter = collidesCenter\<rparr>)))"

text \<open>\<^verbatim>\<open>calculateOrbitParameters(body, center)\<close>; \<open>None\<close> is a null centre.\<close>

definition calculateOrbitParameters :: "state \<Rightarrow> ref \<Rightarrow> ref option \<Rightarrow> orbit_params" where
  "calculateOrbitParameters s body centerOpt =
     (case centerOpt of
        None \<Rightarrow> orbit_zero
      | Some center \<Rightarrow>
         if b_mass (heap s body) \<le> 0 \<or> isSpark (heap s body) \<or> body = center then orbit_zero
         else
           (let bd = heap s body; c = heap s center;
                rx = b_x bd - b_x c; ry = b_y bd - b_y c;
                cvx = (if isPlayer c \<and> isGravitationalCenter c then 0 else b_vx c);
                cvy = (if isPlayer c \<and> isGravitationalCenter c then 0 else b_vy c);
                vx = b_vx bd - cvx; vy = b_vy bd - cvy;
                mu = orbit_mu s body center
            in keplerParams rx ry vx vy mu (radius s c + radius s bd)))"

section \<open>Reset, warning and orbit history (population.js, game-state.js)\<close>

text \<open>
  One iteration of the loop of \<^verbatim>\<open>populateSystem\<close>, for the index \<open>i\<close>; \<open>k0\<close> is the
  number of bodies constructed earlier in the enclosing call.  The counter
  \<^verbatim>\<open>largerCount\<close> only feeds a log line and is left out.
\<close>

definition populateOne :: "ref \<Rightarrow> nat \<Rightarrow> (nat \<Rightarrow> int) \<Rightarrow> (nat \<Rightarrow> real) \<Rightarrow> nat \<Rightarrow> state \<Rightarrow> state" where
  "populateOne centerBody k0 tnew rnd i s =
     (let c = heap s centerBody;
          ang = rnd (5 * i) * pi * 2;
          baseDist = max (radius s c) SUN_DISPLAY_RADIUS;
          distance = baseDist * 3.5 + rnd (5 * i + 1) * baseDist * 15;
          px = b_x c + cos ang * distance;
          py = b_y c + sin ang * distance;
          gravMass = (if isSun c then SUN_GRAVITATIONAL_MASS else b_mass c * GRAVITY_CROSSOVER_MULTIPLIER);
          orbitalSpeed = sqrt ((G * gravMass) / max 1 distance);
          sf = 0.9 + rnd (5 * i + 2) * 0.2;
          pvx = b_vx c - sin ang * orbitalSpeed * sf;
          pvy = b_vy c + cos ang * orbitalSpeed * sf;
          rand = rnd (5 * i + 3);
          m0 = (if rand < 0.7 then PLAYER_INITIAL_MASS * (0.02 + rnd (5 * i + 4) * 0.2)
                else if rand < 0.9 then PLAYER_INITIAL_MASS * (0.4 + rnd (5 * i + 4) * 0.5)
                else PLAYER_INITIAL_MASS * (1.1 + rnd (5 * i + 4) * 1.4));
          m = max MIN_BODY_MASS m0
      in push (CelestialBody s (tnew (k0 + i)) px py pvx pvy m False False False) s)"

definition populateSystem :: "nat \<Rightarrow> nat \<Rightarrow> (nat \<Rightarrow> int) \<Rightarrow> (nat \<Rightarrow> real) \<Rightarrow> state \<Rightarrow> state" where
  "populateSystem numMasses k0 tnew rnd s =
     (case findBody isGravitationalCenter s of
        None \<Rightarrow> s
      | Some centerBody \<Rightarrow> fold (populateOne centerBody k0 tnew rnd) [0 ..< numMasses] s)"

text \<open>
  \<^verbatim>\<open>resetPlayer\<close>.  The sun is the registered sun, or a new one; the registry is
  replaced by the sun and a new player, and the system is populated again.
\<close>

definition resetPlayer :: "(nat \<Rightarrow> int) \<Rightarrow> (nat \<Rightarrow> real) \<Rightarrow> state \<Rightarrow> state" where
  "resetPlayer tnew rnd s =
     (let sun = (case findBody isSun s of None \<Rightarrow> nextRef s | Some r \<Rightarrow> r);
          s1 = (case findBody isSun s of
                  None \<Rightarrow> push (CelestialBody s (tnew 0) 0 0 0 0 SUN_GAME_MASS False True False) s
                | Some r \<Rightarrow>
                    (let s0a = upd r (\<lambda>b. b\<lparr>isGravitationalCenter := True\<rparr>) s
                     in setMass r SUN_GAME_MASS s0a));
          s2 = s1\<lparr>sunCurrentGameMass := SUN_GAME_MASS\<rparr>;
          orbitR = max (radius s2 (heap s2 sun) * 1.5) (min (canvas_width s2) (canvas_height s2) * 0.35);
          orbSpeed = sqrt ((G * SUN_GRAVITATIONAL_MASS) / orbitR);
          s3 = s2\<lparr>celestialBodies := [sun]\<rparr>;
          p = nextRef s3;
          pb = CelestialBody s3 (tnew 1) (b_x (heap s3 sun)) (b_y (heap s3 sun) - orbitR)
                 (b_vx (heap s3 sun) + orbSpeed) (b_vy (heap s3 sun)) PLAYER_INITIAL_MASS True False False;
          s4 = push (pb\<lparr>isGravitationalCenter := False\<rparr>) s3;
          s5 = s4\<lparr>gameWon := False, playerIsGravitationalCenter := False,
                   sunAbsorptionProgress := 0, gravityBlendFactor := 0\<rparr>;
          s6 = upd sun (\<lambda>b. b\<lparr>isGravitationalCenter := True\<rparr>) s5;
          s7 = populateSystem INIT_NUM_BODIES 2 tnew rnd s6
      in s7\<lparr>orbitHistory := [], currentEjectionMultiplier := 1,
              lastClickTime := 0, lastEjectionDecayTime := 0,
              currentWarningIntensity := 0,
              camera_x := b_x (heap s7 p), camera_y := b_y (heap s7 p), camera_scale := 1,
              playerNeedsReset := False\<rparr>)"

definition calculateWarningIntensity :: "state \<Rightarrow> real" where
  "calculateWarningIntensity s =
     (case findBody isPlayer s of
        None \<Rightarrow> 0
      | Some player \<Rightarrow>
          if gameWon s \<or> sunAbsorptionProgress s > 0 then 0
          else
            (let range = PLAYER_INITIAL_MASS - MIN_PLAYER_MASS
             in if range \<le> 0 then 0
                else
                  (let ratio = (b_mass (heap s player) - MIN_PLAYER_MASS) / range
                   in if ratio > 0.5 then 0 else max 0 (min 1 (1 - ratio / 0.5)))))"

text \<open>\<^verbatim>\<open>isFinite(v) && v > 0\<close> on a stored orbit axis.\<close>

fun finite_pos :: "num \<Rightarrow> bool" where
  "finite_pos (Fin a) = (a > 0)"
| "finite_pos PInf = False"
| "finite_pos NInf = False"
| "finite_pos NaN = False"

definition updateOrbitHistory :: "state \<Rightarrow> state" where
  "updateOrbitHistory s =
     (let player = findBody isPlayer s;
          center = findBody isSun s
      in case (player, center) of
           (Some pl, Some c) \<Rightarrow>
             if pl \<noteq> c
             then
               (let p = calculateOrbitParameters s pl (Some c)
                in if finite_pos (op_a p) \<and> finite_pos (op_b p)
                   then
                     (let entry = \<lparr>op_a = op_a p, op_b = op_b p, op_e = op_e p,
                                   op_periapsisAngle = op_periapsisAngle p,
                                   op_collidesCenter = op_collidesCenter p,
                                   absorbing = (sunAbsorptionProgress s > 0),
                                   absorptionProgress = sunAbsorptionProgress s\<rparr>;
                          h1 = entry # orbitHistory s
                      in s\<lparr>orbitHistory := (if length h1 > ORBIT_HISTORY_LENGTH then butlast h1 else h1)\<rparr>)
                   else s)
             else s\<lparr>orbitHistory := []\<rparr>
         | _ \<Rightarrow> s\<lparr>orbitHistory := []\<rparr>)"

section \<open>The physics tick (physics.js)\<close>

text \<open>
  The velocity of a body after the pull of one gravity source of effective mass \<open>gm\<close>,
  as the body of each of the three gravity loops computes it.  The quotient
  \<^verbatim>\<open>G * effectiveGravMass / distSq\<close> and the products after it follow the IEEE rules,
  because \<open>distSq\<close> can be zero.
\<close>

definition gravityKick :: "real \<Rightarrow> body \<Rightarrow> body \<Rightarrow> real \<Rightarrow> num \<times> num" where
  "gravityKick gm src b gameDt =
     (let dx = b_x src - b_x b; dy = b_y src - b_y b;
          distSq = dx * dx + dy * dy;
          dist = sqrt (distSq + 1 / 10 ^ 6)
      in if dist > 0
         then
           (let acc = num_div (Fin (G * gm)) (Fin distSq)
            in (num_add (Fin (b_vx b)) (num_mul (num_div (num_mul acc (Fin dx)) (Fin dist)) (Fin gameDt)),
                num_add (Fin (b_vy b)) (num_mul (num_div (num_mul acc (Fin dy)) (Fin dist)) (Fin gameDt))))
         else (Fin (b_vx b), Fin (b_vy b)))"

text \<open>
  A gravity loop over the registry, for the source \<open>src\<close>.  The three loops of the tick
  differ in the effective mass and in whether the sun is skipped (\<open>skipSun\<close>, the player's
  loop before the win).  The store holds reals only: when a velocity leaves the finite
  numbers the model stops with \<open>None\<close>.
\<close>

fun gravityLoop :: "real \<Rightarrow> ref \<Rightarrow> bool \<Rightarrow> real \<Rightarrow> ref list \<Rightarrow> state \<Rightarrow> state option" where
  "gravityLoop gm src skipSun gameDt [] s = Some s"
| "gravityLoop gm src skipSun gameDt (r # rs) s =
     (if r = src \<or> b_mass (heap s r) \<le> 0 \<or> (skipSun \<and> isSun (heap s r))
      then gravityLoop gm src skipSun gameDt rs s
      else
        (case gravityKick gm (heap s src) (heap s r) gameDt of
           (Fin nvx, Fin nvy) \<Rightarrow>
             gravityLoop gm src skipSun gameDt rs (upd r (\<lambda>b. b\<lparr>b_vx := nvx, b_vy := nvy\<rparr>) s)
         | _ \<Rightarrow> None))"

text \<open>The filter of the cleanup step.\<close>

definition keepBody :: "int \<Rightarrow> body \<Rightarrow> bool" where
  "keepBody now b =
     (if isSpark b \<and> now - creationTime b \<ge> SPARK_LIFESPAN then False
      else if \<not> isPlayer b \<and> \<not> isGravitationalCenter b \<and> \<not> isSun b \<and> \<not> isSpark b
              \<and> b_mass b < MIN_BODY_MASS then False
      else True)"

definition cleanup :: "int \<Rightarrow> state \<Rightarrow> state" where
  "cleanup now s = s\<lparr>celestialBodies := filter (\<lambda>r. keepBody now (heap s r)) (celestialBodies s)\<rparr>"

text \<open>
  The three gravity blocks of the tick (the sun's pull, the player's pull, the pull of the
  player as sole source after the win) and the fatal-state test that follows them.
\<close>

definition sunGravity :: "real \<Rightarrow> ref option \<Rightarrow> state \<Rightarrow> state option" where
  "sunGravity gameDt sun s1 =
     (case sun of
        Some sn \<Rightarrow>
          if gravityBlendFactor s1 < 1
          then
            (let sunWeight = 1 - gravityBlendFactor s1;
                 effectiveGravMass = SUN_GRAVITATIONAL_MASS * sunWeight
             in gravityLoop effectiveGravMass sn False gameDt (celestialBodies s1) s1)
          else Some s1
      | None \<Rightarrow> Some s1)"

definition playerGravity :: "real \<Rightarrow> ref option \<Rightarrow> state \<Rightarrow> state option" where
  "playerGravity gameDt player s2 =
     (case player of
        Some pl \<Rightarrow>
          if gravityBlendFactor s2 > 0 \<and> b_mass (heap s2 pl) > 0
          then
            (let playerWeight = gravityBlendFactor s2;
                 effectivePlayerGravMass =
                   b_mass (heap s2 pl) * GRAVITY_CROSSOVER_MULTIPLIER * playerWeight
             in gravityLoop effectivePlayerGravMass pl True gameDt (celestialBodies s2) s2)
          else Some s2
      | None \<Rightarrow> Some s2)"

definition postWinGravity :: "real \<Rightarrow> ref option \<Rightarrow> ref option \<Rightarrow> state \<Rightarrow> state option" where
  "postWinGravity gameDt sun player s3 =
     (case player of
        Some pl \<Rightarrow>
          if sun = None \<and> gameWon s3
          then
            (let gm = b_mass (heap s3 pl) * GRAVITY_CROSSOVER_MULTIPLIER
             in gravityLoop gm pl False gameDt (celestialBodies s3) s3)
          else Some s3
      | None \<Rightarrow> Some s3)"

definition fatalCheck :: "ref option \<Rightarrow> ref option \<Rightarrow> state \<Rightarrow> state" where
  "fatalCheck sun player s4 =
     (if sun = None \<and> player = None \<and> \<not> gameWon s4
      then s4\<lparr>playerNeedsReset := True\<rparr> else s4)"

definition gravityStage :: "real \<Rightarrow> ref option \<Rightarrow> ref option \<Rightarrow> state \<Rightarrow> state option" where
  "gravityStage gameDt sun player s1 =
     (case sunGravity gameDt sun s1 of
        None \<Rightarrow> None
      | Some s2 \<Rightarrow>
         (case playerGravity gameDt player s2 of
            None \<Rightarrow> None
          | Some s3 \<Rightarrow>
             (case postWinGravity gameDt sun player s3 of
                None \<Rightarrow> None
              | Some s4 \<Rightarrow> Some (fatalCheck sun player s4))))"

text \<open>The position update of one body.\<close>

definition MAX_V :: real where "MAX_V = 15000"

definition moveBody :: "real \<Rightarrow> state \<Rightarrow> body \<Rightarrow> body" where
  "moveBody gameDt s b0 =
     (let sSq = b_vx b0 * b_vx b0 + b_vy b0 * b_vy b0;
          b1 = (if sSq > MAX_V * MAX_V
                then (let f = MAX_V / sqrt sSq in b0\<lparr>b_vx := b_vx b0 * f, b_vy := b_vy b0 * f\<rparr>)
                else b0);
          b2 = b1\<lparr>b_x := b_x b1 + b_vx b1 * gameDt\<rparr>;
          b3 = b2\<lparr>b_y := b_y b2 + b_vy b2 * gameDt\<rparr>
      in if isPlayer b3
         then
           (let px = (b_x b3 - camera_x s) * camera_scale s + canvas_width s / 2;
                py = (b_y b3 - camera_y s) * camera_scale s + canvas_height s / 2
            in b3\<lparr>angle := atan2 (screenMouseY s - py) (screenMouseX s - px)\<rparr>)
         else b3)"

definition updatePositions :: "real \<Rightarrow> state \<Rightarrow> state" where
  "updatePositions gameDt s = fold (\<lambda>r st. upd r (moveBody gameDt st) st) (celestialBodies s) s"

text \<open>
  The orbit-parameter loop for one body; \<open>center\<close> is \<^verbatim>\<open>effectiveCenter\<close>, which may be
  an object that has left the registry (the sun in the tick of the win).
\<close>

definition orbitOne :: "real \<Rightarrow> ref \<Rightarrow> ref option \<Rightarrow> real \<Rightarrow> ref \<Rightarrow> state \<Rightarrow> state" where
  "orbitOne dt center proxPlayer maxDistSq r s =
     (if r = center \<or> isSpark (heap s r) \<or> b_mass (heap s r) \<le> 0 then s
      else if Some r = proxPlayer \<and> Some center = proxPlayer then s
      else if radius s (heap s r) * camera_scale s < MIN_TRAIL_RADIUS_PX \<and> \<not> isPlayer (heap s r)
      then upd r (\<lambda>b. b\<lparr>trailOpacity := 0\<rparr>) s
      else
        (let params = calculateOrbitParameters s r (Some center);
             s1 = upd r (\<lambda>b. b\<lparr>orbitA := op_a params, orbitB := op_b params, orbitE := op_e params,
                                orbitPeriapsisAngle := op_periapsisAngle params,
                                orbitCollidesCenter := op_collidesCenter params\<rparr>) s
         in if \<not> isPlayer (heap s1 r)
            then
              (let targetOp =
                     (if gravityBlendFactor s1 > 0.5 then 1
                      else case proxPlayer of
                             Some pp \<Rightarrow>
                               if maxDistSq > 0
                               then
                                 (let dx = b_x (heap s1 r) - b_x (heap s1 pp);
                                      dy = b_y (heap s1 r) - b_y (heap s1 pp)
                                  in if dx * dx + dy * dy \<le> maxDistSq then 1 else 0)
                               else 0
                           | None \<Rightarrow> (0::real));
                   op0 = trailOpacity (heap s1 r);
                   rate = (if targetOp > op0 then TRAIL_FADE_IN_RATE else TRAIL_FADE_OUT_RATE);
                   op1 = (if targetOp > op0 then min targetOp (op0 + rate * dt)
                          else max targetOp (op0 - rate * dt))
               in upd r (\<lambda>b. b\<lparr>trailOpacity := max 0 (min 1 op1)\<rparr>) s1)
            else s1))"

definition orbitStage :: "real \<Rightarrow> ref option \<Rightarrow> ref option \<Rightarrow> state \<Rightarrow> state" where
  "orbitStage dt sun player s =
     (let effectiveCenter = (case sun of Some sn \<Rightarrow> Some sn
                             | None \<Rightarrow> if gameWon s then player else None)
      in case effectiveCenter of
           None \<Rightarrow> s
         | Some center \<Rightarrow>
            (let proxPlayer = findBody isPlayer s;
                 maxDistSq = (case proxPlayer of
                                Some pp \<Rightarrow> (radius s (heap s pp) * 1.25 * TRAIL_PROXIMITY_FACTOR) ^ 2
                              | None \<Rightarrow> - 1)
             in fold (orbitOne dt center proxPlayer maxDistSq) (celestialBodies s) s))"

text \<open>The rest of the tick after the absorption check: camera, warning, history, combo decay.\<close>

definition finishTick :: "real \<Rightarrow> int \<Rightarrow> ref option \<Rightarrow> state \<Rightarrow> state" where
  "finishTick dt nowDecay player s9 =
     (let s10 = (case player of
                   Some pl \<Rightarrow> s9\<lparr>camera_x := b_x (heap s9 pl), camera_y := b_y (heap s9 pl)\<rparr>
                 | None \<Rightarrow> s9);
          tw = calculateWarningIntensity s10;
          w1 = currentWarningIntensity s10 + (tw - currentWarningIntensity s10) * 5 * dt;
          s11 = s10\<lparr>currentWarningIntensity := max 0 (min 1 w1)\<rparr>;
          s12 = updateOrbitHistory s11
      in decayEjectionMultiplier nowDecay s12)"

text \<open>
  \<^verbatim>\<open>updatePhysics(dt)\<close>.  \<open>nowCleanup\<close>, \<open>nowCollide\<close> and \<open>nowDecay\<close> are the values of
  \<^verbatim>\<open>Date.now()\<close> read by the cleanup, by \<^verbatim>\<open>checkCollisions\<close> and by
  \<^verbatim>\<open>decayEjectionMultiplier\<close>; \<open>tnew\<close> and \<open>rnd\<close> feed \<^verbatim>\<open>resetPlayer\<close>.  The locals
  \<^verbatim>\<open>sun\<close> and \<^verbatim>\<open>player\<close> are looked up once, after the cleanup.
\<close>

definition updatePhysics ::
  "real \<Rightarrow> int \<Rightarrow> int \<Rightarrow> int \<Rightarrow> (nat \<Rightarrow> int) \<Rightarrow> (nat \<Rightarrow> real) \<Rightarrow> state \<Rightarrow> state option" where
  "updatePhysics dt nowCleanup nowCollide nowDecay tnew rnd s =
     (let gameDt = dt * currentGameSpeed s;
          s0 = s\<lparr>collisionDetectedThisFrame := False\<rparr>;
          s1 = cleanup nowCleanup s0;
          sun = findBody isSun s1;
          player = findBody isPlayer s1
      in case gravityStage gameDt sun player s1 of
           None \<Rightarrow> None
         | Some s5 \<Rightarrow>
            (let s6 = updatePositions gameDt s5;
                 s7 = checkCollisions dt nowCollide s6
             in if playerNeedsReset s7 then Some (resetPlayer tnew rnd s7)
                else
                  (let s8 = checkSunAbsorption dt s7;
                       s9 = orbitStage dt sun player s8
                   in Some (finishTick dt nowDecay player s9))))"

section \<open>Initialisation (main.js)\<close>

text \<open>
  The simulation part of \<^verbatim>\<open>initializeGame\<close>; \<open>w\<close> and \<open>h\<close> are the window size that
  \<^verbatim>\<open>resizeCanvas\<close> copies to the canvas.
\<close>

definition initializeGame :: "real \<Rightarrow> real \<Rightarrow> (nat \<Rightarrow> int) \<Rightarrow> (nat \<Rightarrow> real) \<Rightarrow> state \<Rightarrow> state" where
  "initializeGame w h tnew rnd s =
     (let s1 = s\<lparr>canvas_width := w, canvas_height := h\<rparr>;
          s2 = s1\<lparr>sunCurrentGameMass := SUN_GAME_MASS\<rparr>;
          s3 = push (CelestialBody s2 (tnew 0) 0 0 0 0 SUN_GAME_MASS False True False)
                 (s2\<lparr>celestialBodies := []\<rparr>);
          orbitRadius = min (canvas_width s3) (canvas_height s3) * 0.35;
          orbitalSpeed = sqrt ((G * SUN_GRAVITATIONAL_MASS) / orbitRadius);
          s4 = push (CelestialBody s3 (tnew 1) 0 (- orbitRadius) orbitalSpeed 0
                       PLAYER_INITIAL_MASS True False False) s3;
          s5 = s4\<lparr>playerIsGravitationalCenter := False, sunAbsorptionProgress := 0,
                   gravityBlendFactor := 0\<rparr>;
          s6 = populateSystem INIT_NUM_BODIES 2 tnew rnd s5
      in s6\<lparr>gameWon := False, playerNeedsReset := False, orbitHistory := [],
              currentEjectionMultiplier := 1, lastClickTime := 0, lastEjectionDecayTime := 0,
              currentWarningIntensity := 0, camera_x := 0, camera_y := 0, camera_scale := 1\<rparr>)"

section \<open>Auxiliary notions for the statements\<close>

text \<open>The state carried by the outcome of a pass of the inner collision loop.\<close>

fun state_of :: "pair_result \<Rightarrow> state" where
  "state_of (Continue s) = s"
| "state_of (Break k s) = s"
| "state_of (Return s) = s"

text \<open>The sum of the masses of the registered bodies.\<close>

definition totalMass :: "state \<Rightarrow> real" where
  "totalMass s = sum_list (map (\<lambda>r. b_mass (heap s r)) (celestialBodies s))"

text \<open>
  The indices that \<^verbatim>\<open>checkCollisions\<close> assigns to \<^verbatim>\<open>bigI\<close> and \<^verbatim>\<open>smallI\<close> for
  the pair \<open>(i, j)\<close>: the first body is the big one unless it is strictly lighter.
\<close>

definition bigOf :: "state \<Rightarrow> nat \<Rightarrow> nat \<Rightarrow> nat" where
  "bigOf s i j = (if b_mass (heap s (celestialBodies s ! i)) \<ge> b_mass (heap s (celestialBodies s ! j)) then i else j)"
definition smallOf :: "state \<Rightarrow> nat \<Rightarrow> nat \<Rightarrow> nat" where
  "smallOf s i j = (if b_mass (heap s (celestialBodies s ! i)) \<ge> b_mass (heap s (celestialBodies s ! j)) then j else i)"

text \<open>Applying a state transformer inside the outcome of a pass of the inner loop.\<close>

fun map_state :: "(state \<Rightarrow> state) \<Rightarrow> pair_result \<Rightarrow> pair_result" where
  "map_state f (Continue s) = Continue (f s)"
| "map_state f (Break k s) = Break k (f s)"
| "map_state f (Return s) = Return (f s)"

text \<open>
  The tick around its collision stage: \<open>tickSun\<close> and \<open>tickPlayer\<close> are the locals
  \<^verbatim>\<open>sun\<close> and \<^verbatim>\<open>player\<close> of \<^verbatim>\<open>updatePhysics\<close>, \<open>collisionEntry\<close> is the state in
  which the tick calls \<^verbatim>\<open>checkCollisions\<close> (after cleanup, gravity and the position
  update, all of which use \<^verbatim>\<open>gameDt\<close>), and \<open>afterCollisions\<close> is what the tick does
  with the state that \<^verbatim>\<open>checkCollisions\<close> leaves.
\<close>

definition tickSun :: "int \<Rightarrow> state \<Rightarrow> ref option" where
  "tickSun nowCleanup s = findBody isSun (cleanup nowCleanup (s\<lparr>collisionDetectedThisFrame := False\<rparr>))"

definition tickPlayer :: "int \<Rightarrow> state \<Rightarrow> ref option" where
  "tickPlayer nowCleanup s = findBody isPlayer (cleanup nowCleanup (s\<lparr>collisionDetectedThisFrame := False\<rparr>))"

definition collisionEntry :: "real \<Rightarrow> int \<Rightarrow> state \<Rightarrow> state option" where
  "collisionEntry dt nowCleanup s =
     (let gameDt = dt * currentGameSpeed s
      in map_option (updatePositions gameDt)
           (gravityStage gameDt (tickSun nowCleanup s) (tickPlayer nowCleanup s)
              (cleanup nowCleanup (s\<lparr>collisionDetectedThisFrame := False\<rparr>))))"

definition afterCollisions ::
  "real \<Rightarrow> int \<Rightarrow> (nat \<Rightarrow> int) \<Rightarrow> (nat \<Rightarrow> real) \<Rightarrow> ref option \<Rightarrow> ref option \<Rightarrow> state \<Rightarrow> state" where
  "afterCollisions dt nowDecay tnew rnd sun player s7 =
     (if playerNeedsReset s7 then resetPlayer tnew rnd s7
      else finishTick dt nowDecay player (orbitStage dt sun player (checkSunAbsorption dt s7)))"

text \<open>
  Every registered reference has been handed out by \<^verbatim>\<open>new\<close>: it lies below \<open>nextRef\<close>,
  so that an object constructed later is a different object.
\<close>

definition allocated :: "state \<Rightarrow> bool" where
  "allocated s = list_all (\<lambda>r. r < nextRef s) (celestialBodies s)"

text \<open>
  The amount that \<^verbatim>\<open>ejectMass\<close> first assigns to \<^verbatim>\<open>ejectedMass\<close>, before the floor
  is applied.
\<close>

definition proposedEjection :: "int \<Rightarrow> ref \<Rightarrow> state \<Rightarrow> real" where
  "proposedEjection now p s =
     min (b_mass (heap s p) * BASE_EJECTION_MASS_PERCENT * comboMultiplier now s)
         (b_mass (heap s p) * MAX_EJECTION_PERCENTAGE)"

text \<open>
  The branch that \<^verbatim>\<open>checkSunAbsorption\<close> takes in a state: none (the game is won, or
  the player or the sun is missing), the player is too light, the player is out of range,
  or the player \<open>p\<close> absorbs from the sun \<open>sn\<close>.
\<close>

datatype phase = Inactive | NotEligible ref ref | OutOfRange ref ref | Absorbing ref ref

definition absorptionPhase :: "state \<Rightarrow> phase" where
  "absorptionPhase s =
     (if gameWon s then Inactive
      else case findBody isPlayer s of
        None \<Rightarrow> Inactive
      | Some player \<Rightarrow>
         (case findBody isSun s of
            None \<Rightarrow> Inactive
          | Some sun \<Rightarrow>
              if \<not> canAbsorb s player then NotEligible player sun
              else if sunDist s player sun > absorptionRange s player sun then OutOfRange player sun
              else Absorbing player sun))"

text \<open>
  The role flags of a body; the registered gravitational centres, and the numbers of
  registered gravitational centres and of registered players.
\<close>

definition flags :: "body \<Rightarrow> bool \<times> bool \<times> bool \<times> bool" where
  "flags b = (isPlayer b, isSun b, isSpark b, isGravitationalCenter b)"

definition gravitationalCenters :: "state \<Rightarrow> ref list" where
  "gravitationalCenters s = filter (\<lambda>r. isGravitationalCenter (heap s r)) (celestialBodies s)"

definition gcCount :: "state \<Rightarrow> nat" where
  "gcCount s = length (gravitationalCenters s)"

definition playerCount :: "state \<Rightarrow> nat" where
  "playerCount s = length (filter (\<lambda>r. isPlayer (heap s r)) (celestialBodies s))"

text \<open>
  The consistency of a state, as the simulation maintains it: every object is registered
  once and has been allocated; a registered body has at most one of the roles player, sun
  and spark; a registered sun is a gravitational centre; exactly one registered body is a
  gravitational centre, and it is a sun before the win and a player after it; there is at
  most one registered player; after the win the blend factor is 1.
\<close>

definition roleOk :: "state \<Rightarrow> ref \<Rightarrow> bool" where
  "roleOk s r =
     (\<not> (isPlayer (heap s r) \<and> isSun (heap s r))
      \<and> \<not> (isSpark (heap s r) \<and> (isPlayer (heap s r) \<or> isSun (heap s r)))
      \<and> (isSun (heap s r) \<longrightarrow> isGravitationalCenter (heap s r))
      \<and> (isGravitationalCenter (heap s r) \<longrightarrow>
            (if gameWon s then isPlayer (heap s r) else isSun (heap s r))))"

definition consistent :: "state \<Rightarrow> bool" where
  "consistent s =
     (distinct (celestialBodies s) \<and> allocated s
      \<and> list_all (roleOk s) (celestialBodies s)
      \<and> gcCount s = 1
      \<and> playerCount s \<le> 1
      \<and> (gameWon s \<longrightarrow> gravityBlendFactor s = 1))"

text \<open>
  The gravitational centre of a state: the only registered body with the flag, which is
  the registered sun before the win and the registered player after it.
\<close>

definition centerIsCurrent :: "state \<Rightarrow> bool" where
  "centerIsCurrent s =
     (map Some (gravitationalCenters s)
        = [if gameWon s then findBody isPlayer s else findBody isSun s])"

text \<open>The state of affairs after the win.\<close>

definition wonState :: "state \<Rightarrow> bool" where
  "wonState s =
     (list_all (\<lambda>r. \<not> isSun (heap s r)) (celestialBodies s)
      \<and> gravityBlendFactor s = 1
      \<and> map Some (gravitationalCenters s) = [findBody isPlayer s])"

text \<open>Every registered player is a gravitational centre (as it is after the win).\<close>

definition playersCentral :: "state \<Rightarrow> bool" where
  "playersCentral s =
     list_all (\<lambda>r. isPlayer (heap s r) \<longrightarrow> isGravitationalCenter (heap s r)) (celestialBodies s)"

text \<open>
  What the stages of the tick other than the win transition and the reset may do: they
  keep the role flags of every object, the win flag, the allocation counter and (after the
  win) the blend factor, and they only remove bodies from the registry, never a
  gravitational centre.
\<close>

definition frame :: "state \<Rightarrow> state \<Rightarrow> bool" where
  "frame s s' =
     ((\<forall>r. flags (heap s' r) = flags (heap s r))
      \<and> gameWon s' = gameWon s \<and> nextRef s' = nextRef s
      \<and> (gameWon s \<longrightarrow> gravityBlendFactor s' = gravityBlendFactor s)
      \<and> (distinct (celestialBodies s) \<longrightarrow> distinct (celestialBodies s'))
      \<and> set (celestialBodies s') \<subseteq> set (celestialBodies s)
      \<and> (\<forall>r \<in> set (celestialBodies s). isGravitationalCenter (heap s r) \<longrightarrow> r \<in> set (celestialBodies s')))"

text \<open>
  An outcome of a pass of the inner collision loop that has not asked for a reset: it is
  not a \<^verbatim>\<open>return\<close>, a \<^verbatim>\<open>break\<close> has removed one body, and otherwise the registry is
  the same.
\<close>

fun quietOutcome :: "state \<Rightarrow> pair_result \<Rightarrow> bool" where
  "quietOutcome s (Continue s') =
     (celestialBodies s' = celestialBodies s \<and> playerNeedsReset s' = playerNeedsReset s)"
| "quietOutcome s (Break k s') =
     (Suc (length (celestialBodies s')) = length (celestialBodies s)
      \<and> playerNeedsReset s' = playerNeedsReset s)"
| "quietOutcome s (Return s') = False"

text \<open>
  The numbers of the program are IEEE doubles.  \<^verbatim>\<open>MIN_PLAYER_MASS\<close> lies between \<open>2\<^sup>2\<^sup>3\<close>
  and \<open>2\<^sup>2\<^sup>4\<close>, where neighbouring doubles are \<open>2\<^sup>-\<^sup>2\<^sup>9\<close> apart, and the spacing of
  larger doubles is coarser: a mass held by the program is at most the floor, or exceeds
  it by at least \<open>2\<^sup>-\<^sup>2\<^sup>9\<close>.
\<close>

definition floorSpaced :: "state \<Rightarrow> ref \<Rightarrow> bool" where
  "floorSpaced s p =
     (b_mass (heap s p) \<le> MIN_PLAYER_MASS \<or> MIN_PLAYER_MASS + 1 / 2 ^ 29 \<le> b_mass (heap s p))"

text \<open>
  The amount that \<^verbatim>\<open>ejectMass\<close> takes from a player above the floor: the proposed
  amount, reduced to what the floor leaves.
\<close>

definition ejectedAmount :: "int \<Rightarrow> ref \<Rightarrow> state \<Rightarrow> real" where
  "ejectedAmount now p s =
     (if b_mass (heap s p) - proposedEjection now p s < MIN_PLAYER_MASS
      then b_mass (heap s p) - MIN_PLAYER_MASS
      else proposedEjection now p s)"

text \<open>No two registered bodies are at the same place.\<close>

definition separated :: "state \<Rightarrow> bool" where
  "separated s =
     list_all (\<lambda>r. list_all (\<lambda>r'. r = r' \<or> b_x (heap s r) \<noteq> b_x (heap s r')
                                       \<or> b_y (heap s r) \<noteq> b_y (heap s r'))
                      (celestialBodies s))
       (celestialBodies s)"

section \<open>Sample data\<close>

text \<open>A body and a state with neutral field values, from which concrete configurations are built.\<close>

definition body0 :: body where
  "body0 = \<lparr>b_x = 0, b_y = 0, b_vx = 0, b_vy = 0, b_mass = 0,
             isPlayer = False, isSun = False, isSpark = False,
             isGravitationalCenter = False, creationTime = 0, angle = 0,
             b_radius = 0, orbitA = Fin 0, orbitB = Fin 0, orbitE = 0,
             orbitPeriapsisAngle = 0, orbitCollidesCenter = False, trailOpacity = 0\<rparr>"

definition state0 :: state where
  "state0 = \<lparr>heap = (\<lambda>r. body0), nextRef = 0, celestialBodies = [],
              gameWon = False, playerIsGravitationalCenter = False,
              sunAbsorptionProgress = 0, gravityBlendFactor = 0,
              sunCurrentGameMass = SUN_GAME_MASS,
              collisionDetectedThisFrame = False, playerNeedsReset = False,
              currentGameSpeed = BASE_GAME_SPEED, lastClickTime = 0,
              lastEjectionDecayTime = 0, currentEjectionMultiplier = 1,
              currentWarningIntensity = 0, orbitHistory = [],
              camera_x = 0, camera_y = 0, camera_scale = 1,
              canvas_width = 800, canvas_height = 600,
              screenMouseX = 0, screenMouseY = 0\<rparr>"

text \<open>Two ordinary bodies of masses 100 and 10 at the same place.\<close>

definition scenario_state :: state where
  "scenario_state = state0\<lparr>heap := (\<lambda>r. body0)(0 := body0\<lparr>b_mass := 100\<rparr>, 1 := body0\<lparr>b_mass := 10\<rparr>),
                            nextRef := 2, celestialBodies := [0, 1]\<rparr>"

text \<open>A sun of mass 1000 and a spark of mass 1 at the same place.\<close>

definition spark_state :: state where
  "spark_state = state0\<lparr>heap := (\<lambda>r. body0)
                            (0 := body0\<lparr>b_mass := 1000, isSun := True, isGravitationalCenter := True\<rparr>,
                             1 := body0\<lparr>b_mass := 1, isSpark := True\<rparr>),
                          nextRef := 2, celestialBodies := [0, 1]\<rparr>"

text \<open>Constant time stamps and random draws, and two states with a lone player.\<close>

definition zero_times :: "nat \<Rightarrow> int" where "zero_times k = 0"
definition zero_random :: "nat \<Rightarrow> real" where "zero_random k = 0"

definition player_state :: state where
  "player_state = state0\<lparr>heap := (\<lambda>r. body0)(0 := body0\<lparr>b_mass := PLAYER_INITIAL_MASS, isPlayer := True\<rparr>),
                           nextRef := 1, celestialBodies := [0]\<rparr>"

definition floor_state :: state where
  "floor_state = state0\<lparr>heap := (\<lambda>r. body0)(0 := body0\<lparr>b_mass := MIN_PLAYER_MASS, isPlayer := True\<rparr>),
                          nextRef := 1, celestialBodies := [0]\<rparr>"

text \<open>
  A player as heavy as the sun's initial game mass, sitting on the sun, after half of the
  sun's game mass has been absorbed and the blend factor has decayed to 0 out of range.
\<close>

definition snap_state :: state where
  "snap_state = state0\<lparr>heap := (\<lambda>r. body0)
                            (2 := body0\<lparr>b_mass := SUN_GAME_MASS / 2, isSun := True,
                                        isGravitationalCenter := True\<rparr>,
                             3 := body0\<lparr>b_mass := SUN_GAME_MASS, isPlayer := True\<rparr>),
                         nextRef := 4, celestialBodies := [2, 3],
                         sunCurrentGameMass := SUN_GAME_MASS / 2,
                         sunAbsorptionProgress := 1 / 2, gravityBlendFactor := 0,
                         currentGameSpeed := 1\<rparr>"

text \<open>
  Two circular two-body configurations: a centre at rest at the origin and a body of
  mass 1 at distance 1 with the tangential speed \<open>sqrt (mu / 1)\<close>; the centre has the mass
  \<open>10\<^sup>1\<^sup>2\<close> in the first and the mass 1 in the second.
\<close>

definition circ_state :: state where
  "circ_state = state0\<lparr>heap := (\<lambda>r. body0)
                            (2 := body0\<lparr>b_mass := 10 ^ 12\<rparr>,
                             3 := body0\<lparr>b_x := 1, b_vy := sqrt (G * (10 ^ 12 + 1)), b_mass := 1\<rparr>),
                         nextRef := 4, celestialBodies := [2, 3]\<rparr>"

definition weak_state :: state where
  "weak_state = state0\<lparr>heap := (\<lambda>r. body0)
                            (2 := body0\<lparr>b_mass := 1\<rparr>,
                             3 := body0\<lparr>b_x := 1, b_vy := sqrt (G * (1 + 1)), b_mass := 1\<rparr>),
                         nextRef := 4, celestialBodies := [2, 3]\<rparr>"

text \<open>The sun and an ordinary body of the player's initial mass, both at the origin.\<close>

definition coincide_state :: state where
  "coincide_state = state0\<lparr>heap := (\<lambda>r. body0)
                            (2 := body0\<lparr>b_mass := SUN_GAME_MASS, isSun := True,
                                        isGravitationalCenter := True\<rparr>,
                             3 := body0\<lparr>b_mass := PLAYER_INITIAL_MASS\<rparr>),
                            nextRef := 4, celestialBodies := [2, 3]\<rparr>"

text \<open>
  The sun at the origin and a player of the initial mass 1000 units below it, as at the
  start of a game.
\<close>

definition start_state :: state where
  "start_state = state0\<lparr>heap := (\<lambda>r. body0)
                            (2 := body0\<lparr>b_mass := SUN_GAME_MASS, isSun := True,
                                        isGravitationalCenter := True\<rparr>,
                             3 := body0\<lparr>b_y := - 1000, b_mass := PLAYER_INITIAL_MASS,
                                        isPlayer := True\<rparr>),
                          nextRef := 4, celestialBodies := [2, 3]\<rparr>"

text \<open>
  A player as heavy as the sun's initial game mass, sitting on the sun, when all but one
  fiftieth of the sun's game mass has been absorbed.
\<close>

definition verge_state :: state where
  "verge_state = state0\<lparr>heap := (\<lambda>r. body0)
                            (2 := body0\<lparr>b_mass := SUN_GAME_MASS / 50, isSun := True,
                                        isGravitationalCenter := True\<rparr>,
                             3 := body0\<lparr>b_mass := SUN_GAME_MASS, isPlayer := True\<rparr>),
                          nextRef := 4, celestialBodies := [2, 3],
                          sunCurrentGameMass := SUN_GAME_MASS / 50,
                          sunAbsorptionProgress := 49 / 50, gravityBlendFactor := 49 / 50,
                          currentGameSpeed := 1\<rparr>"

text \<open>
  The sun at the origin, the player 1000 units below it, and a body of the player's
  initial mass and radius at rest 155 units to the right of the sun, 5 units outside the
  sum of the two radii; \<open>g\<close> is the game speed.
\<close>

definition approach_state :: "real \<Rightarrow> state" where
  "approach_state g = state0\<lparr>heap := (\<lambda>r. body0)
                            (2 := body0\<lparr>b_mass := SUN_GAME_MASS, isSun := True,
                                        isGravitationalCenter := True\<rparr>,
                             3 := body0\<lparr>b_y := - 1000, b_mass := PLAYER_INITIAL_MASS,
                                        isPlayer := True, b_radius := 30\<rparr>,
                             4 := body0\<lparr>b_x := 155, b_mass := PLAYER_INITIAL_MASS, b_radius := 30\<rparr>),
                          nextRef := 5, celestialBodies := [2, 3, 4],
                          currentGameSpeed := g\<rparr>"

section \<open>Basic facts\<close>


lemma heap_upd [simp]: "heap (upd r f s) = (heap s)(r := f (heap s r))"
  by (simp add: upd_def)
lemma upd_fields [simp]:
  "celestialBodies (upd r f s) = celestialBodies s"
  "nextRef (upd r f s) = nextRef s"
  "gameWon (upd r f s) = gameWon s"
  "playerIsGravitationalCenter (upd r f s) = playerIsGravitationalCenter s"
  "sunAbsorptionProgress (upd r f s) = sunAbsorptionProgress s"
  "gravityBlendFactor (upd r f s) = gravityBlendFactor s"
  "sunCurrentGameMass (upd r f s) = sunCurrentGameMass s"
  "collisionDetectedThisFrame (upd r f s) = collisionDetectedThisFrame s"
  "playerNeedsReset (upd r f s) = playerNeedsReset s"
  "currentGameSpeed (upd r f s) = currentGameSpeed s"
  "lastClickTime (upd r f s) = lastClickTime s"
  "lastEjectionDecayTime (upd r f s) = lastEjectionDecayTime s"
  "currentEjectionMultiplier (upd r f s) = currentEjectionMultiplier s"
  "currentWarningIntensity (upd r f s) = currentWarningIntensity s"
  "orbitHistory (upd r f s) = orbitHistory s"
  "camera_x (upd r f s) = camera_x s"
  "camera_y (upd r f s) = camera_y s"
  "camera_scale (upd r f s) = camera_scale s"
  "canvas_width (upd r f s) = canvas_width s"
  "canvas_height (upd r f s) = canvas_height s"
  "screenMouseX (upd r f s) = screenMouseX s"
  "screenMouseY (upd r f s) = screenMouseY s"
  by (simp_all add: upd_def)

lemma set_mass_fields [simp]:
  "b_mass (set_mass s b m) = max 0 m"
  "isPlayer (set_mass s b m) = isPlayer b"
  "isSun (set_mass s b m) = isSun b"
  "isSpark (set_mass s b m) = isSpark b"
  "isGravitationalCenter (set_mass s b m) = isGravitationalCenter b"
  "b_x (set_mass s b m) = b_x b"
  "b_y (set_mass s b m) = b_y b"
  "b_vx (set_mass s b m) = b_vx b"
  "b_vy (set_mass s b m) = b_vy b"
  "creationTime (set_mass s b m) = creationTime b"
  by (simp_all add: set_mass_def Let_def)

lemma heap_setMass [simp]: "heap (setMass r m s) = (heap s)(r := set_mass s (heap s r) m)"
  by (simp add: setMass_def)
lemma setMass_fields [simp]:
  "celestialBodies (setMass r m s) = celestialBodies s"
  "nextRef (setMass r m s) = nextRef s"
  "gameWon (setMass r m s) = gameWon s"
  "playerIsGravitationalCenter (setMass r m s) = playerIsGravitationalCenter s"
  "sunAbsorptionProgress (setMass r m s) = sunAbsorptionProgress s"
  "gravityBlendFactor (setMass r m s) = gravityBlendFactor s"
  "sunCurrentGameMass (setMass r m s) = sunCurrentGameMass s"
  "collisionDetectedThisFrame (setMass r m s) = collisionDetectedThisFrame s"
  "playerNeedsReset (setMass r m s) = playerNeedsReset s"
  "currentGameSpeed (setMass r m s) = currentGameSpeed s"
  "lastClickTime (setMass r m s) = lastClickTime s"
  "lastEjectionDecayTime (setMass r m s) = lastEjectionDecayTime s"
  "currentEjectionMultiplier (setMass r m s) = currentEjectionMultiplier s"
  "currentWarningIntensity (setMass r m s) = currentWarningIntensity s"
  "orbitHistory (setMass r m s) = orbitHistory s"
  "camera_x (setMass r m s) = camera_x s"
  "camera_y (setMass r m s) = camera_y s"
  "camera_scale (setMass r m s) = camera_scale s"
  "canvas_width (setMass r m s) = canvas_width s"
  "canvas_height (setMass r m s) = canvas_height s"
  "screenMouseX (setMass r m s) = screenMouseX s"
  "screenMouseY (setMass r m s) = screenMouseY s"
  by (simp_all add: setMass_def)

lemma conserveMomentum_fields [simp]:
  "celestialBodies (conserveMomentum big small t s) = celestialBodies s"
  "nextRef (conserveMomentum big small t s) = nextRef s"
  "gameWon (conserveMomentum big small t s) = gameWon s"
  "playerIsGravitationalCenter (conserveMomentum big small t s) = playerIsGravitationalCenter s"
  "sunAbsorptionProgress (conserveMomentum big small t s) = sunAbsorptionProgress s"
  "gravityBlendFactor (conserveMomentum big small t s) = gravityBlendFactor s"
  "sunCurrentGameMass (conserveMomentum big small t s) = sunCurrentGameMass s"
  "collisionDetectedThisFrame (conserveMomentum big small t s) = collisionDetectedThisFrame s"
  "playerNeedsReset (conserveMomentum big small t s) = playerNeedsReset s"
  "currentGameSpeed (conserveMomentum big small t s) = currentGameSpeed s"
  "lastClickTime (conserveMomentum big small t s) = lastClickTime s"
  "lastEjectionDecayTime (conserveMomentum big small t s) = lastEjectionDecayTime s"
  "currentEjectionMultiplier (conserveMomentum big small t s) = currentEjectionMultiplier s"
  "currentWarningIntensity (conserveMomentum big small t s) = currentWarningIntensity s"
  "orbitHistory (conserveMomentum big small t s) = orbitHistory s"
  "camera_x (conserveMomentum big small t s) = camera_x s"
  "camera_y (conserveMomentum big small t s) = camera_y s"
  "camera_scale (conserveMomentum big small t s) = camera_scale s"
  "canvas_width (conserveMomentum big small t s) = canvas_width s"
  "canvas_height (conserveMomentum big small t s) = canvas_height s"
  "screenMouseX (conserveMomentum big small t s) = screenMouseX s"
  "screenMouseY (conserveMomentum big small t s) = screenMouseY s"
  by (simp_all add: conserveMomentum_def Let_def)

lemma conserveMomentum_heap [simp]:
  "b_mass (heap (conserveMomentum big small t s) r) = b_mass (heap s r)"
  "isPlayer (heap (conserveMomentum big small t s) r) = isPlayer (heap s r)"
  "isSun (heap (conserveMomentum big small t s) r) = isSun (heap s r)"
  "isSpark (heap (conserveMomentum big small t s) r) = isSpark (heap s r)"
  "isGravitationalCenter (heap (conserveMomentum big small t s) r) = isGravitationalCenter (heap s r)"
  "creationTime (heap (conserveMomentum big small t s) r) = creationTime (heap s r)"
  by (simp_all add: conserveMomentum_def Let_def)

lemma applyTransfer_fields [simp]:
  "celestialBodies (applyTransfer big small t s) = celestialBodies s"
  "nextRef (applyTransfer big small t s) = nextRef s"
  "gameWon (applyTransfer big small t s) = gameWon s"
  "playerIsGravitationalCenter (applyTransfer big small t s) = playerIsGravitationalCenter s"
  "sunAbsorptionProgress (applyTransfer big small t s) = sunAbsorptionProgress s"
  "gravityBlendFactor (applyTransfer big small t s) = gravityBlendFactor s"
  "sunCurrentGameMass (applyTransfer big small t s) = sunCurrentGameMass s"
  "collisionDetectedThisFrame (applyTransfer big small t s) = collisionDetectedThisFrame s"
  "playerNeedsReset (applyTransfer big small t s) = playerNeedsReset s"
  "currentGameSpeed (applyTransfer big small t s) = currentGameSpeed s"
  "lastClickTime (applyTransfer big small t s) = lastClickTime s"
  "lastEjectionDecayTime (applyTransfer big small t s) = lastEjectionDecayTime s"
  "currentEjectionMultiplier (applyTransfer big small t s) = currentEjectionMultiplier s"
  "currentWarningIntensity (applyTransfer big small t s) = currentWarningIntensity s"
  "orbitHistory (applyTransfer big small t s) = orbitHistory s"
  "camera_x (applyTransfer big small t s) = camera_x s"
  "camera_y (applyTransfer big small t s) = camera_y s"
  "camera_scale (applyTransfer big small t s) = camera_scale s"
  "canvas_width (applyTransfer big small t s) = canvas_width s"
  "canvas_height (applyTransfer big small t s) = canvas_height s"
  "screenMouseX (applyTransfer big small t s) = screenMouseX s"
  "screenMouseY (applyTransfer big small t s) = screenMouseY s"
  by (simp_all add: applyTransfer_def Let_def)

lemma applyTransfer_flags [simp]:
  "isPlayer (heap (applyTransfer big small t s) r) = isPlayer (heap s r)"
  "isSun (heap (applyTransfer big small t s) r) = isSun (heap s r)"
  "isSpark (heap (applyTransfer big small t s) r) = isSpark (heap s r)"
  "isGravitationalCenter (heap (applyTransfer big small t s) r) = isGravitationalCenter (heap s r)"
  "creationTime (heap (applyTransfer big small t s) r) = creationTime (heap s r)"
  by (simp_all add: applyTransfer_def Let_def)

lemma applyTransfer_mass:
  "big \<noteq> small \<Longrightarrow>
   b_mass (heap (applyTransfer big small t s) r) =
     (if r = small then max 0 (b_mass (heap s small) - t)
      else if r = big then max 0 (b_mass (heap s big) + t)
      else b_mass (heap s r))"
  by (simp add: applyTransfer_def Let_def)

lemma PLAYER_INITIAL_MASS_eq: "PLAYER_INITIAL_MASS = 36000000 * pi"
  by (simp add: PLAYER_INITIAL_MASS_def calculateMassFromRadius_def PLAYER_RADIUS_def DENSITY_def)

lemma MIN_BODY_MASS_pos: "0 < MIN_BODY_MASS"
  by (simp add: MIN_BODY_MASS_def PLAYER_INITIAL_MASS_eq)

lemma radius_ge_half: "1 / 2 \<le> radius s b"
  by (simp add: radius_def max_def)


lemma overlapping_sym: "overlapping s b1 b2 = overlapping s b2 b1"
  by (simp add: overlapping_def Let_def power2_eq_square algebra_simps)

lemma overlapping_same_pos: "b_x b1 = b_x b2 \<Longrightarrow> b_y b1 = b_y b2 \<Longrightarrow> overlapping s b1 b2"
proof -
  assume "b_x b1 = b_x b2" "b_y b1 = b_y b2"
  moreover have "0 < (radius s b1 + radius s b2) * (radius s b1 + radius s b2)"
    using radius_ge_half [of s b1] radius_ge_half [of s b2] by (intro mult_pos_pos) linarith+
  ultimately show ?thesis by (simp add: overlapping_def Let_def not_le)
qed

subsection \<open>Mass bookkeeping of a pair resolution\<close>

lemma transferAmount_bounds:
  "0 \<le> b_mass small \<Longrightarrow> 0 \<le> transferAmount dt small \<and> transferAmount dt small \<le> b_mass small"
  by (simp add: transferAmount_def Let_def)

lemma resolvePair_heap_mass:
  "b_mass (heap (state_of (resolvePair dt bigI smallI s)) r) =
   b_mass (heap (applyTransfer (celestialBodies s ! bigI) (celestialBodies s ! smallI)
       (transferAmount dt (heap s (celestialBodies s ! smallI))) s) r)"
  by (simp add: resolvePair_def Let_def)

lemma resolvePair_masses:
  assumes ne: "celestialBodies s ! bigI \<noteq> celestialBodies s ! smallI"
    and mb: "0 \<le> b_mass (heap s (celestialBodies s ! bigI))"
    and ms: "0 \<le> b_mass (heap s (celestialBodies s ! smallI))"
  shows "b_mass (heap (state_of (resolvePair dt bigI smallI s)) r) =
           (if r = celestialBodies s ! smallI
            then b_mass (heap s r) - transferAmount dt (heap s (celestialBodies s ! smallI))
            else if r = celestialBodies s ! bigI
            then b_mass (heap s r) + transferAmount dt (heap s (celestialBodies s ! smallI))
            else b_mass (heap s r))"
  using mb ms transferAmount_bounds [OF ms, of dt]
  by (simp add: resolvePair_heap_mass applyTransfer_mass [OF ne])

lemma resolvePair_registry:
  "resolvePair dt bigI smallI s = Break k s' \<Longrightarrow>
     celestialBodies s' = splice1 smallI (celestialBodies s)"
  "resolvePair dt bigI smallI s = Continue s' \<Longrightarrow> celestialBodies s' = celestialBodies s"
  "resolvePair dt bigI smallI s = Return s' \<Longrightarrow> celestialBodies s' = celestialBodies s"
  by (auto simp: resolvePair_def Let_def split: if_splits)

lemma splice1_remove1:
  "distinct xs \<Longrightarrow> k < length xs \<Longrightarrow> splice1 k xs = remove1 (xs ! k) xs"
proof (induction xs arbitrary: k)
  case Nil
  then show ?case by simp
next
  case (Cons a xs)
  show ?case
  proof (cases k)
    case 0
    then show ?thesis by (simp add: splice1_def)
  next
    case (Suc n)
    with Cons.prems have "splice1 n xs = remove1 (xs ! n) xs" "xs ! n \<noteq> a"
      using Cons.IH [of n] by auto
    with Suc show ?thesis by (simp add: splice1_def)
  qed
qed

lemma map_upd_notin: "a \<notin> set xs \<Longrightarrow> map (f(a := v)) xs = map f xs"
  by (induction xs) auto

lemma sum_list_map_upd_distinct:
  fixes f :: "'a \<Rightarrow> real"
  shows "distinct xs \<Longrightarrow> a \<in> set xs \<Longrightarrow>
         sum_list (map (f(a := v)) xs) = sum_list (map f xs) - f a + v"
  by (induction xs) (auto simp: map_upd_notin)

lemma sum_list_splice1:
  fixes f :: "'a \<Rightarrow> real"
  assumes "distinct xs" "k < length xs"
  shows "sum_list (map f (splice1 k xs)) = sum_list (map f xs) - f (xs ! k)"
  using assms sum_list_map_remove1 [of "xs ! k" xs f] by (simp add: splice1_remove1)

lemma resolvePair_Break_total:
  assumes br: "resolvePair dt bigI smallI s = Break k s'"
    and d: "distinct (celestialBodies s)" and lb: "bigI < length (celestialBodies s)"
    and ls: "smallI < length (celestialBodies s)" and ne: "bigI \<noteq> smallI"
    and mb: "0 \<le> b_mass (heap s (celestialBodies s ! bigI))"
    and ms: "0 \<le> b_mass (heap s (celestialBodies s ! smallI))"
  shows "totalMass s' + b_mass (heap s' (celestialBodies s ! smallI)) = totalMass s"
proof -
  let ?cb = "celestialBodies s"
  let ?big = "?cb ! bigI" and ?small = "?cb ! smallI"
  let ?t = "transferAmount dt (heap s ?small)"
  have neq: "?big \<noteq> ?small"
    using d lb ls ne by (simp add: nth_eq_iff_index_eq)
  have s': "s' = state_of (resolvePair dt bigI smallI s)" using br by simp
  have m: "\<And>r. b_mass (heap s' r) =
           (if r = ?small then b_mass (heap s r) - ?t
            else if r = ?big then b_mass (heap s r) + ?t else b_mass (heap s r))"
    unfolding s' by (rule resolvePair_masses [OF neq mb ms])
  have fn: "(\<lambda>r. b_mass (heap s' r)) =
        ((\<lambda>r. b_mass (heap s r))(?big := b_mass (heap s ?big) + ?t))(?small := b_mass (heap s ?small) - ?t)"
    by (rule ext) (simp add: m)
  have reg: "celestialBodies s' = splice1 smallI ?cb"
    using br by (rule resolvePair_registry)
  have dsp: "distinct (splice1 smallI ?cb)" "?big \<in> set (splice1 smallI ?cb)"
    "?small \<notin> set (splice1 smallI ?cb)"
    using d ls lb neq by (simp_all add: splice1_remove1)
  have "totalMass s' = sum_list (map (\<lambda>r. b_mass (heap s' r)) (splice1 smallI ?cb))"
    by (simp add: totalMass_def reg)
  also have "\<dots> = sum_list (map ((\<lambda>r. b_mass (heap s r))(?big := b_mass (heap s ?big) + ?t))
                        (splice1 smallI ?cb))"
    unfolding fn using dsp(3) by (simp add: map_upd_notin)
  also have "\<dots> = sum_list (map (\<lambda>r. b_mass (heap s r)) (splice1 smallI ?cb)) + ?t"
    using sum_list_map_upd_distinct [OF dsp(1) dsp(2), of "\<lambda>r. b_mass (heap s r)"] by simp
  also have "\<dots> = totalMass s - b_mass (heap s ?small) + ?t"
    using sum_list_splice1 [OF d ls, of "\<lambda>r. b_mass (heap s r)"] by (simp add: totalMass_def)
  finally show ?thesis using m [of ?small] by simp
qed

lemma collidePair_cases:
  "collidePair dt now i j s = Continue s
   \<or> collidePair dt now i j s = Continue (s\<lparr>collisionDetectedThisFrame := True\<rparr>)
   \<or> (excluded now (heap s (celestialBodies s ! i)) (heap s (celestialBodies s ! j)) = False
      \<and> overlapping s (heap s (celestialBodies s ! i)) (heap s (celestialBodies s ! j))
      \<and> collidePair dt now i j s =
          resolvePair dt (if b_mass (heap s (celestialBodies s ! i)) \<ge> b_mass (heap s (celestialBodies s ! j)) then i else j)
                         (if b_mass (heap s (celestialBodies s ! i)) \<ge> b_mass (heap s (celestialBodies s ! j)) then j else i)
                         (s\<lparr>collisionDetectedThisFrame := True\<rparr>))"
  by (simp add: collidePair_def Let_def)

subsection \<open>The sample states\<close>


lemma spark_state_simps:
  "heap spark_state 0 = body0\<lparr>b_mass := 1000, isSun := True, isGravitationalCenter := True\<rparr>"
  "heap spark_state (Suc 0) = body0\<lparr>b_mass := 1, isSpark := True\<rparr>"
  "celestialBodies spark_state = [0, 1]"
  by (simp_all add: spark_state_def state0_def)

subsection \<open>The collision stage does not read the game speed\<close>

lemma radius_speed [simp]: "radius (s\<lparr>currentGameSpeed := g\<rparr>) b = radius s b"
  by (simp add: radius_def)

lemma set_mass_speed [simp]: "set_mass (s\<lparr>currentGameSpeed := g\<rparr>) b m = set_mass s b m"
  by (simp add: set_mass_def calculateRadius_def Let_def)

lemma upd_speed: "upd r f (s\<lparr>currentGameSpeed := g\<rparr>) = (upd r f s)\<lparr>currentGameSpeed := g\<rparr>"
  by (simp add: upd_def)

lemma setMass_speed: "setMass r m (s\<lparr>currentGameSpeed := g\<rparr>) = (setMass r m s)\<lparr>currentGameSpeed := g\<rparr>"
  by (simp add: setMass_def upd_def)

lemma conserveMomentum_speed:
  "conserveMomentum big small t (s\<lparr>currentGameSpeed := g\<rparr>)
     = (conserveMomentum big small t s)\<lparr>currentGameSpeed := g\<rparr>"
  by (simp add: conserveMomentum_def Let_def upd_speed)

lemma applyTransfer_speed:
  "applyTransfer big small t (s\<lparr>currentGameSpeed := g\<rparr>) = (applyTransfer big small t s)\<lparr>currentGameSpeed := g\<rparr>"
  by (simp add: applyTransfer_def Let_def conserveMomentum_speed setMass_speed)

lemma resolvePair_speed:
  "resolvePair dt bigI smallI (s\<lparr>currentGameSpeed := g\<rparr>)
     = map_state (\<lambda>s. s\<lparr>currentGameSpeed := g\<rparr>) (resolvePair dt bigI smallI s)"
  by (simp add: resolvePair_def Let_def applyTransfer_speed upd_speed)

lemma collidePair_speed:
  "collidePair dt now i j (s\<lparr>currentGameSpeed := g\<rparr>)
     = map_state (\<lambda>s. s\<lparr>currentGameSpeed := g\<rparr>) (collidePair dt now i j s)"
proof -
  have sw: "s\<lparr>currentGameSpeed := g, collisionDetectedThisFrame := True\<rparr>
          = s\<lparr>collisionDetectedThisFrame := True, currentGameSpeed := g\<rparr>"
    by simp
  show ?thesis
    by (simp add: collidePair_def Let_def overlapping_def sw resolvePair_speed)
qed

lemma innerLoop_speed:
  "innerLoop dt now i n (s\<lparr>currentGameSpeed := g\<rparr>)
     = map_state (\<lambda>s. s\<lparr>currentGameSpeed := g\<rparr>) (innerLoop dt now i n s)"
proof (induction n arbitrary: s)
  case 0
  show ?case by simp
next
  case (Suc n)
  show ?case
    by (cases "collidePair dt now i n s") (simp_all add: collidePair_speed Suc.IH)
qed

lemma outerLoop_speed:
  "outerLoop dt now n (s\<lparr>currentGameSpeed := g\<rparr>) = (outerLoop dt now n s)\<lparr>currentGameSpeed := g\<rparr>"
proof (induction dt now n s rule: outerLoop.induct)
  case (1 dt now s)
  show ?case by simp
next
  case (2 dt now i s)
  show ?case
  proof (cases "innerLoop dt now i i s")
    case (Continue s')
    with 2(1) [of s'] show ?thesis by (simp add: innerLoop_speed)
  next
    case (Break k s')
    with 2(2) [of k s'] show ?thesis by (simp add: innerLoop_speed)
  next
    case (Return s')
    then show ?thesis by (simp add: innerLoop_speed)
  qed
qed

lemma checkCollisions_speed:
  "checkCollisions dt now (s\<lparr>currentGameSpeed := g\<rparr>) = (checkCollisions dt now s)\<lparr>currentGameSpeed := g\<rparr>"
  by (simp add: checkCollisions_def outerLoop_speed)

lemma cleanup_speed:
  "cleanup now (s\<lparr>currentGameSpeed := g\<rparr>) = (cleanup now s)\<lparr>currentGameSpeed := g\<rparr>"
  by (simp add: cleanup_def)

lemma findBody_speed [simp]: "findBody P (s\<lparr>currentGameSpeed := g\<rparr>) = findBody P s"
  by (simp add: findBody_def)

lemma gravityLoop_speed:
  "gravityLoop gm src sk gameDt rs (s\<lparr>currentGameSpeed := g\<rparr>)
     = map_option (\<lambda>s. s\<lparr>currentGameSpeed := g\<rparr>) (gravityLoop gm src sk gameDt rs s)"
proof (induction rs arbitrary: s)
  case Nil
  show ?case by simp
next
  case (Cons r rs)
  show ?case
    by (simp add: Cons.IH upd_speed split: prod.splits num.splits)
qed

lemma gravityStage_speed:
  "gravityStage gameDt sun player (s\<lparr>currentGameSpeed := g\<rparr>)
     = map_option (\<lambda>s. s\<lparr>currentGameSpeed := g\<rparr>) (gravityStage gameDt sun player s)"
proof -
  have sw: "\<And>s. s\<lparr>currentGameSpeed := g, playerNeedsReset := True\<rparr>
          = s\<lparr>playerNeedsReset := True, currentGameSpeed := g\<rparr>"
    by simp
  have a: "sunGravity gameDt sun (s\<lparr>currentGameSpeed := g\<rparr>)
         = map_option (\<lambda>s. s\<lparr>currentGameSpeed := g\<rparr>) (sunGravity gameDt sun s)" for s
    by (simp add: sunGravity_def Let_def gravityLoop_speed split: option.splits)
  have b: "playerGravity gameDt player (s\<lparr>currentGameSpeed := g\<rparr>)
         = map_option (\<lambda>s. s\<lparr>currentGameSpeed := g\<rparr>) (playerGravity gameDt player s)" for s
    by (simp add: playerGravity_def Let_def gravityLoop_speed split: option.splits)
  have c: "postWinGravity gameDt sun player (s\<lparr>currentGameSpeed := g\<rparr>)
         = map_option (\<lambda>s. s\<lparr>currentGameSpeed := g\<rparr>) (postWinGravity gameDt sun player s)" for s
    by (cases sun; cases player) (simp_all add: postWinGravity_def Let_def gravityLoop_speed)
  have d: "fatalCheck sun player (s\<lparr>currentGameSpeed := g\<rparr>)
         = (fatalCheck sun player s)\<lparr>currentGameSpeed := g\<rparr>" for s
    by (simp add: fatalCheck_def sw)
  show ?thesis
    by (simp add: gravityStage_def a b c d split: option.splits)
qed

lemma moveBody_speed [simp]: "moveBody gameDt (s\<lparr>currentGameSpeed := g\<rparr>) = moveBody gameDt s"
  by (rule ext) (simp add: moveBody_def Let_def)

lemma fold_move_speed:
  "fold (\<lambda>r st. upd r (moveBody gameDt st) st) rs (s\<lparr>currentGameSpeed := g\<rparr>)
     = (fold (\<lambda>r st. upd r (moveBody gameDt st) st) rs s)\<lparr>currentGameSpeed := g\<rparr>"
  by (induction rs arbitrary: s) (simp_all add: upd_speed)

lemma updatePositions_speed:
  "updatePositions gameDt (s\<lparr>currentGameSpeed := g\<rparr>) = (updatePositions gameDt s)\<lparr>currentGameSpeed := g\<rparr>"
  by (simp add: updatePositions_def fold_move_speed)

lemma collisionEntry_scaled:
  "collisionEntry dt nowCleanup s =
       map_option (\<lambda>s6. s6\<lparr>currentGameSpeed := currentGameSpeed s\<rparr>)
         (collisionEntry (dt * currentGameSpeed s) nowCleanup (s\<lparr>currentGameSpeed := 1\<rparr>))"
proof -
  define gd where "gd = dt * currentGameSpeed s"
  define E where "E = (\<lambda>s. map_option (updatePositions gd)
           (gravityStage gd (tickSun nowCleanup s) (tickPlayer nowCleanup s)
              (cleanup nowCleanup (s\<lparr>collisionDetectedThisFrame := False\<rparr>))))"
  have sw: "\<And>g s. s\<lparr>currentGameSpeed := g, collisionDetectedThisFrame := False\<rparr>
      = s\<lparr>collisionDetectedThisFrame := False, currentGameSpeed := g\<rparr>"
    by simp
  have C: "E (s\<lparr>currentGameSpeed := g\<rparr>) = map_option (\<lambda>x. x\<lparr>currentGameSpeed := g\<rparr>) (E s)" for g s
    by (simp add: E_def tickSun_def tickPlayer_def sw cleanup_speed gravityStage_speed
        option.map_comp comp_def updatePositions_speed)
  have l: "collisionEntry dt nowCleanup s = E s"
    by (simp add: collisionEntry_def E_def gd_def Let_def)
  have r: "collisionEntry (dt * currentGameSpeed s) nowCleanup (s\<lparr>currentGameSpeed := 1\<rparr>)
         = E (s\<lparr>currentGameSpeed := 1\<rparr>)"
    by (simp add: collisionEntry_def E_def gd_def Let_def)
  have "map_option (\<lambda>s6. s6\<lparr>currentGameSpeed := currentGameSpeed s\<rparr>) (E (s\<lparr>currentGameSpeed := 1\<rparr>))
        = map_option (\<lambda>x. x\<lparr>currentGameSpeed := currentGameSpeed s\<rparr>) (E s)"
    by (simp add: C option.map_comp comp_def)
  also have "\<dots> = E (s\<lparr>currentGameSpeed := currentGameSpeed s\<rparr>)"
    by (rule C [symmetric])
  also have "\<dots> = E s" by simp
  finally show ?thesis by (simp add: l r)
qed

lemma updatePhysics_stages:
  "updatePhysics dt nowCleanup nowCollide nowDecay tnew rnd s =
     map_option (\<lambda>s6. afterCollisions dt nowDecay tnew rnd (tickSun nowCleanup s) (tickPlayer nowCleanup s)
                        (checkCollisions dt nowCollide s6))
       (collisionEntry dt nowCleanup s)"
  by (simp add: updatePhysics_def collisionEntry_def afterCollisions_def tickSun_def tickPlayer_def
      Let_def split: option.splits)

lemma push_simps [simp]:
  "heap (push b s) = (heap s)(nextRef s := b)"
  "nextRef (push b s) = Suc (nextRef s)"
  "celestialBodies (push b s) = celestialBodies s @ [nextRef s]"
  "gameWon (push b s) = gameWon s"
  "playerIsGravitationalCenter (push b s) = playerIsGravitationalCenter s"
  "sunAbsorptionProgress (push b s) = sunAbsorptionProgress s"
  "gravityBlendFactor (push b s) = gravityBlendFactor s"
  "sunCurrentGameMass (push b s) = sunCurrentGameMass s"
  "collisionDetectedThisFrame (push b s) = collisionDetectedThisFrame s"
  "playerNeedsReset (push b s) = playerNeedsReset s"
  "currentGameSpeed (push b s) = currentGameSpeed s"
  "lastClickTime (push b s) = lastClickTime s"
  "lastEjectionDecayTime (push b s) = lastEjectionDecayTime s"
  "currentEjectionMultiplier (push b s) = currentEjectionMultiplier s"
  "currentWarningIntensity (push b s) = currentWarningIntensity s"
  "orbitHistory (push b s) = orbitHistory s"
  "camera_x (push b s) = camera_x s"
  "camera_y (push b s) = camera_y s"
  "camera_scale (push b s) = camera_scale s"
  "canvas_width (push b s) = canvas_width s"
  "canvas_height (push b s) = canvas_height s"
  "screenMouseX (push b s) = screenMouseX s"
  "screenMouseY (push b s) = screenMouseY s"
  by (simp_all add: push_def)

lemma CelestialBody_simps [simp]:
  "isPlayer (CelestialBody s now px py pvx pvy m isPl isSu isSp) = isPl"
  "isSun (CelestialBody s now px py pvx pvy m isPl isSu isSp) = isSu"
  "isSpark (CelestialBody s now px py pvx pvy m isPl isSu isSp) = isSp"
  "isGravitationalCenter (CelestialBody s now px py pvx pvy m isPl isSu isSp) = isSu"
  "b_mass (CelestialBody s now px py pvx pvy m isPl isSu isSp) = m"
  by (simp_all add: CelestialBody_def)

lemma spawnSpark_simps [simp]:
  "nextRef (spawnSpark p sd ang ms sm sp tnew rnd i s) = Suc (nextRef s)"
  "celestialBodies (spawnSpark p sd ang ms sm sp tnew rnd i s) = celestialBodies s @ [nextRef s]"
  "r \<noteq> nextRef s \<Longrightarrow> heap (spawnSpark p sd ang ms sm sp tnew rnd i s) r = heap s r"
  "isPlayer (heap (spawnSpark p sd ang ms sm sp tnew rnd i s) (nextRef s)) = False"
  "isSun (heap (spawnSpark p sd ang ms sm sp tnew rnd i s) (nextRef s)) = False"
  "isSpark (heap (spawnSpark p sd ang ms sm sp tnew rnd i s) (nextRef s)) = True"
  "isGravitationalCenter (heap (spawnSpark p sd ang ms sm sp tnew rnd i s) (nextRef s)) = False"
  by (simp_all add: spawnSpark_def Let_def)

lemma fold_spawnSpark_old:
  "r < nextRef s \<Longrightarrow>
     heap (fold (spawnSpark p sd ang ms sm sp tnew rnd) xs s) r = heap s r
   \<and> nextRef s \<le> nextRef (fold (spawnSpark p sd ang ms sm sp tnew rnd) xs s)"
proof (induction xs arbitrary: s)
  case Nil
  show ?case by simp
next
  case (Cons i xs)
  let ?s1 = "spawnSpark p sd ang ms sm sp tnew rnd i s"
  from Cons.prems have "r < nextRef ?s1" by simp
  from Cons.IH [OF this] Cons.prems show ?case by simp
qed

lemma ejectBody_old:
  "r < nextRef s \<Longrightarrow> heap (ejectBody tc p em ang ms s) r = heap s r"
  "r < nextRef s \<Longrightarrow> r < nextRef (ejectBody tc p em ang ms s)"
  by (simp_all add: ejectBody_def Let_def)

lemma ejectSparks_old:
  "r < nextRef s \<Longrightarrow> heap (ejectSparks tnew rnd p n ang ms sm sp s) r = heap s r"
  "r < nextRef s \<Longrightarrow> r < nextRef (ejectSparks tnew rnd p n ang ms sm sp s)"
  using fold_spawnSpark_old [of r s] by (auto simp: ejectSparks_def Let_def intro: less_le_trans)

lemma recoil_mass: "b_mass (heap (recoil p em ang ms s) r) = b_mass (heap s r)"
  by (simp add: recoil_def Let_def)

lemma performEjection_shape:
  "\<exists>ang ms n sm sp.
     performEjection now tnew rnd p initMass ejectedMass s =
       (recoil p ejectedMass ang ms
          (ejectSparks tnew rnd p n ang ms sm sp
             (ejectBody (tnew 0) p ejectedMass ang ms
                (setMass p (b_mass (heap s p) - ejectedMass) s))))\<lparr>lastClickTime := now\<rparr>"
  unfolding performEjection_def Let_def by (intro exI) (rule refl)

lemma performEjection_player_mass:
  assumes "p < nextRef s"
  shows "b_mass (heap (performEjection now tnew rnd p initMass ejectedMass s) p)
           = max 0 (b_mass (heap s p) - ejectedMass)"
proof -
  define s2 where "s2 = setMass p (b_mass (heap s p) - ejectedMass) s"
  have n2: "p < nextRef s2" and m2: "b_mass (heap s2 p) = max 0 (b_mass (heap s p) - ejectedMass)"
    using assms by (simp_all add: s2_def)
  obtain ang ms n sm sp where
    "performEjection now tnew rnd p initMass ejectedMass s =
       (recoil p ejectedMass ang ms
          (ejectSparks tnew rnd p n ang ms sm sp
             (ejectBody (tnew 0) p ejectedMass ang ms s2)))\<lparr>lastClickTime := now\<rparr>"
    unfolding s2_def using performEjection_shape by blast
  then show ?thesis
    using n2 m2 by (simp add: recoil_mass ejectSparks_old ejectBody_old)
qed

lemma find_Some_append: "find P xs = Some x \<Longrightarrow> find P (xs @ ys) = Some x"
  by (induction xs) (auto split: if_splits)

lemma find_Some_mem: "find P xs = Some x \<Longrightarrow> x \<in> set xs"
  by (induction xs) (auto split: if_splits)

lemma findBody_mem: "findBody P s = Some r \<Longrightarrow> r \<in> set (celestialBodies s)"
  unfolding findBody_def by (rule find_Some_mem)

lemma allocated_mem: "allocated s \<Longrightarrow> r \<in> set (celestialBodies s) \<Longrightarrow> r < nextRef s"
  by (simp add: allocated_def list_all_iff)

lemma ejectBody_registry:
  "\<exists>ys. celestialBodies (ejectBody tc p em ang ms s) = celestialBodies s @ ys"
  by (simp add: ejectBody_def Let_def)

lemma fold_spawnSpark_registry:
  "\<exists>ys. celestialBodies (fold (spawnSpark p sd ang ms sm sp tnew rnd) xs s) = celestialBodies s @ ys"
proof (induction xs arbitrary: s)
  case Nil
  show ?case by simp
next
  case (Cons i xs)
  from Cons.IH [of "spawnSpark p sd ang ms sm sp tnew rnd i s"] show ?case by auto
qed

lemma ejectSparks_registry:
  "\<exists>ys. celestialBodies (ejectSparks tnew rnd p n ang ms sm sp s) = celestialBodies s @ ys"
  using fold_spawnSpark_registry by (simp add: ejectSparks_def Let_def)

lemma recoil_simps [simp]:
  "celestialBodies (recoil p em ang ms s) = celestialBodies s"
  "isPlayer (heap (recoil p em ang ms s) r) = isPlayer (heap s r)"
  by (simp_all add: recoil_def Let_def)

lemma performEjection_player:
  assumes al: "allocated s" and pl: "findBody isPlayer s = Some p"
  shows "findBody isPlayer (performEjection now tnew rnd p initMass ejectedMass s) = Some p"
proof -
  define s2 where "s2 = setMass p (b_mass (heap s p) - ejectedMass) s"
  obtain ang ms n sm sp where sh:
    "performEjection now tnew rnd p initMass ejectedMass s =
       (recoil p ejectedMass ang ms
          (ejectSparks tnew rnd p n ang ms sm sp
             (ejectBody (tnew 0) p ejectedMass ang ms s2)))\<lparr>lastClickTime := now\<rparr>"
    unfolding s2_def using performEjection_shape by blast
  define s3 where "s3 = ejectBody (tnew 0) p ejectedMass ang ms s2"
  define s4 where "s4 = ejectSparks tnew rnd p n ang ms sm sp s3"
  obtain ys where r3: "celestialBodies s3 = celestialBodies s @ ys"
    using ejectBody_registry [of "tnew 0" p ejectedMass ang ms s2] by (auto simp: s3_def s2_def)
  obtain zs where r4: "celestialBodies s4 = celestialBodies s3 @ zs"
    using ejectSparks_registry [of tnew rnd p n ang ms sm sp s3] by (auto simp: s4_def)
  have old: "isPlayer (heap s4 r) = isPlayer (heap s r)" if "r \<in> set (celestialBodies s)" for r
  proof -
    have "r < nextRef s2" using allocated_mem [OF al that] by (simp add: s2_def)
    then have "heap s4 r = heap s2 r"
      by (simp add: s4_def s3_def ejectSparks_old ejectBody_old)
    then show ?thesis by (simp add: s2_def)
  qed
  have "find (\<lambda>r. isPlayer (heap s4 r)) (celestialBodies s) = find (\<lambda>r. isPlayer (heap s r)) (celestialBodies s)"
    by (rule find_cong) (simp_all add: old)
  then have "find (\<lambda>r. isPlayer (heap s4 r)) (celestialBodies s) = Some p"
    using pl by (simp add: findBody_def)
  then have "find (\<lambda>r. isPlayer (heap s4 r)) (celestialBodies s4) = Some p"
    unfolding r4 r3 by (intro find_Some_append)
  then show ?thesis
    by (simp add: sh findBody_def s4_def s3_def)
qed

lemma MIN_PLAYER_MASS_eq: "MIN_PLAYER_MASS = 3600000 * pi"
  by (simp add: MIN_PLAYER_MASS_def PLAYER_INITIAL_MASS_eq)

lemma ejectMass_cases:
  fixes s :: state and now :: int and p :: ref
  defines "s1 \<equiv> s\<lparr>currentEjectionMultiplier := comboMultiplier now s\<rparr>"
    and "init \<equiv> b_mass (heap s p)"
  assumes pl: "findBody isPlayer s = Some p"
  shows "init \<le> MIN_PLAYER_MASS \<Longrightarrow> ejectMass now tnew rnd s = s"
    and "\<not> init \<le> MIN_PLAYER_MASS \<Longrightarrow> init - proposedEjection now p s < MIN_PLAYER_MASS \<Longrightarrow>
           init - MIN_PLAYER_MASS \<le> 1 / 10 ^ 9 \<Longrightarrow> ejectMass now tnew rnd s = s1"
    and "\<not> init \<le> MIN_PLAYER_MASS \<Longrightarrow> init - proposedEjection now p s < MIN_PLAYER_MASS \<Longrightarrow>
           \<not> init - MIN_PLAYER_MASS \<le> 1 / 10 ^ 9 \<Longrightarrow>
           ejectMass now tnew rnd s = performEjection now tnew rnd p init (init - MIN_PLAYER_MASS) s1"
    and "\<not> init \<le> MIN_PLAYER_MASS \<Longrightarrow> \<not> init - proposedEjection now p s < MIN_PLAYER_MASS \<Longrightarrow>
           ejectMass now tnew rnd s = performEjection now tnew rnd p init (proposedEjection now p s) s1"
proof -
  have sel: "currentEjectionMultiplier (s\<lparr>currentEjectionMultiplier := comboMultiplier now s\<rparr>)
               = comboMultiplier now s"
    by simp
  show "init \<le> MIN_PLAYER_MASS \<Longrightarrow> ejectMass now tnew rnd s = s"
    and "\<not> init \<le> MIN_PLAYER_MASS \<Longrightarrow> init - proposedEjection now p s < MIN_PLAYER_MASS \<Longrightarrow>
           init - MIN_PLAYER_MASS \<le> 1 / 10 ^ 9 \<Longrightarrow> ejectMass now tnew rnd s = s1"
    and "\<not> init \<le> MIN_PLAYER_MASS \<Longrightarrow> init - proposedEjection now p s < MIN_PLAYER_MASS \<Longrightarrow>
           \<not> init - MIN_PLAYER_MASS \<le> 1 / 10 ^ 9 \<Longrightarrow>
           ejectMass now tnew rnd s = performEjection now tnew rnd p init (init - MIN_PLAYER_MASS) s1"
    and "\<not> init \<le> MIN_PLAYER_MASS \<Longrightarrow> \<not> init - proposedEjection now p s < MIN_PLAYER_MASS \<Longrightarrow>
           ejectMass now tnew rnd s = performEjection now tnew rnd p init (proposedEjection now p s) s1"
    unfolding ejectMass_def Let_def proposedEjection_def s1_def init_def sel
    by (simp_all only: pl option.case if_True if_False)
qed

lemma player_state_simps:
  "heap player_state 0 = body0\<lparr>b_mass := PLAYER_INITIAL_MASS, isPlayer := True\<rparr>"
  "celestialBodies player_state = [0]" "nextRef player_state = 1"
  by (simp_all add: player_state_def state0_def)

lemma floor_state_simps:
  "heap floor_state 0 = body0\<lparr>b_mass := MIN_PLAYER_MASS, isPlayer := True\<rparr>"
  "celestialBodies floor_state = [0]" "nextRef floor_state = 1"
  "currentEjectionMultiplier floor_state = 1" "lastClickTime floor_state = 0"
  by (simp_all add: floor_state_def state0_def)

lemma comboMultiplier_ge1: "1 \<le> currentEjectionMultiplier s \<Longrightarrow> 1 \<le> comboMultiplier now s"
  by (simp add: comboMultiplier_def Let_def EJECTION_GROWTH_RATE_def MAX_EJECTION_MULTIPLIER_def)

lemma proposedEjection_lower:
  assumes "1 \<le> currentEjectionMultiplier s" "0 \<le> b_mass (heap s p)"
  shows "b_mass (heap s p) * BASE_EJECTION_MASS_PERCENT \<le> proposedEjection now p s"
proof -
  have "b_mass (heap s p) * BASE_EJECTION_MASS_PERCENT * 1
          \<le> b_mass (heap s p) * BASE_EJECTION_MASS_PERCENT * comboMultiplier now s"
    using assms comboMultiplier_ge1 [OF assms(1), of now]
    by (intro mult_left_mono) (simp_all add: BASE_EJECTION_MASS_PERCENT_def)
  moreover have "b_mass (heap s p) * BASE_EJECTION_MASS_PERCENT \<le> b_mass (heap s p) * MAX_EJECTION_PERCENTAGE"
    using assms(2) by (intro mult_left_mono)
      (simp_all add: BASE_EJECTION_MASS_PERCENT_def MAX_EJECTION_PERCENTAGE_def)
  ultimately show ?thesis by (simp add: proposedEjection_def)
qed

subsection \<open>The absorption state machine\<close>

lemma SUN_GAME_MASS_eq: "SUN_GAME_MASS = 6480000000 * pi"
  by (simp add: SUN_GAME_MASS_def PLAYER_INITIAL_MASS_eq)

lemma SUN_GAME_MASS_pos: "0 < SUN_GAME_MASS"
  by (simp add: SUN_GAME_MASS_eq)

lemma checkSunAbsorption_phase:
  "checkSunAbsorption dt s =
     (case absorptionPhase s of
        Inactive \<Rightarrow> s
      | NotEligible p sn \<Rightarrow>
          (let s1 = (if sunDist s p sn < touchDist s p sn * 0.8 then s\<lparr>playerNeedsReset := True\<rparr> else s)
           in s1\<lparr>gravityBlendFactor := max 0 (gravityBlendFactor s1 - 0.5 * dt)\<rparr>)
      | OutOfRange p sn \<Rightarrow> s\<lparr>gravityBlendFactor := max 0 (gravityBlendFactor s - 0.3 * dt)\<rparr>
      | Absorbing p sn \<Rightarrow> absorb dt p sn s)"
  unfolding checkSunAbsorption_def absorptionPhase_def
  by (simp only: if_distrib [of "case_phase _ _ _ _"] option.case_distrib [of "case_phase _ _ _ _"]
        phase.case cong: if_cong option.case_cong)

lemma fold_upd_fields:
  "gravityBlendFactor (fold (\<lambda>r st. if P r then upd r (f r) st else st) rs s) = gravityBlendFactor s"
  "sunCurrentGameMass (fold (\<lambda>r st. if P r then upd r (f r) st else st) rs s) = sunCurrentGameMass s"
  "gameWon (fold (\<lambda>r st. if P r then upd r (f r) st else st) rs s) = gameWon s"
  "celestialBodies (fold (\<lambda>r st. if P r then upd r (f r) st else st) rs s) = celestialBodies s"
  "nextRef (fold (\<lambda>r st. if P r then upd r (f r) st else st) rs s) = nextRef s"
  "playerNeedsReset (fold (\<lambda>r st. if P r then upd r (f r) st else st) rs s) = playerNeedsReset s"
  by (induction rs arbitrary: s) simp_all

lemma winTransition_fields [simp]:
  "gravityBlendFactor (winTransition p sn s) = 1"
  "sunCurrentGameMass (winTransition p sn s) = 0"
  "gameWon (winTransition p sn s) = True"
  "nextRef (winTransition p sn s) = nextRef s"
  "playerNeedsReset (winTransition p sn s) = playerNeedsReset s"
  by (simp_all add: winTransition_def clearOtherCenters_def Let_def fold_upd_fields)

lemma absorb_none: "absorptionTransfer dt p sn s \<le> 0 \<Longrightarrow> absorb dt p sn s = s"
  by (simp add: absorb_def Let_def)

lemma absorb_fields:
  assumes "0 < absorptionTransfer dt p sn s"
  shows "gravityBlendFactor (absorb dt p sn s) =
           (if sunCurrentGameMass s - absorptionTransfer dt p sn s < SUN_GAME_MASS * 0.02 then 1
            else min 1 (1 - (sunCurrentGameMass s - absorptionTransfer dt p sn s) / SUN_GAME_MASS))"
    and "sunCurrentGameMass (absorb dt p sn s) =
           (if sunCurrentGameMass s - absorptionTransfer dt p sn s < SUN_GAME_MASS * 0.02 then 0
            else sunCurrentGameMass s - absorptionTransfer dt p sn s)"
    and "gameWon (absorb dt p sn s) =
           (gameWon s \<or> sunCurrentGameMass s - absorptionTransfer dt p sn s < SUN_GAME_MASS * 0.02)"
  using assms by (simp_all add: absorb_def Let_def not_le)

lemma absorptionTransfer_bounds:
  "0 \<le> sunCurrentGameMass s \<Longrightarrow>
     0 \<le> absorptionTransfer dt p sn s \<and> absorptionTransfer dt p sn s \<le> sunCurrentGameMass s"
  by (simp add: absorptionTransfer_def Let_def)

lemma touchDist_pos: "0 < touchDist s p sn"
  using radius_ge_half [of s "heap s p"] radius_ge_half [of s "heap s sn"]
  by (simp add: touchDist_def)

lemma snap_state_simps:
  "heap snap_state 2 = body0\<lparr>b_mass := SUN_GAME_MASS / 2, isSun := True, isGravitationalCenter := True\<rparr>"
  "heap snap_state 3 = body0\<lparr>b_mass := SUN_GAME_MASS, isPlayer := True\<rparr>"
  "celestialBodies snap_state = [2, 3]" "nextRef snap_state = 4"
  "sunCurrentGameMass snap_state = SUN_GAME_MASS / 2" "gravityBlendFactor snap_state = 0"
  "currentGameSpeed snap_state = 1" "gameWon snap_state = False"
  by (simp_all add: snap_state_def state0_def)

lemma snap_state_phase: "absorptionPhase snap_state = Absorbing 3 2"
proof -
  have "findBody isPlayer snap_state = Some 3" "findBody isSun snap_state = Some 2"
    by (simp_all add: findBody_def snap_state_simps body0_def)
  moreover have "canAbsorb snap_state 3"
    using SUN_GAME_MASS_pos
    by (simp add: canAbsorb_def snap_state_simps SUN_ABSORPTION_START_RATIO_def)
  moreover have "sunDist snap_state 3 2 = 0"
    by (simp add: sunDist_def snap_state_simps body0_def)
  moreover have "0 < absorptionRange snap_state 3 2"
    using touchDist_pos [of snap_state 3 2]
    by (simp add: absorptionRange_def SUN_ABSORPTION_RANGE_MULTIPLIER_def)
  ultimately show ?thesis
    by (simp add: absorptionPhase_def snap_state_simps)
qed

lemma snap_state_transfer: "absorptionTransfer (1/100) 3 2 snap_state = SUN_GAME_MASS * (3/400)"
proof -
  define td where "td = touchDist snap_state 3 2"
  have td: "0 < td" unfolding td_def by (rule touchDist_pos)
  have d: "sunDist snap_state 3 2 = 0"
    by (simp add: sunDist_def snap_state_simps body0_def)
  have q: "(0 - td * 0.5) / (td * 2.5 - td * 0.5) = - (1/4)"
    using td by (simp add: field_simps)
  have "absorptionRate 3 2 snap_state =
          SUN_ABSORPTION_RATE * max 0 (min 1 (1 - (0 - td * 0.5) / (td * 2.5 - td * 0.5)))
            * max 0.2 (min 2 ((SUN_GAME_MASS / SUN_GAME_MASS - SUN_ABSORPTION_START_RATIO)
                               / (1 - SUN_ABSORPTION_START_RATIO)))"
    unfolding absorptionRate_def Let_def absorptionRange_def d td_def
    by (simp add: snap_state_simps SUN_ABSORPTION_RANGE_MULTIPLIER_def)
  then have r: "absorptionRate 3 2 snap_state = 3/2"
    unfolding q using SUN_GAME_MASS_pos
    by (simp add: SUN_ABSORPTION_START_RATIO_def SUN_ABSORPTION_RATE_def)
  show ?thesis
    using SUN_GAME_MASS_pos by (simp add: absorptionTransfer_def r snap_state_simps)
qed

subsection \<open>Circular orbits\<close>

lemma keplerParams_bound:
  fixes rx ry vx vy mu radii :: real
  defines "r \<equiv> sqrt (rx * rx + ry * ry + 1 / 10 ^ 9)"
  defines "E \<equiv> (vx * vx + vy * vy) / 2 - mu / r"
  defines "eSq \<equiv> 1 + (2 * E * (rx * vy - ry * vx) * (rx * vy - ry * vx)) / (mu * mu)"
  assumes en: "\<not> E \<ge> - (1 / 10 ^ 9)" and ap: "\<not> - mu / (2 * E) \<le> 0"
  shows "op_a (keplerParams rx ry vx vy mu radii) = Fin (- mu / (2 * E))"
    and "op_e (keplerParams rx ry vx vy mu radii) = (if eSq > 1 / 10 ^ 9 then sqrt eSq else 0)"
proof -
  have k: "keplerParams rx ry vx vy mu radii =
     (if E \<ge> - (1 / 10 ^ 9) then orbit_degenerate
      else if - mu / (2 * E) \<le> 0 then orbit_degenerate
      else \<lparr>op_a = Fin (- mu / (2 * E)),
            op_b = Fin (- mu / (2 * E) * sqrt (max 0 (1 - (if eSq > 1 / 10 ^ 9 then sqrt eSq else 0)
                                                       * (if eSq > 1 / 10 ^ 9 then sqrt eSq else 0)))),
            op_e = (if eSq > 1 / 10 ^ 9 then sqrt eSq else 0),
            op_periapsisAngle =
              atan2 (((vx * vx + vy * vy) * (1 / mu) - 1 / r) * ry - (rx * vx + ry * vy) * vy * (1 / mu))
                    (((vx * vx + vy * vy) * (1 / mu) - 1 / r) * rx - (rx * vx + ry * vy) * vx * (1 / mu)),
            op_collidesCenter =
              (- mu / (2 * E) * (1 - (if eSq > 1 / 10 ^ 9 then sqrt eSq else 0)) \<le> radii)\<rparr>)"
    unfolding keplerParams_def Let_def eSq_def E_def r_def by (rule refl)
  show "op_a (keplerParams rx ry vx vy mu radii) = Fin (- mu / (2 * E))"
    and "op_e (keplerParams rx ry vx vy mu radii) = (if eSq > 1 / 10 ^ 9 then sqrt eSq else 0)"
    unfolding k using en ap by simp_all
qed

lemma keplerParams_degenerate:
  fixes rx ry vx vy mu radii :: real
  shows "(vx * vx + vy * vy) / 2 - mu / sqrt (rx * rx + ry * ry + 1 / 10 ^ 9) \<ge> - (1 / 10 ^ 9)
         \<Longrightarrow> keplerParams rx ry vx vy mu radii = orbit_degenerate"
  unfolding keplerParams_def Let_def by (simp only: if_True)

lemma calculateOrbitParameters_fixed_center:
  assumes "body \<noteq> center" "0 < b_mass (heap s body)" "\<not> isSpark (heap s body)"
    and "b_x (heap s center) = 0" "b_y (heap s center) = 0"
    and "b_vx (heap s center) = 0" "b_vy (heap s center) = 0"
  shows "calculateOrbitParameters s body (Some center) =
           keplerParams (b_x (heap s body)) (b_y (heap s body)) (b_vx (heap s body)) (b_vy (heap s body))
             (orbit_mu s body center) (radius s (heap s center) + radius s (heap s body))"
  using assms by (simp add: calculateOrbitParameters_def Let_def)

lemma circ_state_simps:
  "heap circ_state 2 = body0\<lparr>b_mass := 10 ^ 12\<rparr>"
  "heap circ_state 3 = body0\<lparr>b_x := 1, b_vy := sqrt (G * (10 ^ 12 + 1)), b_mass := 1\<rparr>"
  by (simp_all add: circ_state_def state0_def)

lemma weak_state_simps:
  "heap weak_state 2 = body0\<lparr>b_mass := 1\<rparr>"
  "heap weak_state 3 = body0\<lparr>b_x := 1, b_vy := sqrt (G * (1 + 1)), b_mass := 1\<rparr>"
  by (simp_all add: weak_state_def state0_def)

lemma orbit_mu_ordinary:
  "\<not> isSun (heap s center) \<Longrightarrow> \<not> isPlayer (heap s center) \<Longrightarrow>
     orbit_mu s body center = G * (b_mass (heap s center) + b_mass (heap s body))"
  by (simp add: orbit_mu_def effectiveGravMass_def)

subsection \<open>The gravity kick\<close>

lemma gravityKick_same_place:
  assumes "b_x b = b_x src" "b_y b = b_y src"
  shows "gravityKick gm src b gameDt = (NaN, NaN)"
proof -
  have z: "num_mul (inf_of_sign (G * gm)) (Fin 0) = NaN"
    by (simp add: inf_of_sign_def)
  show ?thesis
    using assms by (simp add: gravityKick_def Let_def z)
qed

lemma gravityKick_finite:
  assumes "b_x b \<noteq> b_x src \<or> b_y b \<noteq> b_y src"
  shows "\<exists>nvx nvy. gravityKick gm src b gameDt = (Fin nvx, Fin nvy)"
proof -
  define q where "q = (b_x src - b_x b) * (b_x src - b_x b) + (b_y src - b_y b) * (b_y src - b_y b)"
  have q0: "q \<noteq> 0"
    using assms unfolding q_def by (auto simp: add_nonneg_eq_0_iff)
  have "0 \<le> q" unfolding q_def by simp
  then have "0 < q + 1 / 10 ^ 6" by (simp add: add_nonneg_pos)
  then have d0: "0 < sqrt (q + 1 / 10 ^ 6)" by simp
  then have d1: "sqrt (q + 1 / 10 ^ 6) \<noteq> 0" by simp
  have "gravityKick gm src b gameDt =
          (Fin (b_vx b + G * gm / q * (b_x src - b_x b) / sqrt (q + 1 / 10 ^ 6) * gameDt),
           Fin (b_vy b + G * gm / q * (b_y src - b_y b) / sqrt (q + 1 / 10 ^ 6) * gameDt))"
    unfolding gravityKick_def Let_def q_def [symmetric]
    by (simp only: d0 d1 q0 if_True if_False num_div.simps num_mul.simps num_add.simps)
  then show ?thesis by blast
qed

lemma gravityLoop_at_source:
  assumes "r \<noteq> src" "0 < b_mass (heap s r)" "\<not> (sk \<and> isSun (heap s r))"
    and "b_x (heap s r) = b_x (heap s src)" "b_y (heap s r) = b_y (heap s src)"
  shows "gravityLoop gm src sk gameDt (r # rs) s = None"
  using assms by (auto simp: gravityKick_same_place not_le)

lemma coincide_state_simps:
  "heap coincide_state 2 = body0\<lparr>b_mass := SUN_GAME_MASS, isSun := True, isGravitationalCenter := True\<rparr>"
  "heap coincide_state 3 = body0\<lparr>b_mass := PLAYER_INITIAL_MASS\<rparr>"
  "celestialBodies coincide_state = [2, 3]" "gravityBlendFactor coincide_state = 0"
  by (simp_all add: coincide_state_def state0_def)

subsection \<open>Consistency and the stages of the tick\<close>

lemma flags_eq_iff:
  "flags b' = flags b \<longleftrightarrow>
     isPlayer b' = isPlayer b \<and> isSun b' = isSun b \<and> isSpark b' = isSpark b
     \<and> isGravitationalCenter b' = isGravitationalCenter b"
  by (auto simp: flags_def)

lemma frame_refl: "frame s s"
  by (simp add: frame_def)

lemma frame_trans:
  assumes a: "frame s s'" and b: "frame s' s''"
  shows "frame s s''"
proof -
  have 1: "\<forall>r. flags (heap s'' r) = flags (heap s r)"
    using a b by (simp add: frame_def)
  have 2: "gameWon s'' = gameWon s" "nextRef s'' = nextRef s"
    using a b by (simp_all add: frame_def)
  have 3: "gameWon s \<longrightarrow> gravityBlendFactor s'' = gravityBlendFactor s"
    using a b by (simp add: frame_def)
  have 4: "distinct (celestialBodies s) \<longrightarrow> distinct (celestialBodies s'')"
    using a b by (simp add: frame_def)
  have 5: "set (celestialBodies s'') \<subseteq> set (celestialBodies s)"
    using a b unfolding frame_def by blast
  have ab: "\<And>r. r \<in> set (celestialBodies s) \<Longrightarrow> isGravitationalCenter (heap s r)
              \<Longrightarrow> r \<in> set (celestialBodies s')"
    using a unfolding frame_def by blast
  have fl: "\<And>r. isGravitationalCenter (heap s' r) = isGravitationalCenter (heap s r)"
    using a by (simp add: frame_def flags_eq_iff)
  have bc: "\<And>r. r \<in> set (celestialBodies s') \<Longrightarrow> isGravitationalCenter (heap s' r)
              \<Longrightarrow> r \<in> set (celestialBodies s'')"
    using b unfolding frame_def by blast
  have 6: "\<forall>r \<in> set (celestialBodies s). isGravitationalCenter (heap s r) \<longrightarrow> r \<in> set (celestialBodies s'')"
    using ab bc fl by blast
  show ?thesis
    unfolding frame_def using 1 2 3 4 5 6 by (intro conjI)
qed

lemma gcCount_card:
  "distinct (celestialBodies s) \<Longrightarrow>
     gcCount s = card {r \<in> set (celestialBodies s). isGravitationalCenter (heap s r)}"
  by (simp add: gcCount_def gravitationalCenters_def distinct_length_filter Int_def conj_commute)

lemma playerCount_card:
  "distinct (celestialBodies s) \<Longrightarrow>
     playerCount s = card {r \<in> set (celestialBodies s). isPlayer (heap s r)}"
  by (simp add: playerCount_def distinct_length_filter Int_def conj_commute)

lemma roleOk_cong:
  "flags (heap s' r) = flags (heap s r) \<Longrightarrow> gameWon s' = gameWon s \<Longrightarrow> roleOk s' r = roleOk s r"
  by (simp add: roleOk_def flags_eq_iff)

lemma consistent_frame:
  assumes c: "consistent s" and f: "frame s s'"
  shows "consistent s'"
proof -
  from f have fl: "\<And>r. flags (heap s' r) = flags (heap s r)"
    and gw: "gameWon s' = gameWon s" and nr: "nextRef s' = nextRef s"
    and gb: "gameWon s \<longrightarrow> gravityBlendFactor s' = gravityBlendFactor s"
    and sub: "set (celestialBodies s') \<subseteq> set (celestialBodies s)"
    and keep: "\<forall>r \<in> set (celestialBodies s). isGravitationalCenter (heap s r) \<longrightarrow> r \<in> set (celestialBodies s')"
    by (simp_all add: frame_def)
  have gc: "\<And>r. isGravitationalCenter (heap s' r) = isGravitationalCenter (heap s r)"
    using fl by (simp add: flags_eq_iff)
  from c have d: "distinct (celestialBodies s)" and al: "allocated s"
    and ro: "list_all (roleOk s) (celestialBodies s)" and g1: "gcCount s = 1"
    and w: "gameWon s \<longrightarrow> gravityBlendFactor s = 1" and p1: "playerCount s \<le> 1"
    by (simp_all add: consistent_def)
  from d f have d': "distinct (celestialBodies s')" by (simp add: frame_def)
  have "{r \<in> set (celestialBodies s'). isGravitationalCenter (heap s' r)}
        = {r \<in> set (celestialBodies s). isGravitationalCenter (heap s r)}"
    unfolding gc using sub keep by blast
  then have g: "gcCount s' = 1"
    using g1 by (simp add: gcCount_card d d')
  have al': "allocated s'"
    using al sub unfolding allocated_def list_all_iff nr by blast
  have ro': "list_all (roleOk s') (celestialBodies s')"
    using ro sub unfolding list_all_iff roleOk_cong [OF fl gw] by blast
  have w': "gameWon s' \<longrightarrow> gravityBlendFactor s' = 1"
    using w gb gw by simp
  have pl: "\<And>r. isPlayer (heap s' r) = isPlayer (heap s r)"
    using fl by (simp add: flags_eq_iff)
  have "{r \<in> set (celestialBodies s'). isPlayer (heap s' r)}
        \<subseteq> {r \<in> set (celestialBodies s). isPlayer (heap s r)}"
    unfolding pl using sub by blast
  then have "card {r \<in> set (celestialBodies s'). isPlayer (heap s' r)}
        \<le> card {r \<in> set (celestialBodies s). isPlayer (heap s r)}"
    by (rule card_mono [rotated]) simp
  then have p': "playerCount s' \<le> 1"
    using p1 by (simp add: playerCount_card d d')
  show ?thesis
    unfolding consistent_def using d' al' ro' g p' w' by (intro conjI)
qed

lemma frame_upd:
  assumes "\<And>b. flags (f b) = flags b"
  shows "frame s (upd r f s)"
  using assms by (simp add: frame_def)

lemma flags_set_mass [simp]: "flags (set_mass s b m) = flags b"
  by (simp add: flags_def)

lemma frame_setMass: "frame s (setMass r m s)"
  by (simp add: frame_def)

lemma consistent_not_spark_center:
  assumes "consistent s" "r \<in> set (celestialBodies s)" "isGravitationalCenter (heap s r)"
  shows "\<not> isSpark (heap s r)"
proof -
  from assms have "roleOk s r" by (simp add: consistent_def list_all_iff)
  with assms(3) show ?thesis by (auto simp: roleOk_def split: if_splits)
qed

lemma frame_cleanup:
  assumes c: "consistent s"
  shows "frame s (cleanup now s)"
proof -
  have "r \<in> set (celestialBodies (cleanup now s))"
    if "r \<in> set (celestialBodies s)" "isGravitationalCenter (heap s r)" for r
    using that consistent_not_spark_center [OF c that] by (simp add: cleanup_def keepBody_def)
  then show ?thesis
    by (simp add: frame_def cleanup_def)
qed

lemma frame_gravityLoop:
  "gravityLoop gm src sk gameDt rs s = Some s' \<Longrightarrow> frame s s'"
proof (induction rs arbitrary: s)
  case Nil
  then show ?case by (simp add: frame_refl)
next
  case (Cons r rs)
  show ?case
  proof (cases "r = src \<or> b_mass (heap s r) \<le> 0 \<or> (sk \<and> isSun (heap s r))")
    case True
    with Cons show ?thesis by simp
  next
    case False
    with Cons.prems obtain nvx nvy where
      k: "gravityLoop gm src sk gameDt rs (upd r (\<lambda>b. b\<lparr>b_vx := nvx, b_vy := nvy\<rparr>) s) = Some s'"
      by (auto split: prod.splits num.splits)
    have "frame s (upd r (\<lambda>b. b\<lparr>b_vx := nvx, b_vy := nvy\<rparr>) s)"
      by (rule frame_upd) (simp add: flags_def)
    then show ?thesis using Cons.IH [OF k] by (rule frame_trans)
  qed
qed

lemma frame_gravityStage:
  assumes "gravityStage gameDt sun player s = Some s'"
  shows "frame s s'"
proof -
  from assms obtain s2 s3 s4 where
    a: "sunGravity gameDt sun s = Some s2" and b: "playerGravity gameDt player s2 = Some s3"
    and c: "postWinGravity gameDt sun player s3 = Some s4" and d: "s' = fatalCheck sun player s4"
    by (auto simp: gravityStage_def split: option.splits)
  have "frame s s2"
    using a frame_gravityLoop by (auto simp: sunGravity_def Let_def frame_refl split: option.splits if_splits)
  moreover have "frame s2 s3"
    using b frame_gravityLoop by (auto simp: playerGravity_def Let_def frame_refl split: option.splits if_splits)
  moreover have "frame s3 s4"
    using c frame_gravityLoop by (auto simp: postWinGravity_def Let_def frame_refl split: option.splits if_splits)
  moreover have "frame s4 s'" using d by (simp add: frame_def fatalCheck_def)
  ultimately show ?thesis by (blast intro: frame_trans)
qed

lemma frame_field:
  assumes "heap s' = heap s" "celestialBodies s' = celestialBodies s" "gameWon s' = gameWon s"
    "nextRef s' = nextRef s" "gravityBlendFactor s' = gravityBlendFactor s"
  shows "frame s s'"
  using assms by (simp add: frame_def)

lemma frame_fold_upd:
  assumes "\<And>r st b. flags (f r st b) = flags b"
  shows "frame s (fold (\<lambda>r st. upd r (f r st) st) rs s)"
proof (induction rs arbitrary: s)
  case Nil
  show ?case by (simp add: frame_refl)
next
  case (Cons r rs)
  have "frame s (upd r (f r s) s)" by (rule frame_upd) (rule assms)
  then show ?case using Cons [of "upd r (f r s) s"] by (simp add: frame_trans)
qed

lemma flags_moveBody: "flags (moveBody gameDt st b) = flags b"
  by (simp add: moveBody_def Let_def flags_def)

lemma frame_updatePositions: "frame s (updatePositions gameDt s)"
  unfolding updatePositions_def by (rule frame_fold_upd) (rule flags_moveBody)

lemma mem_splice1: "r \<in> set xs \<Longrightarrow> r \<noteq> xs ! k \<Longrightarrow> r \<in> set (splice1 k xs)"
proof -
  assume a: "r \<in> set xs" and b: "r \<noteq> xs ! k"
  then obtain n where n: "n < length xs" "xs ! n = r" by (auto simp: in_set_conv_nth)
  with b have "n \<noteq> k" by auto
  then consider "n < k" | "k < n" by linarith
  then show ?thesis
  proof cases
    case 1
    with n have "r \<in> set (take k xs)" by (auto simp: in_set_conv_nth)
    then show ?thesis by (simp add: splice1_def)
  next
    case 2
    then obtain m where "n = Suc k + m" by (metis less_iff_Suc_add add_Suc)
    with n have "r \<in> set (drop (Suc k) xs)" by (force simp: in_set_conv_nth)
    then show ?thesis by (simp add: splice1_def)
  qed
qed

lemma set_splice1: "set (splice1 k xs) \<subseteq> set xs"
  by (auto simp: splice1_def dest: in_set_takeD in_set_dropD)

lemma distinct_splice1: "distinct xs \<Longrightarrow> distinct (splice1 k xs)"
  using set_take_disj_set_drop_if_distinct [of xs k "Suc k"]
  by (simp add: splice1_def)

lemma flags_applyTransfer [simp]: "flags (heap (applyTransfer big small t s) r) = flags (heap s r)"
  by (simp add: flags_def)

lemma frame_applyTransfer: "frame s (applyTransfer big small t s)"
  by (simp add: frame_def)

lemma frame_resolvePair:
  assumes "\<not> isGravitationalCenter (heap s (celestialBodies s ! smallI))"
  shows "frame s (state_of (resolvePair dt bigI smallI s))"
proof -
  have "r \<in> set (splice1 smallI (celestialBodies s))"
    if "r \<in> set (celestialBodies s)" "isGravitationalCenter (heap s r)" for r
    using that assms by (intro mem_splice1) auto
  then show ?thesis
    using set_splice1 [of smallI "celestialBodies s"]
    by (auto simp: resolvePair_def Let_def frame_def distinct_splice1 flags_def)
qed

lemma frame_collidePair: "frame s (state_of (collidePair dt now i j s))"
proof -
  have a: "frame s (s\<lparr>collisionDetectedThisFrame := True\<rparr>)"
    by (simp add: frame_def)
  have "frame (s\<lparr>collisionDetectedThisFrame := True\<rparr>)
          (state_of (resolvePair dt bigI smallI (s\<lparr>collisionDetectedThisFrame := True\<rparr>)))"
    if "\<not> isGravitationalCenter (heap s (celestialBodies s ! smallI))" for bigI smallI
    using that by (intro frame_resolvePair) simp
  then have b: "frame s (state_of (resolvePair dt bigI smallI (s\<lparr>collisionDetectedThisFrame := True\<rparr>)))"
    if "\<not> isGravitationalCenter (heap s (celestialBodies s ! smallI))" for bigI smallI
    using that a frame_trans by blast
  show ?thesis
    using a b by (simp add: collidePair_def Let_def frame_refl)
qed

lemma frame_innerLoop: "frame s (state_of (innerLoop dt now i n s))"
proof (induction n arbitrary: s)
  case 0
  show ?case by (simp add: frame_refl)
next
  case (Suc n)
  show ?case
  proof (cases "collidePair dt now i n s")
    case (Continue s')
    with frame_collidePair [of s dt now i n] have "frame s s'" by simp
    with Suc [of s'] Continue show ?thesis by (simp add: frame_trans)
  next
    case (Break k s')
    with frame_collidePair [of s dt now i n] show ?thesis by simp
  next
    case (Return s')
    with frame_collidePair [of s dt now i n] show ?thesis by simp
  qed
qed

lemma frame_outerLoop: "frame s (outerLoop dt now n s)"
proof (induction dt now n s rule: outerLoop.induct)
  case (1 dt now s)
  show ?case by (simp add: frame_refl)
next
  case (2 dt now i s)
  show ?case
  proof (cases "innerLoop dt now i i s")
    case (Continue s')
    with frame_innerLoop [of s dt now i i] have f: "frame s s'" by simp
    with 2(1) [of s'] Continue show ?thesis by (auto simp: frame_trans)
  next
    case (Break k s')
    with frame_innerLoop [of s dt now i i] have f: "frame s s'" by simp
    with 2(2) [of k s'] Break show ?thesis by (auto simp: frame_trans)
  next
    case (Return s')
    with frame_innerLoop [of s dt now i i] show ?thesis by simp
  qed
qed

lemma frame_checkCollisions: "frame s (checkCollisions dt now s)"
  by (simp add: checkCollisions_def frame_outerLoop)

lemma frame_fold:
  assumes "\<And>r st. frame st (f r st)"
  shows "frame s (fold f rs s)"
proof (induction rs arbitrary: s)
  case Nil
  show ?case by (simp add: frame_refl)
next
  case (Cons r rs)
  from assms [of s r] Cons [of "f r s"] show ?case by (simp add: frame_trans)
qed

lemma frame_if: "frame s a \<Longrightarrow> frame s b \<Longrightarrow> frame s (if c then a else b)"
  by simp

lemma frame_upd_after:
  assumes "\<And>b. flags (f b) = flags b" and "frame s s1"
  shows "frame s (upd r f s1)"
  using assms(2) frame_upd [of f s1 r, OF assms(1)] by (rule frame_trans)

lemma frame_orbitOne: "frame s (orbitOne dt c pp m r s)"
  unfolding orbitOne_def Let_def
  by (intro frame_if frame_refl frame_upd_after) (simp_all add: flags_def)

lemma frame_orbitStage: "frame s (orbitStage dt sun player s)"
  by (simp add: orbitStage_def Let_def frame_refl frame_fold frame_orbitOne split: option.splits)

lemma frame_updateOrbitHistory: "frame s (updateOrbitHistory s)"
  by (simp add: updateOrbitHistory_def Let_def frame_def split: option.splits)

lemma frame_decayEjectionMultiplier: "frame s (decayEjectionMultiplier now s)"
  by (simp add: decayEjectionMultiplier_def frame_def)

lemma frame_finishTick: "frame s (finishTick dt nowDecay player s)"
proof -
  define s10 where "s10 = (case player of
                   Some pl \<Rightarrow> s\<lparr>camera_x := b_x (heap s pl), camera_y := b_y (heap s pl)\<rparr>
                 | None \<Rightarrow> s)"
  define s11 where "s11 = s10\<lparr>currentWarningIntensity := max 0 (min 1
      (currentWarningIntensity s10 + (calculateWarningIntensity s10 - currentWarningIntensity s10) * 5 * dt))\<rparr>"
  have a: "frame s s10" by (simp add: s10_def frame_def split: option.splits)
  have b: "frame s10 s11" by (simp add: s11_def frame_def)
  have c: "frame s11 (updateOrbitHistory s11)" by (rule frame_updateOrbitHistory)
  have d: "frame (updateOrbitHistory s11) (decayEjectionMultiplier nowDecay (updateOrbitHistory s11))"
    by (rule frame_decayEjectionMultiplier)
  have "finishTick dt nowDecay player s = decayEjectionMultiplier nowDecay (updateOrbitHistory s11)"
    by (simp add: finishTick_def Let_def s11_def s10_def)
  then show ?thesis
    using a b c d by (metis frame_trans)
qed

lemma absorb_cases:
  assumes w: "\<not> gameWon s"
  shows "\<exists>s6. frame s s6 \<and> celestialBodies s6 = celestialBodies s \<and> \<not> gameWon s6
           \<and> (absorb dt p sn s = s6 \<or> absorb dt p sn s = winTransition p sn s6)"
proof (cases "absorptionTransfer dt p sn s \<le> 0")
  case True
  then have "absorb dt p sn s = s" by (rule absorb_none)
  with w show ?thesis using frame_refl by metis
next
  case False
  define t where "t = absorptionTransfer dt p sn s"
  define s1 where "s1 = (if b_mass (heap s p) + t > 1 / 10 ^ 9
                      then
                        (let s0a = upd p (\<lambda>b. b\<lparr>b_vx :=
                               (b_mass b * b_vx b + t * b_vx (heap s sn)) / (b_mass (heap s p) + t)\<rparr>) s
                         in upd p (\<lambda>b. b\<lparr>b_vy :=
                               (b_mass b * b_vy b + t * b_vy (heap s0a sn)) / (b_mass (heap s p) + t)\<rparr>) s0a)
                      else s)"
  define s2 where "s2 = setMass p (b_mass (heap s1 p) + t) s1"
  define s3 where "s3 = s2\<lparr>sunCurrentGameMass := sunCurrentGameMass s2 - t\<rparr>"
  define s4 where "s4 = setMass sn (sunCurrentGameMass s3) s3"
  define s5 where "s5 = s4\<lparr>sunAbsorptionProgress := 1 - sunCurrentGameMass s4 / SUN_GAME_MASS\<rparr>"
  define s6 where "s6 = s5\<lparr>gravityBlendFactor := min 1 (sunAbsorptionProgress s5)\<rparr>"
  have e: "absorb dt p sn s = (if sunCurrentGameMass s6 < SUN_GAME_MASS * 0.02
               then winTransition p sn s6 else s6)"
    unfolding absorb_def Let_def s6_def s5_def s4_def s3_def s2_def s1_def t_def
    using False by (simp only: if_False)
  have f1: "frame s s1 \<and> celestialBodies s1 = celestialBodies s \<and> \<not> gameWon s1"
    using w by (simp add: s1_def Let_def frame_def flags_def)
  have f2: "frame s1 s2 \<and> celestialBodies s2 = celestialBodies s1 \<and> gameWon s2 = gameWon s1"
    by (simp add: s2_def frame_def)
  have f3: "frame s2 s3 \<and> celestialBodies s3 = celestialBodies s2 \<and> gameWon s3 = gameWon s2"
    by (simp add: s3_def frame_def)
  have f4: "frame s3 s4 \<and> celestialBodies s4 = celestialBodies s3 \<and> gameWon s4 = gameWon s3"
    by (simp add: s4_def frame_def)
  have f5: "frame s4 s5 \<and> celestialBodies s5 = celestialBodies s4 \<and> gameWon s5 = gameWon s4"
    by (simp add: s5_def frame_def)
  have g5: "\<not> gameWon s5" using f1 f2 f3 f4 f5 by simp
  have f6: "frame s5 s6 \<and> celestialBodies s6 = celestialBodies s5 \<and> gameWon s6 = gameWon s5"
    using g5 by (simp add: s6_def frame_def)
  have "frame s s6" using f1 f2 f3 f4 f5 f6 by (metis frame_trans)
  moreover have "celestialBodies s6 = celestialBodies s" using f1 f2 f3 f4 f5 f6 by simp
  moreover have "\<not> gameWon s6" using f1 f2 f3 f4 f5 f6 by simp
  ultimately show ?thesis using e by metis
qed

lemma find_Some_holds: "find P xs = Some x \<Longrightarrow> P x"
  by (induction xs) (auto split: if_splits)

lemma findBody_holds: "findBody P s = Some r \<Longrightarrow> P (heap s r)"
  unfolding findBody_def by (rule find_Some_holds)

lemma findBody_exists:
  "r \<in> set (celestialBodies s) \<Longrightarrow> P (heap s r) \<Longrightarrow> \<exists>r'. findBody P s = Some r'"
  unfolding findBody_def by (cases "find (\<lambda>r. P (heap s r)) (celestialBodies s)") (auto simp: find_None_iff)

lemma consistent_roleOk: "consistent s \<Longrightarrow> r \<in> set (celestialBodies s) \<Longrightarrow> roleOk s r"
  by (simp add: consistent_def list_all_iff)

lemma consistent_center_unique:
  assumes c: "consistent s"
    and "r \<in> set (celestialBodies s)" "isGravitationalCenter (heap s r)"
    and "r' \<in> set (celestialBodies s)" "isGravitationalCenter (heap s r')"
  shows "r = r'"
proof -
  from c have "distinct (celestialBodies s)" "gcCount s = 1" by (simp_all add: consistent_def)
  then have "card {r \<in> set (celestialBodies s). isGravitationalCenter (heap s r)} = 1"
    by (simp add: gcCount_card)
  then obtain x where x: "{r \<in> set (celestialBodies s). isGravitationalCenter (heap s r)} = {x}"
    by (rule card_1_singletonE)
  from assms(2,3) have "r \<in> {r \<in> set (celestialBodies s). isGravitationalCenter (heap s r)}" by simp
  moreover from assms(4,5) have "r' \<in> {r \<in> set (celestialBodies s). isGravitationalCenter (heap s r)}" by simp
  ultimately show ?thesis unfolding x by simp
qed

lemma consistent_player_unique:
  assumes c: "consistent s"
    and "r \<in> set (celestialBodies s)" "isPlayer (heap s r)"
    and "r' \<in> set (celestialBodies s)" "isPlayer (heap s r')"
  shows "r = r'"
proof -
  from c have "distinct (celestialBodies s)" "playerCount s \<le> 1" by (simp_all add: consistent_def)
  then have "card {r \<in> set (celestialBodies s). isPlayer (heap s r)} \<le> 1"
    by (simp add: playerCount_card)
  moreover have "finite {r \<in> set (celestialBodies s). isPlayer (heap s r)}" by simp
  ultimately have "\<forall>x \<in> {r \<in> set (celestialBodies s). isPlayer (heap s r)}.
                   \<forall>y \<in> {r \<in> set (celestialBodies s). isPlayer (heap s r)}. x = y"
    by (simp only: card_le_Suc0_iff_eq One_nat_def)
  moreover from assms(2,3) have "r \<in> {r \<in> set (celestialBodies s). isPlayer (heap s r)}" by simp
  moreover from assms(4,5) have "r' \<in> {r \<in> set (celestialBodies s). isPlayer (heap s r)}" by simp
  ultimately show ?thesis by blast
qed

lemma consistent_center:
  assumes c: "consistent s"
  obtains c where "gravitationalCenters s = [c]" "c \<in> set (celestialBodies s)"
    "isGravitationalCenter (heap s c)"
proof -
  from c have "length (gravitationalCenters s) = 1" by (simp add: consistent_def gcCount_def)
  then obtain c where g: "gravitationalCenters s = [c]"
    by (cases "gravitationalCenters s") auto
  then have "c \<in> set (gravitationalCenters s)" by simp
  then have "c \<in> set (celestialBodies s)" "isGravitationalCenter (heap s c)"
    by (simp_all add: gravitationalCenters_def)
  with g that show ?thesis by blast
qed

lemma consistent_centerIsCurrent:
  assumes c: "consistent s"
  shows "centerIsCurrent s"
proof -
  from c obtain x where g: "gravitationalCenters s = [x]" and m: "x \<in> set (celestialBodies s)"
    and gx: "isGravitationalCenter (heap s x)" by (rule consistent_center)
  from c m have ro: "roleOk s x" by (rule consistent_roleOk)
  show ?thesis
  proof (cases "gameWon s")
    case True
    with ro gx have px: "isPlayer (heap s x)" by (simp add: roleOk_def)
    with m obtain y where y: "findBody isPlayer s = Some y" using findBody_exists by blast
    then have "y \<in> set (celestialBodies s)" "isPlayer (heap s y)"
      by (simp_all add: findBody_mem findBody_holds)
    with c m px have "x = y" by (intro consistent_player_unique [of s x y])
    with g y True show ?thesis by (simp add: centerIsCurrent_def)
  next
    case False
    with ro gx have sx: "isSun (heap s x)" by (simp add: roleOk_def)
    with m obtain y where y: "findBody isSun s = Some y" using findBody_exists by blast
    then have my: "y \<in> set (celestialBodies s)" and sy: "isSun (heap s y)"
      by (simp_all add: findBody_mem findBody_holds)
    from c my have "roleOk s y" by (rule consistent_roleOk)
    with sy have "isGravitationalCenter (heap s y)" by (simp add: roleOk_def)
    with c m gx my have "x = y" by (intro consistent_center_unique [of s x y])
    with g y False show ?thesis by (simp add: centerIsCurrent_def)
  qed
qed

lemma consistent_won_no_sun:
  assumes c: "consistent s" and w: "gameWon s" and m: "r \<in> set (celestialBodies s)"
  shows "\<not> isSun (heap s r)"
proof
  assume s: "isSun (heap s r)"
  from c m have "roleOk s r" by (rule consistent_roleOk)
  with s w show False by (auto simp: roleOk_def)
qed

lemma consistent_wonState:
  assumes c: "consistent s" and w: "gameWon s"
  shows "wonState s"
proof -
  have a: "list_all (\<lambda>r. \<not> isSun (heap s r)) (celestialBodies s)"
    using consistent_won_no_sun [OF c w] by (simp add: list_all_iff)
  have b: "gravityBlendFactor s = 1" using c w by (simp add: consistent_def)
  have "centerIsCurrent s" using c by (rule consistent_centerIsCurrent)
  with w have d: "map Some (gravitationalCenters s) = [findBody isPlayer s]"
    by (simp add: centerIsCurrent_def)
  show ?thesis unfolding wonState_def using a b d by (intro conjI)
qed

lemma consistent_playersCentral:
  assumes c: "consistent s" and w: "gameWon s"
  shows "playersCentral s"
proof -
  from c obtain x where m: "x \<in> set (celestialBodies s)"
    and gx: "isGravitationalCenter (heap s x)" by (rule consistent_center)
  from c m have "roleOk s x" by (rule consistent_roleOk)
  with gx w have px: "isPlayer (heap s x)" by (simp add: roleOk_def)
  have "isGravitationalCenter (heap s r)" if "r \<in> set (celestialBodies s)" "isPlayer (heap s r)" for r
  proof -
    from c m px that have "x = r" by (intro consistent_player_unique [of s x r])
    with gx show ?thesis by simp
  qed
  then show ?thesis by (simp add: playersCentral_def list_all_iff)
qed

lemma clear_fold_heap:
  "isPlayer (heap (fold (\<lambda>r st. if r \<noteq> p then upd r (\<lambda>b. b\<lparr>isGravitationalCenter := False\<rparr>) st else st) rs s) x)
     = isPlayer (heap s x)"
  "isSun (heap (fold (\<lambda>r st. if r \<noteq> p then upd r (\<lambda>b. b\<lparr>isGravitationalCenter := False\<rparr>) st else st) rs s) x)
     = isSun (heap s x)"
  "isSpark (heap (fold (\<lambda>r st. if r \<noteq> p then upd r (\<lambda>b. b\<lparr>isGravitationalCenter := False\<rparr>) st else st) rs s) x)
     = isSpark (heap s x)"
  "isGravitationalCenter (heap (fold (\<lambda>r st. if r \<noteq> p then upd r (\<lambda>b. b\<lparr>isGravitationalCenter := False\<rparr>) st else st) rs s) x)
     = (if x \<in> set rs \<and> x \<noteq> p then False else isGravitationalCenter (heap s x))"
  by (induction rs arbitrary: s) auto

lemma winTransition_registry [simp]:
  "celestialBodies (winTransition p sn s) = remove1 sn (celestialBodies s)"
  by (simp add: winTransition_def clearOtherCenters_def Let_def fold_upd_fields)

lemma winTransition_heap:
  "isPlayer (heap (winTransition p sn s) x) = isPlayer (heap s x)"
  "isSun (heap (winTransition p sn s) x) = isSun (heap s x)"
  "isSpark (heap (winTransition p sn s) x) = isSpark (heap s x)"
  "isGravitationalCenter (heap (winTransition p sn s) x)
     = (if x = p then True
        else if x \<in> set (remove1 sn (celestialBodies s)) then False
        else isGravitationalCenter (heap s x))"
  by (simp_all add: winTransition_def clearOtherCenters_def Let_def clear_fold_heap)

lemma consistent_winTransition:
  assumes c: "consistent s" and w: "\<not> gameWon s"
    and p: "p \<in> set (celestialBodies s)" "isPlayer (heap s p)"
    and sn: "sn \<in> set (celestialBodies s)" "isSun (heap s sn)"
  shows "consistent (winTransition p sn s)"
proof -
  let ?W = "winTransition p sn s"
  from c have d: "distinct (celestialBodies s)" and al: "allocated s"
    and p1: "playerCount s \<le> 1"
    by (simp_all add: consistent_def)
  have rp: "roleOk s p" and rs: "roleOk s sn" using c p sn by (simp_all add: consistent_roleOk)
  from rp p(2) sn(2) have ne: "p \<noteq> sn" by (auto simp: roleOk_def)
  from rs sn(2) have gs: "isGravitationalCenter (heap s sn)" by (simp add: roleOk_def)
  have nosun: "\<not> isSun (heap s r)" if "r \<in> set (remove1 sn (celestialBodies s))" for r
  proof
    assume a: "isSun (heap s r)"
    from that d have m: "r \<in> set (celestialBodies s)" and n: "r \<noteq> sn" by auto
    from c m have "roleOk s r" by (rule consistent_roleOk)
    with a have "isGravitationalCenter (heap s r)" by (simp add: roleOk_def)
    with c m sn(1) gs have "r = sn" by (intro consistent_center_unique [of s r sn])
    with n show False by simp
  qed
  have d': "distinct (celestialBodies ?W)" using d by simp
  have al': "allocated ?W"
    using al set_remove1_subset [of sn "celestialBodies s"] by (auto simp: allocated_def list_all_iff)
  have ro': "roleOk ?W r" if m': "r \<in> set (celestialBodies ?W)" for r
  proof -
    from m' have m1: "r \<in> set (remove1 sn (celestialBodies s))" by simp
    with d have m: "r \<in> set (celestialBodies s)" by auto
    from c m have "roleOk s r" by (rule consistent_roleOk)
    then show ?thesis
      using nosun [OF m1] m1 p(2) by (auto simp: roleOk_def winTransition_heap)
  qed
  have pm: "p \<in> set (remove1 sn (celestialBodies s))" using p(1) ne by simp
  have "{r \<in> set (celestialBodies ?W). isGravitationalCenter (heap ?W r)} = {p}"
    using pm by (auto simp: winTransition_heap)
  then have g': "gcCount ?W = 1" using d' by (simp add: gcCount_card)
  have "{r \<in> set (celestialBodies ?W). isPlayer (heap ?W r)}
        \<subseteq> {r \<in> set (celestialBodies s). isPlayer (heap s r)}"
    using set_remove1_subset [of sn "celestialBodies s"] by (auto simp: winTransition_heap)
  then have "card {r \<in> set (celestialBodies ?W). isPlayer (heap ?W r)}
        \<le> card {r \<in> set (celestialBodies s). isPlayer (heap s r)}"
    by (rule card_mono [rotated]) simp
  then have p': "playerCount ?W \<le> 1"
    using p1 by (simp add: playerCount_card d d')
  have ro'': "list_all (roleOk ?W) (celestialBodies ?W)"
    using ro' unfolding list_all_iff by blast
  have gb: "gameWon ?W \<longrightarrow> gravityBlendFactor ?W = 1" by simp
  show ?thesis
    unfolding consistent_def using d' al' ro'' g' p' gb by (intro conjI)
qed

lemma consistent_checkSunAbsorption:
  assumes c: "consistent s"
  shows "consistent (checkSunAbsorption dt s)"
proof (cases "absorptionPhase s")
  case Inactive
  with c show ?thesis by (simp add: checkSunAbsorption_phase)
next
  case (NotEligible p sn)
  then have "\<not> gameWon s" by (auto simp: absorptionPhase_def split: if_splits option.splits)
  then have "frame s (checkSunAbsorption dt s)"
    using NotEligible by (simp add: checkSunAbsorption_phase Let_def frame_def)
  with c show ?thesis by (rule consistent_frame)
next
  case (OutOfRange p sn)
  then have "\<not> gameWon s" by (auto simp: absorptionPhase_def split: if_splits option.splits)
  then have "frame s (checkSunAbsorption dt s)"
    using OutOfRange by (simp add: checkSunAbsorption_phase Let_def frame_def)
  with c show ?thesis by (rule consistent_frame)
next
  case (Absorbing p sn)
  then have w: "\<not> gameWon s" and fp: "findBody isPlayer s = Some p" and fs: "findBody isSun s = Some sn"
    by (auto simp: absorptionPhase_def split: if_splits option.splits)
  from absorb_cases [OF w, of dt p sn] obtain s6 where
    f: "frame s s6" and r: "celestialBodies s6 = celestialBodies s" and w6: "\<not> gameWon s6"
    and e: "absorb dt p sn s = s6 \<or> absorb dt p sn s = winTransition p sn s6"
    by blast
  from c f have c6: "consistent s6" by (rule consistent_frame)
  from f have fl: "\<And>r. flags (heap s6 r) = flags (heap s r)" by (simp add: frame_def)
  have p6: "p \<in> set (celestialBodies s6)" "isPlayer (heap s6 p)"
    using fp fl [of p] r by (simp_all add: findBody_mem findBody_holds flags_eq_iff)
  have sn6: "sn \<in> set (celestialBodies s6)" "isSun (heap s6 sn)"
    using fs fl [of sn] r by (simp_all add: findBody_mem findBody_holds flags_eq_iff)
  have "consistent (winTransition p sn s6)"
    using c6 w6 p6 sn6 by (rule consistent_winTransition)
  with c6 e have "consistent (absorb dt p sn s)" by auto
  with Absorbing show ?thesis by (simp add: checkSunAbsorption_phase)
qed

lemma checkSunAbsorption_won: "gameWon s \<Longrightarrow> checkSunAbsorption dt s = s"
  by (simp add: checkSunAbsorption_def)

lemma checkSunAbsorption_reset_won:
  "playerNeedsReset (checkSunAbsorption dt s) \<Longrightarrow> \<not> playerNeedsReset s
     \<Longrightarrow> \<not> gameWon (checkSunAbsorption dt s)"
proof (cases "absorptionPhase s")
  case Inactive
  assume "playerNeedsReset (checkSunAbsorption dt s)" "\<not> playerNeedsReset s"
  with Inactive show ?thesis by (simp add: checkSunAbsorption_phase)
next
  case (NotEligible p sn)
  then have "\<not> gameWon s" by (auto simp: absorptionPhase_def split: if_splits option.splits)
  then show ?thesis using NotEligible by (simp add: checkSunAbsorption_phase Let_def)
next
  case (OutOfRange p sn)
  then have "\<not> gameWon s" by (auto simp: absorptionPhase_def split: if_splits option.splits)
  then show ?thesis using OutOfRange by (simp add: checkSunAbsorption_phase Let_def)
next
  case (Absorbing p sn)
  assume a: "playerNeedsReset (checkSunAbsorption dt s)" "\<not> playerNeedsReset s"
  have "playerNeedsReset (absorb dt p sn s) = playerNeedsReset s"
    by (simp add: absorb_def Let_def)
  with a Absorbing show ?thesis by (simp add: checkSunAbsorption_phase)
qed

lemma consistent_push:
  assumes c: "consistent s" and b: "\<not> isPlayer b" "\<not> isSun b" "\<not> isGravitationalCenter b"
  shows "consistent (push b s) \<and> gameWon (push b s) = gameWon s"
proof -
  let ?n = "nextRef s"
  from c have d: "distinct (celestialBodies s)" and al: "allocated s"
    and ro: "list_all (roleOk s) (celestialBodies s)" and g1: "gcCount s = 1"
    and p1: "playerCount s \<le> 1" and w: "gameWon s \<longrightarrow> gravityBlendFactor s = 1"
    by (simp_all add: consistent_def)
  have old: "r \<noteq> ?n" if "r \<in> set (celestialBodies s)" for r
    using allocated_mem [OF al that] by simp
  then have nin: "?n \<notin> set (celestialBodies s)" by blast
  have d': "distinct (celestialBodies (push b s))" using d nin by simp
  have "r < Suc ?n" if "r \<in> set (celestialBodies s)" for r
    using allocated_mem [OF al that] by simp
  then have al': "allocated (push b s)"
    unfolding allocated_def list_all_iff by simp
  have rn: "roleOk (push b s) ?n"
    using b by (simp add: roleOk_def)
  have "roleOk (push b s) r" if "r \<in> set (celestialBodies s)" for r
  proof -
    from ro that have r: "roleOk s r" by (simp add: list_all_iff)
    have h: "heap (push b s) r = heap s r" using old [OF that] by simp
    have g: "gameWon (push b s) = gameWon s" by simp
    from r show ?thesis unfolding roleOk_def h g .
  qed
  with rn have ro': "list_all (roleOk (push b s)) (celestialBodies (push b s))"
    unfolding list_all_iff by simp
  have "filter (\<lambda>r. isGravitationalCenter (heap (push b s) r)) (celestialBodies s)
        = filter (\<lambda>r. isGravitationalCenter (heap s r)) (celestialBodies s)"
    by (rule filter_cong) (auto dest: old)
  then have g': "gcCount (push b s) = 1"
    using g1 b by (simp add: gcCount_def gravitationalCenters_def)
  have "filter (\<lambda>r. isPlayer (heap (push b s) r)) (celestialBodies s)
        = filter (\<lambda>r. isPlayer (heap s r)) (celestialBodies s)"
    by (rule filter_cong) (auto dest: old)
  then have p': "playerCount (push b s) \<le> 1"
    using p1 b by (simp add: playerCount_def)
  have w': "gameWon (push b s) \<longrightarrow> gravityBlendFactor (push b s) = 1" using w by simp
  have "consistent (push b s)"
    unfolding consistent_def using d' al' ro' g' p' w' by (intro conjI)
  then show ?thesis by simp
qed

lemma consistent_frame_won:
  "consistent s \<Longrightarrow> frame s s' \<Longrightarrow> consistent s' \<and> gameWon s' = gameWon s"
  using consistent_frame by (simp add: frame_def)

lemma consistent_spawnSpark:
  "consistent s \<Longrightarrow>
     consistent (spawnSpark p sd ang ms sm sp tnew rnd i s)
     \<and> gameWon (spawnSpark p sd ang ms sm sp tnew rnd i s) = gameWon s"
  unfolding spawnSpark_def Let_def by (rule consistent_push) simp_all

lemma consistent_fold:
  assumes "\<And>i st. consistent st \<Longrightarrow> consistent (f i st) \<and> gameWon (f i st) = gameWon st"
  shows "consistent s \<Longrightarrow> consistent (fold f xs s) \<and> gameWon (fold f xs s) = gameWon s"
proof (induction xs arbitrary: s)
  case Nil
  then show ?case by simp
next
  case (Cons i xs)
  from assms [OF Cons.prems, of i] Cons.IH [of "f i s"] show ?case by simp
qed

lemma consistent_ejectSparks:
  "consistent s \<Longrightarrow>
     consistent (ejectSparks tnew rnd p n ang ms sm sp s)
     \<and> gameWon (ejectSparks tnew rnd p n ang ms sm sp s) = gameWon s"
  unfolding ejectSparks_def Let_def
  using consistent_fold [of "spawnSpark p _ ang ms sm sp tnew rnd", OF consistent_spawnSpark]
  by simp

lemma consistent_ejectBody:
  "consistent s \<Longrightarrow>
     consistent (ejectBody tc p em ang ms s) \<and> gameWon (ejectBody tc p em ang ms s) = gameWon s"
  unfolding ejectBody_def Let_def using consistent_push by simp

lemma frame_recoil: "frame s (recoil p em ang ms s)"
  unfolding recoil_def Let_def
  by (intro frame_if frame_refl frame_upd_after) (simp_all add: flags_def)

lemma consistent_performEjection:
  assumes c: "consistent s"
  shows "consistent (performEjection now tnew rnd p initMass em s)
         \<and> gameWon (performEjection now tnew rnd p initMass em s) = gameWon s"
proof -
  obtain ang ms n sm sp where e:
    "performEjection now tnew rnd p initMass em s =
       (recoil p em ang ms
          (ejectSparks tnew rnd p n ang ms sm sp
             (ejectBody (tnew 0) p em ang ms
                (setMass p (b_mass (heap s p) - em) s))))\<lparr>lastClickTime := now\<rparr>"
    using performEjection_shape by blast
  define s2 where "s2 = setMass p (b_mass (heap s p) - em) s"
  define s3 where "s3 = ejectBody (tnew 0) p em ang ms s2"
  define s4 where "s4 = ejectSparks tnew rnd p n ang ms sm sp s3"
  define s5 where "s5 = recoil p em ang ms s4"
  have c2: "consistent s2 \<and> gameWon s2 = gameWon s"
    unfolding s2_def using c frame_setMass by (rule consistent_frame_won)
  then have c3: "consistent s3 \<and> gameWon s3 = gameWon s"
    unfolding s3_def using consistent_ejectBody [of s2] by simp
  then have c4: "consistent s4 \<and> gameWon s4 = gameWon s"
    unfolding s4_def using consistent_ejectSparks [of s3] by simp
  then have c5: "consistent s5 \<and> gameWon s5 = gameWon s"
    unfolding s5_def using consistent_frame_won [OF _ frame_recoil, of s4] by simp
  have "frame s5 (s5\<lparr>lastClickTime := now\<rparr>)" by (simp add: frame_def)
  with c5 have "consistent (s5\<lparr>lastClickTime := now\<rparr>) \<and> gameWon (s5\<lparr>lastClickTime := now\<rparr>) = gameWon s"
    using consistent_frame_won [of s5 "s5\<lparr>lastClickTime := now\<rparr>"] by simp
  then show ?thesis
    unfolding e s5_def s4_def s3_def s2_def .
qed

lemma ejectMass_shape:
  "ejectMass now tnew rnd s = s
   \<or> ejectMass now tnew rnd s = s\<lparr>currentEjectionMultiplier := comboMultiplier now s\<rparr>
   \<or> (\<exists>p initMass em. ejectMass now tnew rnd s =
         performEjection now tnew rnd p initMass em (s\<lparr>currentEjectionMultiplier := comboMultiplier now s\<rparr>))"
proof (cases "findBody isPlayer s")
  case None
  then show ?thesis by (simp add: ejectMass_def)
next
  case (Some p)
  from ejectMass_cases [OF Some, of now tnew rnd] show ?thesis by metis
qed

lemma consistent_ejectMass:
  assumes c: "consistent s"
  shows "consistent (ejectMass now tnew rnd s) \<and> gameWon (ejectMass now tnew rnd s) = gameWon s"
proof -
  let ?s1 = "s\<lparr>currentEjectionMultiplier := comboMultiplier now s\<rparr>"
  have "frame s ?s1" by (simp add: frame_def)
  with c have c1: "consistent ?s1 \<and> gameWon ?s1 = gameWon s" by (rule consistent_frame_won)
  then have "consistent (performEjection now tnew rnd p initMass em ?s1)
         \<and> gameWon (performEjection now tnew rnd p initMass em ?s1) = gameWon s" for p initMass em
    using consistent_performEjection [of ?s1] by simp
  with c c1 ejectMass_shape [of now tnew rnd s] show ?thesis by metis
qed

lemma consistent_populateOne:
  "consistent s \<Longrightarrow>
     consistent (populateOne c k0 tnew rnd i s) \<and> gameWon (populateOne c k0 tnew rnd i s) = gameWon s"
  unfolding populateOne_def Let_def by (rule consistent_push) simp_all

lemma consistent_populateSystem:
  "consistent s \<Longrightarrow>
     consistent (populateSystem n k0 tnew rnd s) \<and> gameWon (populateSystem n k0 tnew rnd s) = gameWon s"
  unfolding populateSystem_def
  using consistent_fold [of "populateOne _ k0 tnew rnd", OF consistent_populateOne]
  by (simp split: option.splits)

lemma consistent_pair:
  assumes "celestialBodies s = [sn, p]" "sn < p" "p < nextRef s"
    and "isSun (heap s sn)" "isGravitationalCenter (heap s sn)"
        "\<not> isPlayer (heap s sn)" "\<not> isSpark (heap s sn)"
    and "isPlayer (heap s p)" "\<not> isSun (heap s p)" "\<not> isSpark (heap s p)"
        "\<not> isGravitationalCenter (heap s p)"
    and "\<not> gameWon s"
  shows "consistent s"
  using assms
  by (simp add: consistent_def allocated_def roleOk_def gcCount_def gravitationalCenters_def
      playerCount_def)

lemma radius_gameWon [simp]: "radius (s\<lparr>gameWon := g\<rparr>) b = radius s b"
  by (simp add: radius_def)

lemma CelestialBody_gameWon [simp]:
  "CelestialBody (s\<lparr>gameWon := g\<rparr>) now px py pvx pvy m isPl isSu isSp
     = CelestialBody s now px py pvx pvy m isPl isSu isSp"
  by (simp add: CelestialBody_def calculateRadius_def)

lemma push_gameWon: "push b (s\<lparr>gameWon := g\<rparr>) = (push b s)\<lparr>gameWon := g\<rparr>"
  by (simp add: push_def)

lemma populateOne_gameWon:
  "populateOne c k0 tnew rnd i (s\<lparr>gameWon := g\<rparr>) = (populateOne c k0 tnew rnd i s)\<lparr>gameWon := g\<rparr>"
proof -
  have h: "heap (s\<lparr>gameWon := g\<rparr>) = heap s" by simp
  show ?thesis
    unfolding populateOne_def Let_def h radius_gameWon CelestialBody_gameWon push_gameWon
    by (rule refl)
qed

lemma fold_populateOne_gameWon:
  "fold (populateOne c k0 tnew rnd) xs (s\<lparr>gameWon := g\<rparr>)
     = (fold (populateOne c k0 tnew rnd) xs s)\<lparr>gameWon := g\<rparr>"
  by (induction xs arbitrary: s) (simp_all add: populateOne_gameWon)

lemma populateSystem_gameWon:
  "populateSystem n k0 tnew rnd (s\<lparr>gameWon := g\<rparr>) = (populateSystem n k0 tnew rnd s)\<lparr>gameWon := g\<rparr>"
  by (simp add: populateSystem_def findBody_def fold_populateOne_gameWon split: option.splits)

lemma initializeGame_shape:
  "\<exists>sunB plB.
     initializeGame w h tnew rnd s =
       (populateSystem INIT_NUM_BODIES 2 tnew rnd
          ((push plB (push sunB (s\<lparr>canvas_width := w, canvas_height := h,
                                    sunCurrentGameMass := SUN_GAME_MASS, celestialBodies := []\<rparr>)))
           \<lparr>playerIsGravitationalCenter := False, sunAbsorptionProgress := 0,
             gravityBlendFactor := 0\<rparr>))
       \<lparr>gameWon := False, playerNeedsReset := False, orbitHistory := [],
         currentEjectionMultiplier := 1, lastClickTime := 0, lastEjectionDecayTime := 0,
         currentWarningIntensity := 0, camera_x := 0, camera_y := 0, camera_scale := 1\<rparr>
     \<and> isSun sunB \<and> isGravitationalCenter sunB \<and> \<not> isPlayer sunB \<and> \<not> isSpark sunB
     \<and> isPlayer plB \<and> \<not> isSun plB \<and> \<not> isSpark plB \<and> \<not> isGravitationalCenter plB"
  unfolding initializeGame_def Let_def
  apply (intro exI conjI)
          apply (rule refl)
         apply simp_all
  done

lemma consistent_initializeGame:
  "consistent (initializeGame w h tnew rnd s) \<and> \<not> gameWon (initializeGame w h tnew rnd s)"
proof -
  obtain sunB plB where e:
     "initializeGame w h tnew rnd s =
       (populateSystem INIT_NUM_BODIES 2 tnew rnd
          ((push plB (push sunB (s\<lparr>canvas_width := w, canvas_height := h,
                                    sunCurrentGameMass := SUN_GAME_MASS, celestialBodies := []\<rparr>)))
           \<lparr>playerIsGravitationalCenter := False, sunAbsorptionProgress := 0,
             gravityBlendFactor := 0\<rparr>))
       \<lparr>gameWon := False, playerNeedsReset := False, orbitHistory := [],
         currentEjectionMultiplier := 1, lastClickTime := 0, lastEjectionDecayTime := 0,
         currentWarningIntensity := 0, camera_x := 0, camera_y := 0, camera_scale := 1\<rparr>"
    and b: "isSun sunB" "isGravitationalCenter sunB" "\<not> isPlayer sunB" "\<not> isSpark sunB"
      "isPlayer plB" "\<not> isSun plB" "\<not> isSpark plB" "\<not> isGravitationalCenter plB"
    using initializeGame_shape [of w h tnew rnd s] by blast
  define s5 where "s5 = (push plB (push sunB (s\<lparr>canvas_width := w, canvas_height := h,
                                    sunCurrentGameMass := SUN_GAME_MASS, celestialBodies := []\<rparr>)))
           \<lparr>playerIsGravitationalCenter := False, sunAbsorptionProgress := 0,
             gravityBlendFactor := 0\<rparr>"
  define P where "P = populateSystem INIT_NUM_BODIES 2 tnew rnd (s5\<lparr>gameWon := False\<rparr>)"
  have "consistent (s5\<lparr>gameWon := False\<rparr>)"
    by (rule consistent_pair [of _ "nextRef s" "Suc (nextRef s)"]) (simp_all add: s5_def b)
  then have cP: "consistent P \<and> gameWon P = False"
    unfolding P_def using consistent_populateSystem [of "s5\<lparr>gameWon := False\<rparr>"] by simp
  have e2: "initializeGame w h tnew rnd s =
       P\<lparr>playerNeedsReset := False, orbitHistory := [],
         currentEjectionMultiplier := 1, lastClickTime := 0, lastEjectionDecayTime := 0,
         currentWarningIntensity := 0, camera_x := 0, camera_y := 0, camera_scale := 1\<rparr>"
    unfolding e P_def populateSystem_gameWon s5_def by (rule refl)
  have "frame P (initializeGame w h tnew rnd s)"
    unfolding e2 by (rule frame_field) simp_all
  with cP show ?thesis using consistent_frame_won by blast
qed

lemma resetPlayer_shape:
  fixes s :: state and tnew :: "nat \<Rightarrow> int"
  defines "sun \<equiv> (case findBody isSun s of None \<Rightarrow> nextRef s | Some r \<Rightarrow> r)"
    and "s1 \<equiv> (case findBody isSun s of
                  None \<Rightarrow> push (CelestialBody s (tnew 0) 0 0 0 0 SUN_GAME_MASS False True False) s
                | Some r \<Rightarrow> setMass r SUN_GAME_MASS (upd r (\<lambda>b. b\<lparr>isGravitationalCenter := True\<rparr>) s))"
  shows "\<exists>pb cx cy.
     resetPlayer tnew rnd s =
       (populateSystem INIT_NUM_BODIES 2 tnew rnd
          (upd sun (\<lambda>b. b\<lparr>isGravitationalCenter := True\<rparr>)
             ((push (pb\<lparr>isGravitationalCenter := False\<rparr>)
                 (s1\<lparr>sunCurrentGameMass := SUN_GAME_MASS, celestialBodies := [sun]\<rparr>))
              \<lparr>gameWon := False, playerIsGravitationalCenter := False,
                sunAbsorptionProgress := 0, gravityBlendFactor := 0\<rparr>)))
       \<lparr>orbitHistory := [], currentEjectionMultiplier := 1,
         lastClickTime := 0, lastEjectionDecayTime := 0,
         currentWarningIntensity := 0,
         camera_x := cx, camera_y := cy, camera_scale := 1,
         playerNeedsReset := False\<rparr>
     \<and> isPlayer pb \<and> \<not> isSun pb \<and> \<not> isSpark pb"
  unfolding resetPlayer_def Let_def sun_def s1_def
  apply (intro exI conjI)
     apply (rule refl)
    apply simp_all
  done

lemma consistent_resetPlayer:
  assumes c: "consistent s"
  shows "consistent (resetPlayer tnew rnd s) \<and> \<not> gameWon (resetPlayer tnew rnd s)"
proof -
  define sun where "sun = (case findBody isSun s of None \<Rightarrow> nextRef s | Some r \<Rightarrow> r)"
  define s1 where "s1 = (case findBody isSun s of
                  None \<Rightarrow> push (CelestialBody s (tnew 0) 0 0 0 0 SUN_GAME_MASS False True False) s
                | Some r \<Rightarrow> setMass r SUN_GAME_MASS (upd r (\<lambda>b. b\<lparr>isGravitationalCenter := True\<rparr>) s))"
  obtain pb cx cy where e:
    "resetPlayer tnew rnd s =
       (populateSystem INIT_NUM_BODIES 2 tnew rnd
          (upd sun (\<lambda>b. b\<lparr>isGravitationalCenter := True\<rparr>)
             ((push (pb\<lparr>isGravitationalCenter := False\<rparr>)
                 (s1\<lparr>sunCurrentGameMass := SUN_GAME_MASS, celestialBodies := [sun]\<rparr>))
              \<lparr>gameWon := False, playerIsGravitationalCenter := False,
                sunAbsorptionProgress := 0, gravityBlendFactor := 0\<rparr>)))
       \<lparr>orbitHistory := [], currentEjectionMultiplier := 1,
         lastClickTime := 0, lastEjectionDecayTime := 0,
         currentWarningIntensity := 0,
         camera_x := cx, camera_y := cy, camera_scale := 1,
         playerNeedsReset := False\<rparr>"
    and b: "isPlayer pb" "\<not> isSun pb" "\<not> isSpark pb"
    unfolding sun_def s1_def using resetPlayer_shape [of tnew rnd s] by blast
  have sunfacts: "sun < nextRef s1 \<and> isSun (heap s1 sun) \<and> \<not> isPlayer (heap s1 sun)
                  \<and> \<not> isSpark (heap s1 sun)"
  proof (cases "findBody isSun s")
    case None
    then show ?thesis by (simp add: sun_def s1_def)
  next
    case (Some r)
    then have m: "r \<in> set (celestialBodies s)" and i: "isSun (heap s r)"
      by (simp_all add: findBody_mem findBody_holds)
    from c have "allocated s" by (simp add: consistent_def)
    then have l: "r < nextRef s" using m by (rule allocated_mem)
    from c m have "roleOk s r" by (rule consistent_roleOk)
    with i have "\<not> isPlayer (heap s r)" "\<not> isSpark (heap s r)" by (auto simp: roleOk_def)
    with l i Some show ?thesis by (simp add: sun_def s1_def)
  qed
  define s6 where "s6 = upd sun (\<lambda>b. b\<lparr>isGravitationalCenter := True\<rparr>)
             ((push (pb\<lparr>isGravitationalCenter := False\<rparr>)
                 (s1\<lparr>sunCurrentGameMass := SUN_GAME_MASS, celestialBodies := [sun]\<rparr>))
              \<lparr>gameWon := False, playerIsGravitationalCenter := False,
                sunAbsorptionProgress := 0, gravityBlendFactor := 0\<rparr>)"
  define P where "P = populateSystem INIT_NUM_BODIES 2 tnew rnd s6"
  have ne: "sun \<noteq> nextRef s1" using sunfacts by simp
  have "consistent s6"
    by (rule consistent_pair [of _ sun "nextRef s1"]) (use sunfacts ne b in \<open>simp_all add: s6_def\<close>)
  moreover have "\<not> gameWon s6" by (simp add: s6_def)
  ultimately have cP: "consistent P \<and> \<not> gameWon P"
    unfolding P_def using consistent_populateSystem [of s6] by simp
  have "frame P (resetPlayer tnew rnd s)"
    unfolding e P_def s6_def by (rule frame_field) simp_all
  with cP show ?thesis using consistent_frame_won by blast
qed

lemma frame_collisionEntry:
  assumes c: "consistent s" and e: "collisionEntry dt nowCleanup s = Some s6"
  shows "frame s s6"
proof -
  define s0 where "s0 = s\<lparr>collisionDetectedThisFrame := False\<rparr>"
  define s1 where "s1 = cleanup nowCleanup s0"
  from e obtain s5 where g: "gravityStage (dt * currentGameSpeed s) (tickSun nowCleanup s)
                               (tickPlayer nowCleanup s) s1 = Some s5"
    and u: "s6 = updatePositions (dt * currentGameSpeed s) s5"
    unfolding collisionEntry_def Let_def s1_def s0_def by auto
  have a: "frame s s0" by (simp add: s0_def frame_def)
  with c have "consistent s0" by (rule consistent_frame)
  then have b: "frame s0 s1" unfolding s1_def by (rule frame_cleanup)
  from g have d: "frame s1 s5" by (rule frame_gravityStage)
  have f: "frame s5 s6" unfolding u by (rule frame_updatePositions)
  from a b d f show ?thesis by (metis frame_trans)
qed

lemma consistent_afterCollisions:
  assumes c: "consistent s7"
  shows "consistent (afterCollisions dt nowDecay tnew rnd sun player s7)"
proof (cases "playerNeedsReset s7")
  case True
  with consistent_resetPlayer [OF c, of tnew rnd] show ?thesis by (simp add: afterCollisions_def)
next
  case False
  define s8 where "s8 = checkSunAbsorption dt s7"
  define s9 where "s9 = orbitStage dt sun player s8"
  from c have "consistent s8" unfolding s8_def by (rule consistent_checkSunAbsorption)
  then have "consistent s9" unfolding s9_def using frame_orbitStage by (rule consistent_frame)
  then have "consistent (finishTick dt nowDecay player s9)"
    using frame_finishTick by (rule consistent_frame)
  with False show ?thesis by (simp add: afterCollisions_def s9_def s8_def)
qed

lemma consistent_updatePhysics:
  assumes c: "consistent s"
    and e: "updatePhysics dt nowCleanup nowCollide nowDecay tnew rnd s = Some s'"
  shows "consistent s'"
proof -
  from e obtain s6 where a: "collisionEntry dt nowCleanup s = Some s6"
    and b: "s' = afterCollisions dt nowDecay tnew rnd (tickSun nowCleanup s) (tickPlayer nowCleanup s)
                   (checkCollisions dt nowCollide s6)"
    unfolding updatePhysics_stages by auto
  from c a have "frame s s6" by (rule frame_collisionEntry)
  with c have "consistent s6" by (rule consistent_frame)
  then have "consistent (checkCollisions dt nowCollide s6)"
    using frame_checkCollisions by (rule consistent_frame)
  then show ?thesis unfolding b by (rule consistent_afterCollisions)
qed

subsection \<open>After the win no stage of the tick asks for a reset\<close>

lemma playersCentral_frame:
  assumes p: "playersCentral s" and f: "frame s s'"
  shows "playersCentral s'"
proof -
  from f have fl: "\<And>r. flags (heap s' r) = flags (heap s r)"
    and sub: "set (celestialBodies s') \<subseteq> set (celestialBodies s)"
    by (simp_all add: frame_def)
  have "isGravitationalCenter (heap s' r)" if "r \<in> set (celestialBodies s')" "isPlayer (heap s' r)" for r
  proof -
    from that sub have "r \<in> set (celestialBodies s)" by blast
    moreover from that fl [of r] have "isPlayer (heap s r)" by (simp add: flags_eq_iff)
    ultimately have "isGravitationalCenter (heap s r)"
      using p by (simp add: playersCentral_def list_all_iff)
    with fl [of r] show ?thesis by (simp add: flags_eq_iff)
  qed
  then show ?thesis by (simp add: playersCentral_def list_all_iff)
qed

lemma reset_gravityLoop:
  "gravityLoop gm src sk gameDt rs s = Some s' \<Longrightarrow> playerNeedsReset s' = playerNeedsReset s"
proof (induction rs arbitrary: s)
  case Nil
  then show ?case by simp
next
  case (Cons r rs)
  show ?case
  proof (cases "r = src \<or> b_mass (heap s r) \<le> 0 \<or> (sk \<and> isSun (heap s r))")
    case True
    with Cons show ?thesis by simp
  next
    case False
    with Cons.prems obtain nvx nvy where
      k: "gravityLoop gm src sk gameDt rs (upd r (\<lambda>b. b\<lparr>b_vx := nvx, b_vy := nvy\<rparr>) s) = Some s'"
      by (auto split: prod.splits num.splits)
    from Cons.IH [OF k] show ?thesis by simp
  qed
qed

lemma reset_gravityStage:
  assumes "gravityStage gameDt sun player s = Some s'" and w: "gameWon s"
  shows "playerNeedsReset s' = playerNeedsReset s"
proof -
  from assms obtain s2 s3 s4 where
    a: "sunGravity gameDt sun s = Some s2" and b: "playerGravity gameDt player s2 = Some s3"
    and c: "postWinGravity gameDt sun player s3 = Some s4" and d: "s' = fatalCheck sun player s4"
    by (auto simp: gravityStage_def split: option.splits)
  have 1: "playerNeedsReset s2 = playerNeedsReset s"
    using a reset_gravityLoop by (auto simp: sunGravity_def Let_def split: option.splits if_splits)
  have 2: "playerNeedsReset s3 = playerNeedsReset s2"
    using b reset_gravityLoop by (auto simp: playerGravity_def Let_def split: option.splits if_splits)
  have 3: "playerNeedsReset s4 = playerNeedsReset s3"
    using c reset_gravityLoop by (auto simp: postWinGravity_def Let_def split: option.splits if_splits)
  from assms(1) have "frame s s'" by (rule frame_gravityStage)
  then have "gameWon s'" using w by (simp add: frame_def)
  then have "gameWon s4" unfolding d by (simp add: fatalCheck_def split: if_splits)
  then have "playerNeedsReset s' = playerNeedsReset s4" unfolding d by (simp add: fatalCheck_def)
  with 1 2 3 show ?thesis by simp
qed

lemma reset_fold:
  assumes "\<And>r st. playerNeedsReset (f r st) = playerNeedsReset st"
  shows "playerNeedsReset (fold f rs s) = playerNeedsReset s"
  by (induction rs arbitrary: s) (simp_all add: assms)

lemma reset_updatePositions: "playerNeedsReset (updatePositions gameDt s) = playerNeedsReset s"
  unfolding updatePositions_def by (rule reset_fold) simp

lemma reset_collisionEntry:
  assumes e: "collisionEntry dt nowCleanup s = Some s6" and w: "gameWon s"
  shows "playerNeedsReset s6 = playerNeedsReset s"
proof -
  define s1 where "s1 = cleanup nowCleanup (s\<lparr>collisionDetectedThisFrame := False\<rparr>)"
  from e obtain s5 where g: "gravityStage (dt * currentGameSpeed s) (tickSun nowCleanup s)
                               (tickPlayer nowCleanup s) s1 = Some s5"
    and u: "s6 = updatePositions (dt * currentGameSpeed s) s5"
    unfolding collisionEntry_def Let_def s1_def by auto
  have "gameWon s1" "playerNeedsReset s1 = playerNeedsReset s"
    using w by (simp_all add: s1_def cleanup_def)
  with reset_gravityStage [OF g] show ?thesis
    unfolding u by (simp add: reset_updatePositions)
qed

lemma reset_orbitOne: "playerNeedsReset (orbitOne dt c pp m r s) = playerNeedsReset s"
  unfolding orbitOne_def Let_def by (simp only: if_distrib [of playerNeedsReset] upd_fields if_cancel)

lemma reset_orbitStage: "playerNeedsReset (orbitStage dt sun player s) = playerNeedsReset s"
  by (simp add: orbitStage_def Let_def reset_fold reset_orbitOne split: option.splits)

lemma reset_finishTick: "playerNeedsReset (finishTick dt nowDecay player s) = playerNeedsReset s"
proof -
  have a: "playerNeedsReset (updateOrbitHistory st) = playerNeedsReset st" for st
    by (simp add: updateOrbitHistory_def Let_def split: option.splits)
  have b: "playerNeedsReset (decayEjectionMultiplier n st) = playerNeedsReset st" for n st
    by (simp add: decayEjectionMultiplier_def)
  show ?thesis
    unfolding finishTick_def Let_def b a by (simp split: option.splits)
qed

lemma quietOutcome_cong:
  "celestialBodies s1 = celestialBodies s \<Longrightarrow> playerNeedsReset s1 = playerNeedsReset s
     \<Longrightarrow> quietOutcome s1 res = quietOutcome s res"
  by (cases res) simp_all

lemma length_splice1: "k < length xs \<Longrightarrow> Suc (length (splice1 k xs)) = length xs"
  by (simp add: splice1_def min_def)

lemma resolvePair_quiet:
  assumes "\<not> isPlayer (heap s (celestialBodies s ! smallI))" "smallI < length (celestialBodies s)"
  shows "quietOutcome s (resolvePair dt bigI smallI s)"
  using assms by (simp add: resolvePair_def Let_def length_splice1)

lemma collidePair_quiet:
  assumes p: "playersCentral s" and i: "i < length (celestialBodies s)" and j: "j < i"
  shows "quietOutcome s (collidePair dt now i j s)"
proof -
  let ?s1 = "s\<lparr>collisionDetectedThisFrame := True\<rparr>"
  have R: "quietOutcome s (resolvePair dt bigI smallI ?s1)"
    if "smallI < length (celestialBodies s)"
      "\<not> isGravitationalCenter (heap s (celestialBodies s ! smallI))" for bigI smallI
  proof -
    from that(1) have "celestialBodies s ! smallI \<in> set (celestialBodies s)" by simp
    with p that(2) have "\<not> isPlayer (heap s (celestialBodies s ! smallI))"
      by (auto simp: playersCentral_def list_all_iff)
    with that(1) have "quietOutcome ?s1 (resolvePair dt bigI smallI ?s1)"
      by (intro resolvePair_quiet) simp_all
    then show ?thesis by (simp add: quietOutcome_cong [of ?s1 s])
  qed
  from i j have jl: "j < length (celestialBodies s)" by simp
  show ?thesis
    using R [OF i, of j] R [OF jl, of i]
    by (simp add: collidePair_def Let_def)
qed

lemma innerLoop_quiet:
  assumes "playersCentral s" "i < length (celestialBodies s)" "n \<le> i"
  shows "quietOutcome s (innerLoop dt now i n s)"
  using assms
proof (induction n arbitrary: s)
  case 0
  show ?case by simp
next
  case (Suc n)
  from Suc.prems have q: "quietOutcome s (collidePair dt now i n s)"
    by (intro collidePair_quiet) simp_all
  show ?case
  proof (cases "collidePair dt now i n s")
    case (Continue s1)
    with q have e: "celestialBodies s1 = celestialBodies s" "playerNeedsReset s1 = playerNeedsReset s"
      by simp_all
    from frame_collidePair [of s dt now i n] Continue have "frame s s1" by simp
    with Suc.prems(1) have "playersCentral s1" by (rule playersCentral_frame)
    from Suc.IH [OF this] Suc.prems e have "quietOutcome s1 (innerLoop dt now i n s1)" by simp
    with e have "quietOutcome s (innerLoop dt now i n s1)" by (simp add: quietOutcome_cong [of s1 s])
    with Continue show ?thesis by simp
  next
    case (Break k s1)
    with q show ?thesis by simp
  next
    case (Return s1)
    with q show ?thesis by simp
  qed
qed

lemma outerLoop_quiet:
  "playersCentral s \<Longrightarrow> n \<le> length (celestialBodies s)
     \<Longrightarrow> playerNeedsReset (outerLoop dt now n s) = playerNeedsReset s"
proof (induction dt now n s rule: outerLoop.induct)
  case (1 dt now s)
  show ?case by simp
next
  case (2 dt now i s)
  from 2(3,4) have q: "quietOutcome s (innerLoop dt now i i s)"
    by (intro innerLoop_quiet) simp_all
  show ?case
  proof (cases "innerLoop dt now i i s")
    case (Continue s')
    with q have e: "celestialBodies s' = celestialBodies s" "playerNeedsReset s' = playerNeedsReset s"
      by simp_all
    from frame_innerLoop [of s dt now i i] Continue have "frame s s'" by simp
    with 2(3) have pc: "playersCentral s'" by (rule playersCentral_frame)
    show ?thesis
    proof (cases "playerNeedsReset s'")
      case True
      with Continue e show ?thesis by simp
    next
      case False
      from 2(4) e have "i \<le> length (celestialBodies s')" by simp
      from 2(1) [OF Continue False pc this] Continue False e show ?thesis by simp
    qed
  next
    case (Break k s')
    with q have e: "Suc (length (celestialBodies s')) = length (celestialBodies s)"
      "playerNeedsReset s' = playerNeedsReset s"
      by simp_all
    from frame_innerLoop [of s dt now i i] Break have "frame s s'" by simp
    with 2(3) have pc: "playersCentral s'" by (rule playersCentral_frame)
    from Break have "k < i" by (rule innerLoop_Break_less) simp
    with 2(4) e have kl: "k \<le> length (celestialBodies s')" by simp
    show ?thesis
    proof (cases "playerNeedsReset s'")
      case True
      with Break e show ?thesis by simp
    next
      case False
      from 2(2) [OF Break False pc kl] Break False e show ?thesis by simp
    qed
  next
    case (Return s')
    with q show ?thesis by simp
  qed
qed

lemma reset_checkCollisions:
  "playersCentral s \<Longrightarrow> playerNeedsReset (checkCollisions dt now s) = playerNeedsReset s"
  by (simp add: checkCollisions_def outerLoop_quiet)

lemma updatePhysics_won:
  assumes c: "consistent s" and w: "gameWon s" and n: "\<not> playerNeedsReset s"
    and e: "updatePhysics dt nowCleanup nowCollide nowDecay tnew rnd s = Some s'"
  shows "gameWon s' \<and> \<not> playerNeedsReset s'"
proof -
  from e obtain s6 where a: "collisionEntry dt nowCleanup s = Some s6"
    and b: "s' = afterCollisions dt nowDecay tnew rnd (tickSun nowCleanup s) (tickPlayer nowCleanup s)
                   (checkCollisions dt nowCollide s6)"
    unfolding updatePhysics_stages by auto
  define s7 where "s7 = checkCollisions dt nowCollide s6"
  from c a have f6: "frame s s6" by (rule frame_collisionEntry)
  with c have c6: "consistent s6" by (rule consistent_frame)
  from f6 w have w6: "gameWon s6" by (simp add: frame_def)
  from a w n have n6: "\<not> playerNeedsReset s6" by (simp add: reset_collisionEntry)
  from c6 w6 have "playersCentral s6" by (rule consistent_playersCentral)
  with n6 have n7: "\<not> playerNeedsReset s7" by (simp add: s7_def reset_checkCollisions)
  have "frame s6 s7" unfolding s7_def by (rule frame_checkCollisions)
  with w6 have w7: "gameWon s7" by (simp add: frame_def)
  define s9 where "s9 = orbitStage dt (tickSun nowCleanup s) (tickPlayer nowCleanup s) s7"
  have s': "s' = finishTick dt nowDecay (tickPlayer nowCleanup s) s9"
    unfolding b s9_def using n7 w7 by (simp add: afterCollisions_def s7_def checkSunAbsorption_won)
  have "frame s7 s9" unfolding s9_def by (rule frame_orbitStage)
  moreover have "frame s9 s'" unfolding s' by (rule frame_finishTick)
  ultimately have "gameWon s'" using w7 by (simp add: frame_def)
  moreover have "\<not> playerNeedsReset s'"
    unfolding s' s9_def using n7 by (simp add: reset_finishTick reset_orbitStage)
  ultimately show ?thesis by simp
qed

lemma pi_ge_three: "3 \<le> pi"
proof -
  have "sin (pi / 6) \<le> pi / 6" by (rule sin_x_le_x) simp
  then show ?thesis by (simp add: sin_30)
qed

lemma MIN_PLAYER_MASS_binade: "2 ^ 23 \<le> MIN_PLAYER_MASS \<and> MIN_PLAYER_MASS < 2 ^ 24"
  using pi_ge_three pi_less_4 by (simp add: MIN_PLAYER_MASS_eq)

lemma performEjection_lastClickTime:
  "lastClickTime (performEjection now tnew rnd p initMass em s) = now"
proof -
  obtain ang ms n sm sp where
    "performEjection now tnew rnd p initMass em s =
       (recoil p em ang ms
          (ejectSparks tnew rnd p n ang ms sm sp
             (ejectBody (tnew 0) p em ang ms
                (setMass p (b_mass (heap s p) - em) s))))\<lparr>lastClickTime := now\<rparr>"
    using performEjection_shape by blast
  then show ?thesis by simp
qed

subsection \<open>The tick returns when the bodies are at different places\<close>

lemma gravityLoop_Some:
  assumes "\<forall>r \<in> set rs. r \<noteq> src \<longrightarrow>
             b_x (heap s r) \<noteq> b_x (heap s src) \<or> b_y (heap s r) \<noteq> b_y (heap s src)"
  shows "\<exists>s'. gravityLoop gm src sk gameDt rs s = Some s'
              \<and> celestialBodies s' = celestialBodies s
              \<and> gravityBlendFactor s' = gravityBlendFactor s
              \<and> (\<forall>r. b_x (heap s' r) = b_x (heap s r) \<and> b_y (heap s' r) = b_y (heap s r))"
  using assms
proof (induction rs arbitrary: s)
  case Nil
  show ?case by simp
next
  case (Cons r rs)
  show ?case
  proof (cases "r = src \<or> b_mass (heap s r) \<le> 0 \<or> (sk \<and> isSun (heap s r))")
    case True
    with Cons.IH [of s] Cons.prems show ?thesis by simp
  next
    case False
    then have ne: "r \<noteq> src" by simp
    with Cons.prems have "b_x (heap s r) \<noteq> b_x (heap s src) \<or> b_y (heap s r) \<noteq> b_y (heap s src)"
      by simp
    from gravityKick_finite [OF this, of gm gameDt] obtain nvx nvy where
      k: "gravityKick gm (heap s src) (heap s r) gameDt = (Fin nvx, Fin nvy)" by blast
    let ?s1 = "upd r (\<lambda>b. b\<lparr>b_vx := nvx, b_vy := nvy\<rparr>) s"
    have p1: "b_x (heap ?s1 x) = b_x (heap s x)" and p2: "b_y (heap ?s1 x) = b_y (heap s x)" for x
      by simp_all
    have p: "b_x (heap ?s1 x) = b_x (heap s x) \<and> b_y (heap ?s1 x) = b_y (heap s x)" for x
      by simp
    have "\<forall>r \<in> set rs. r \<noteq> src \<longrightarrow>
             b_x (heap ?s1 r) \<noteq> b_x (heap ?s1 src) \<or> b_y (heap ?s1 r) \<noteq> b_y (heap ?s1 src)"
      unfolding p1 p2 using Cons.prems by simp
    from Cons.IH [OF this] obtain s' where
      s': "gravityLoop gm src sk gameDt rs ?s1 = Some s'"
        "celestialBodies s' = celestialBodies ?s1" "gravityBlendFactor s' = gravityBlendFactor ?s1"
        "\<forall>r. b_x (heap s' r) = b_x (heap ?s1 r) \<and> b_y (heap s' r) = b_y (heap ?s1 r)"
      by blast
    have e: "gravityLoop gm src sk gameDt (r # rs) s = Some s'"
      using False k s'(1) by auto
    have "\<forall>x. b_x (heap s' x) = b_x (heap s x) \<and> b_y (heap s' x) = b_y (heap s x)"
      using s'(4) p by simp
    with e s'(2,3) show ?thesis by simp
  qed
qed

lemma separated_apart:
  "separated s \<Longrightarrow> r \<in> set (celestialBodies s) \<Longrightarrow> r' \<in> set (celestialBodies s) \<Longrightarrow> r \<noteq> r'
     \<Longrightarrow> b_x (heap s r) \<noteq> b_x (heap s r') \<or> b_y (heap s r) \<noteq> b_y (heap s r')"
  unfolding separated_def list_all_iff by blast

lemma separated_same:
  assumes "separated s" "celestialBodies s' = celestialBodies s"
    "\<forall>r. b_x (heap s' r) = b_x (heap s r) \<and> b_y (heap s' r) = b_y (heap s r)"
  shows "separated s'"
  using assms by (simp add: separated_def)

lemma gravityLoop_separated:
  assumes s: "separated s" and m: "src \<in> set (celestialBodies s)"
  shows "\<exists>s'. gravityLoop gm src sk gameDt (celestialBodies s) s = Some s'
              \<and> celestialBodies s' = celestialBodies s
              \<and> gravityBlendFactor s' = gravityBlendFactor s
              \<and> separated s'"
proof -
  have "\<forall>r \<in> set (celestialBodies s). r \<noteq> src \<longrightarrow>
             b_x (heap s r) \<noteq> b_x (heap s src) \<or> b_y (heap s r) \<noteq> b_y (heap s src)"
    using separated_apart [OF s _ m] by blast
  from gravityLoop_Some [OF this, of gm sk gameDt] obtain s' where
    s': "gravityLoop gm src sk gameDt (celestialBodies s) s = Some s'"
        "celestialBodies s' = celestialBodies s" "gravityBlendFactor s' = gravityBlendFactor s"
        "\<forall>r. b_x (heap s' r) = b_x (heap s r) \<and> b_y (heap s' r) = b_y (heap s r)"
    by blast
  from s s'(2,4) have "separated s'" by (rule separated_same)
  with s'(1,2,3) show ?thesis by blast
qed

lemma gravityStage_Some:
  assumes s: "separated s"
    and sn: "\<And>r. sun = Some r \<Longrightarrow> r \<in> set (celestialBodies s)"
    and pl: "\<And>r. player = Some r \<Longrightarrow> r \<in> set (celestialBodies s)"
  shows "\<exists>s'. gravityStage gameDt sun player s = Some s'"
proof -
  have a: "\<exists>s2. sunGravity gameDt sun s = Some s2 \<and> celestialBodies s2 = celestialBodies s \<and> separated s2"
  proof (cases "\<exists>r. sun = Some r \<and> gravityBlendFactor s < 1")
    case True
    then obtain r where r: "sun = Some r" "gravityBlendFactor s < 1" by blast
    from gravityLoop_separated [OF s sn [OF r(1)]] r show ?thesis
      by (simp add: sunGravity_def Let_def) blast
  next
    case False
    with s show ?thesis by (auto simp: sunGravity_def split: option.splits)
  qed
  then obtain s2 where s2: "sunGravity gameDt sun s = Some s2"
    "celestialBodies s2 = celestialBodies s" "separated s2" by blast
  have b: "\<exists>s3. playerGravity gameDt player s2 = Some s3 \<and> celestialBodies s3 = celestialBodies s2
             \<and> separated s3"
  proof (cases "\<exists>r. player = Some r \<and> gravityBlendFactor s2 > 0 \<and> b_mass (heap s2 r) > 0")
    case True
    then obtain r where r: "player = Some r" "gravityBlendFactor s2 > 0 \<and> b_mass (heap s2 r) > 0"
      by blast
    from pl [OF r(1)] s2(2) have "r \<in> set (celestialBodies s2)" by simp
    from gravityLoop_separated [OF s2(3) this] r show ?thesis
      by (simp add: playerGravity_def Let_def) blast
  next
    case False
    with s2(3) show ?thesis by (auto simp: playerGravity_def split: option.splits)
  qed
  then obtain s3 where s3: "playerGravity gameDt player s2 = Some s3"
    "celestialBodies s3 = celestialBodies s2" "separated s3" by blast
  have c: "\<exists>s4. postWinGravity gameDt sun player s3 = Some s4"
  proof (cases "\<exists>r. player = Some r \<and> sun = None \<and> gameWon s3")
    case True
    then obtain r where r: "player = Some r" "sun = None \<and> gameWon s3" by blast
    from pl [OF r(1)] s2(2) s3(2) have "r \<in> set (celestialBodies s3)" by simp
    from gravityLoop_separated [OF s3(3) this] r show ?thesis
      by (simp add: postWinGravity_def Let_def) blast
  next
    case False
    then show ?thesis by (auto simp: postWinGravity_def split: option.splits)
  qed
  then obtain s4 where s4: "postWinGravity gameDt sun player s3 = Some s4" by blast
  show ?thesis by (simp add: gravityStage_def s2(1) s3(1) s4)
qed

lemma updatePhysics_Some:
  assumes s: "separated s"
  shows "\<exists>s'. updatePhysics dt nowCleanup nowCollide nowDecay tnew rnd s = Some s'"
proof -
  define s1 where "s1 = cleanup nowCleanup (s\<lparr>collisionDetectedThisFrame := False\<rparr>)"
  have "separated s1"
    using s unfolding separated_def s1_def cleanup_def list_all_iff by simp
  moreover have "r \<in> set (celestialBodies s1)" if "tickSun nowCleanup s = Some r" for r
    using that unfolding tickSun_def s1_def [symmetric] by (rule findBody_mem)
  moreover have "r \<in> set (celestialBodies s1)" if "tickPlayer nowCleanup s = Some r" for r
    using that unfolding tickPlayer_def s1_def [symmetric] by (rule findBody_mem)
  ultimately obtain s5 where
    "gravityStage (dt * currentGameSpeed s) (tickSun nowCleanup s) (tickPlayer nowCleanup s) s1 = Some s5"
    using gravityStage_Some [of s1 "tickSun nowCleanup s" "tickPlayer nowCleanup s" "dt * currentGameSpeed s"]
    by blast
  then show ?thesis
    unfolding updatePhysics_stages collisionEntry_def Let_def s1_def by simp
qed

lemma absorb_registry:
  assumes w: "\<not> gameWon s"
  shows "celestialBodies (absorb dt p sn s)
           = (if gameWon (absorb dt p sn s) then remove1 sn (celestialBodies s) else celestialBodies s)"
proof -
  from absorb_cases [OF w, of dt p sn] obtain s6 where
    r: "celestialBodies s6 = celestialBodies s" and w6: "\<not> gameWon s6"
    and e: "absorb dt p sn s = s6 \<or> absorb dt p sn s = winTransition p sn s6"
    by blast
  from e show ?thesis
  proof
    assume "absorb dt p sn s = s6"
    with r w6 show ?thesis by simp
  next
    assume "absorb dt p sn s = winTransition p sn s6"
    with r show ?thesis by simp
  qed
qed

subsection \<open>The sample states of the invariants\<close>

lemma start_state_simps:
  "heap start_state 2 = body0\<lparr>b_mass := SUN_GAME_MASS, isSun := True, isGravitationalCenter := True\<rparr>"
  "heap start_state 3 = body0\<lparr>b_y := - 1000, b_mass := PLAYER_INITIAL_MASS, isPlayer := True\<rparr>"
  "celestialBodies start_state = [2, 3]" "nextRef start_state = 4"
  "gameWon start_state = False" "gravityBlendFactor start_state = 0"
  by (simp_all add: start_state_def state0_def)

lemma start_state_consistent: "consistent start_state \<and> separated start_state"
  by (simp add: consistent_def allocated_def roleOk_def gcCount_def gravitationalCenters_def
      playerCount_def separated_def start_state_simps body0_def)

lemma verge_state_simps:
  "heap verge_state 2 = body0\<lparr>b_mass := SUN_GAME_MASS / 50, isSun := True, isGravitationalCenter := True\<rparr>"
  "heap verge_state 3 = body0\<lparr>b_mass := SUN_GAME_MASS, isPlayer := True\<rparr>"
  "celestialBodies verge_state = [2, 3]" "nextRef verge_state = 4"
  "sunCurrentGameMass verge_state = SUN_GAME_MASS / 50" "gravityBlendFactor verge_state = 49 / 50"
  "currentGameSpeed verge_state = 1" "gameWon verge_state = False"
  "playerNeedsReset verge_state = False"
  by (simp_all add: verge_state_def state0_def)

lemma verge_state_consistent: "consistent verge_state"
  by (simp add: consistent_def allocated_def roleOk_def gcCount_def gravitationalCenters_def
      playerCount_def verge_state_simps body0_def)

lemma verge_state_phase: "absorptionPhase verge_state = Absorbing 3 2"
proof -
  have "findBody isPlayer verge_state = Some 3" "findBody isSun verge_state = Some 2"
    by (simp_all add: findBody_def verge_state_simps body0_def)
  moreover have "canAbsorb verge_state 3"
    using SUN_GAME_MASS_pos
    by (simp add: canAbsorb_def verge_state_simps SUN_ABSORPTION_START_RATIO_def)
  moreover have "sunDist verge_state 3 2 = 0"
    by (simp add: sunDist_def verge_state_simps body0_def)
  moreover have "0 < absorptionRange verge_state 3 2"
    using touchDist_pos [of verge_state 3 2]
    by (simp add: absorptionRange_def SUN_ABSORPTION_RANGE_MULTIPLIER_def)
  ultimately show ?thesis
    by (simp add: absorptionPhase_def verge_state_simps)
qed

lemma verge_state_transfer: "absorptionTransfer (1/100) 3 2 verge_state = SUN_GAME_MASS * (3/10000)"
proof -
  define td where "td = touchDist verge_state 3 2"
  have td: "0 < td" unfolding td_def by (rule touchDist_pos)
  have d: "sunDist verge_state 3 2 = 0"
    by (simp add: sunDist_def verge_state_simps body0_def)
  have q: "(0 - td * 0.5) / (td * 2.5 - td * 0.5) = - (1/4)"
    using td by (simp add: field_simps)
  have "absorptionRate 3 2 verge_state =
          SUN_ABSORPTION_RATE * max 0 (min 1 (1 - (0 - td * 0.5) / (td * 2.5 - td * 0.5)))
            * max 0.2 (min 2 ((SUN_GAME_MASS / SUN_GAME_MASS - SUN_ABSORPTION_START_RATIO)
                               / (1 - SUN_ABSORPTION_START_RATIO)))"
    unfolding absorptionRate_def Let_def absorptionRange_def d td_def
    by (simp add: verge_state_simps SUN_ABSORPTION_RANGE_MULTIPLIER_def)
  then have r: "absorptionRate 3 2 verge_state = 3/2"
    unfolding q using SUN_GAME_MASS_pos
    by (simp add: SUN_ABSORPTION_START_RATIO_def SUN_ABSORPTION_RATE_def)
  show ?thesis
    using SUN_GAME_MASS_pos by (simp add: absorptionTransfer_def r verge_state_simps)
qed

lemma reset_absorb: "playerNeedsReset (absorb dt p sn s) = playerNeedsReset s"
  by (simp add: absorb_def Let_def)

lemma verge_state_win:
  "gameWon (checkSunAbsorption (1/100) verge_state)
   \<and> \<not> playerNeedsReset (checkSunAbsorption (1/100) verge_state)
   \<and> celestialBodies (checkSunAbsorption (1/100) verge_state) = [3]"
proof -
  have tp: "0 < absorptionTransfer (1/100) 3 2 verge_state"
    using SUN_GAME_MASS_pos by (simp add: verge_state_transfer)
  have e: "checkSunAbsorption (1/100) verge_state = absorb (1/100) 3 2 verge_state"
    by (simp add: checkSunAbsorption_phase verge_state_phase)
  have g: "gameWon (absorb (1/100) 3 2 verge_state)"
    unfolding absorb_fields(3) [OF tp]
    using SUN_GAME_MASS_pos by (simp add: verge_state_transfer verge_state_simps)
  have w: "\<not> gameWon verge_state" by (simp add: verge_state_simps)
  have "celestialBodies (absorb (1/100) 3 2 verge_state) = [3]"
    unfolding absorb_registry [OF w] using g by (simp add: verge_state_simps)
  with g show ?thesis unfolding e by (simp add: reset_absorb verge_state_simps)
qed

lemma reset_ejectMass: "playerNeedsReset (ejectMass now tnew rnd s) = playerNeedsReset s"
proof -
  have a: "playerNeedsReset (ejectBody tc p em ang ms st) = playerNeedsReset st" for tc p em ang ms st
    by (simp add: ejectBody_def Let_def)
  have b: "playerNeedsReset (ejectSparks tnew rnd p n ang ms sm sp st) = playerNeedsReset st"
    for p n ang ms sm sp st
    unfolding ejectSparks_def Let_def
    by (simp add: reset_fold spawnSpark_def Let_def)
  have c: "playerNeedsReset (recoil p em ang ms st) = playerNeedsReset st" for p em ang ms st
    by (simp add: recoil_def Let_def)
  have d: "playerNeedsReset (performEjection now tnew rnd p initMass em st) = playerNeedsReset st"
    for p initMass em st
  proof -
    obtain ang ms n sm sp where
      "performEjection now tnew rnd p initMass em st =
         (recoil p em ang ms
            (ejectSparks tnew rnd p n ang ms sm sp
               (ejectBody (tnew 0) p em ang ms
                  (setMass p (b_mass (heap st p) - em) st))))\<lparr>lastClickTime := now\<rparr>"
      using performEjection_shape by blast
    then show ?thesis by (simp add: a b c)
  qed
  from ejectMass_shape [of now tnew rnd s] show ?thesis
    by (auto simp: d)
qed

subsection \<open>Circular orbits at any distance\<close>

lemma circular_root:
  fixes d :: real
  assumes dp: "0 < d"
  defines "r \<equiv> sqrt (d * d + 1 / 10 ^ 9)"
  shows "0 < r" and "d \<le> r" and "r * r = d * d + 1 / 10 ^ 9" and "(r - d) * (r + d) = 1 / 10 ^ 9"
proof -
  have rr: "r * r = d * d + 1 / 10 ^ 9"
    unfolding r_def by simp
  show rp: "0 < r" unfolding r_def using dp by (simp add: add_pos_nonneg)
  show "r * r = d * d + 1 / 10 ^ 9" by (rule rr)
  show "d \<le> r"
  proof (rule ccontr)
    assume "\<not> d \<le> r"
    then have "r < d" by simp
    then have "r * r < d * d" using rp by (intro mult_strict_mono) simp_all
    with rr show False by simp
  qed
  show "(r - d) * (r + d) = 1 / 10 ^ 9"
    using rr by (simp add: algebra_simps)
qed

lemma kepler_circular_approx:
  fixes rx ry vx vy mu radii d :: real
  assumes pos: "rx * rx + ry * ry = d * d" and dp: "0 < d" and mp: "0 < mu"
    and vsq: "vx * vx + vy * vy = mu / d"
    and hh: "(rx * vy - ry * vx) * (rx * vy - ry * vx) = mu * d"
    and bound: "1 / 10 ^ 9 < mu / sqrt (d * d + 1 / 10 ^ 9) - mu / (2 * d)"
  shows "0 \<le> op_e (keplerParams rx ry vx vy mu radii)
       \<and> op_e (keplerParams rx ry vx vy mu radii) * op_e (keplerParams rx ry vx vy mu radii)
           \<le> 1 / (10 ^ 9 * (d * d))
       \<and> (\<exists>a. op_a (keplerParams rx ry vx vy mu radii) = Fin a
              \<and> d \<le> a \<and> a * (1 - 1 / (10 ^ 9 * (d * d))) \<le> d)"
proof -
  define r where "r = sqrt (d * d + 1 / 10 ^ 9)"
  define E where "E = (vx * vx + vy * vy) / 2 - mu / r"
  define eSq where "eSq = 1 + (2 * E * (rx * vy - ry * vx) * (rx * vy - ry * vx)) / (mu * mu)"
  note g = circular_root [OF dp, folded r_def]
  have rp: "0 < r" by (rule g(1))
  have E_eq: "E = - (mu / r - mu / (2 * d))"
    unfolding E_def vsq by simp
  have en: "\<not> E \<ge> - (1 / 10 ^ 9)"
    unfolding E_eq using bound by (simp add: r_def)
  have E_frac: "mu / r - mu / (2 * d) = mu * (2 * d - r) / (2 * d * r)"
    using dp rp by (simp add: field_simps)
  have q: "0 < 2 * d - r"
  proof (rule ccontr)
    assume "\<not> 0 < 2 * d - r"
    then have "mu * (2 * d - r) \<le> 0" using mp by (simp add: mult_le_0_iff)
    then have "mu * (2 * d - r) / (2 * d * r) \<le> 0"
      using dp rp by (simp add: divide_le_0_iff)
    moreover have "(0::real) < 1 / 10 ^ 9" by simp
    then have "0 < mu * (2 * d - r) / (2 * d * r)"
      using bound unfolding r_def [symmetric] E_frac by (rule less_trans)
    ultimately show False by simp
  qed
  have a_eq: "- mu / (2 * E) = d * r / (2 * d - r)"
    unfolding E_eq E_frac using dp rp mp q by (simp add: field_simps)
  have ap_pos: "0 < d * r / (2 * d - r)" using dp rp q by simp
  have ap: "\<not> - mu / (2 * E) \<le> 0"
    unfolding a_eq using ap_pos by simp
  have a_lo: "d \<le> d * r / (2 * d - r)"
  proof -
    have "d * (2 * d - r) \<le> d * r" using g(2) dp by (intro mult_left_mono) simp_all
    then show ?thesis using q by (simp add: pos_le_divide_eq)
  qed
  have "2 * E * (rx * vy - ry * vx) * (rx * vy - ry * vx)
          = 2 * E * ((rx * vy - ry * vx) * (rx * vy - ry * vx))"
    by (simp only: mult.assoc)
  also have "\<dots> = 2 * E * (mu * d)" by (simp only: hh)
  finally have "eSq = 1 + 2 * E * (mu * d) / (mu * mu)" by (simp only: eSq_def)
  also have "\<dots> = 2 * (r - d) / r"
    unfolding E_eq E_frac using dp rp mp by (simp add: field_simps)
  finally have eSq_eq: "eSq = 2 * (r - d) / r" .
  have eSq_nonneg: "0 \<le> eSq" unfolding eSq_eq using g(2) rp by simp
  have eSq_le: "eSq \<le> 1 / (10 ^ 9 * (d * d))"
  proof -
    have "2 * (r - d) * (d * d) = d * ((r - d) * (2 * d))" by simp
    also have "\<dots> \<le> d * ((r - d) * (r + d))"
      using g(2) dp by (intro mult_left_mono) simp_all
    also have "\<dots> = d * (1 / 10 ^ 9)" by (simp only: g(4))
    also have "\<dots> \<le> r * (1 / 10 ^ 9)" using g(2) by simp
    finally have "2 * (r - d) * (d * d) \<le> r / 10 ^ 9" by simp
    then have "2 * (r - d) * (10 ^ 9 * (d * d)) \<le> 1 * r" by simp
    then have "2 * (r - d) / r \<le> 1 / (10 ^ 9 * (d * d))"
      using rp dp by (simp add: frac_le_eq divide_le_0_iff mult_ac)
    then show ?thesis unfolding eSq_eq .
  qed
  have d_eq: "d * r / (2 * d - r) * (1 - eSq) = d"
    unfolding eSq_eq using rp q by (simp add: field_simps)
  have a_hi: "d * r / (2 * d - r) * (1 - 1 / (10 ^ 9 * (d * d))) \<le> d"
  proof -
    have "d * r / (2 * d - r) * (1 - 1 / (10 ^ 9 * (d * d))) \<le> d * r / (2 * d - r) * (1 - eSq)"
      using eSq_le ap_pos by (intro mult_left_mono) simp_all
    then show ?thesis unfolding d_eq .
  qed
  have rr: "sqrt (rx * rx + ry * ry + 1 / 10 ^ 9) = r" by (simp add: r_def pos)
  note kb = keplerParams_bound [of vx vy mu rx ry radii, unfolded rr, folded E_def, folded eSq_def, OF en ap]
  have e_nonneg: "0 \<le> (if eSq > 1 / 10 ^ 9 then sqrt eSq else 0)" by simp
  have e_sq: "(if eSq > 1 / 10 ^ 9 then sqrt eSq else 0) * (if eSq > 1 / 10 ^ 9 then sqrt eSq else 0)
                \<le> 1 / (10 ^ 9 * (d * d))"
  proof (cases "eSq > 1 / 10 ^ 9")
    case True
    with eSq_nonneg eSq_le show ?thesis by simp
  next
    case False
    with dp show ?thesis by simp
  qed
  from kb(1) a_eq a_lo a_hi have
    "\<exists>a. op_a (keplerParams rx ry vx vy mu radii) = Fin a
              \<and> d \<le> a \<and> a * (1 - 1 / (10 ^ 9 * (d * d))) \<le> d"
    by simp
  with e_nonneg e_sq show ?thesis unfolding kb(2) by simp
qed

subsection \<open>A tick at two game speeds\<close>

lemma gravityKick_apart:
  fixes src b :: body
  defines "q \<equiv> (b_x src - b_x b) * (b_x src - b_x b) + (b_y src - b_y b) * (b_y src - b_y b)"
  assumes "q \<noteq> 0"
  shows "gravityKick gm src b gameDt =
          (Fin (b_vx b + G * gm / q * (b_x src - b_x b) / sqrt (q + 1 / 10 ^ 6) * gameDt),
           Fin (b_vy b + G * gm / q * (b_y src - b_y b) / sqrt (q + 1 / 10 ^ 6) * gameDt))"
proof -
  have q0: "q \<noteq> 0" by (rule assms(2))
  have "0 \<le> q" unfolding q_def by simp
  then have "0 < q + 1 / 10 ^ 6" by (simp add: add_nonneg_pos)
  then have d0: "0 < sqrt (q + 1 / 10 ^ 6)" by simp
  then have d1: "sqrt (q + 1 / 10 ^ 6) \<noteq> 0" by simp
  show ?thesis
    unfolding gravityKick_def Let_def q_def [symmetric]
    by (simp only: d0 d1 q0 if_True if_False num_div.simps num_mul.simps num_add.simps)
qed

lemma moveBody_plain:
  assumes "\<not> isPlayer b" "\<not> b_vx b * b_vx b + b_vy b * b_vy b > MAX_V * MAX_V"
  shows "moveBody gameDt st b = b\<lparr>b_x := b_x b + b_vx b * gameDt, b_y := b_y b + b_vy b * gameDt\<rparr>"
  using assms by (simp add: moveBody_def Let_def)

lemma b_mass_moveBody [simp]: "b_mass (moveBody gameDt st b) = b_mass b"
  by (simp add: moveBody_def Let_def)

lemma approach_state_simps:
  "heap (approach_state g) 2 = body0\<lparr>b_mass := SUN_GAME_MASS, isSun := True, isGravitationalCenter := True\<rparr>"
  "heap (approach_state g) 3 = body0\<lparr>b_y := - 1000, b_mass := PLAYER_INITIAL_MASS, isPlayer := True, b_radius := 30\<rparr>"
  "heap (approach_state g) 4 = body0\<lparr>b_x := 155, b_mass := PLAYER_INITIAL_MASS, b_radius := 30\<rparr>"
  "celestialBodies (approach_state g) = [2, 3, 4]" "nextRef (approach_state g) = 5"
  "currentGameSpeed (approach_state g) = g" "gravityBlendFactor (approach_state g) = 0"
  "gameWon (approach_state g) = False" "playerNeedsReset (approach_state g) = False"
  "sunCurrentGameMass (approach_state g) = SUN_GAME_MASS"
  by (simp_all add: approach_state_def state0_def)

lemma approach_cleanup:
  "cleanup 0 ((approach_state g)\<lparr>collisionDetectedThisFrame := False\<rparr>)
     = (approach_state g)\<lparr>collisionDetectedThisFrame := False, celestialBodies := [2, 3, 4]\<rparr>"
  using pi_gt_zero
  by (simp add: cleanup_def keepBody_def approach_state_simps body0_def MIN_BODY_MASS_def
      PLAYER_INITIAL_MASS_eq)


lemma approach_kick_bounds:
  fixes g :: real
  assumes g0: "0 < g" and g1: "g \<le> 1"
  defines "gd \<equiv> 1 / 60 * g"
  defines "kx \<equiv> - (G * SUN_GRAVITATIONAL_MASS / 24025 * 155 / sqrt (24025 + 1 / 10 ^ 6) * gd)"
  shows "- (27781 * gd) \<le> kx" and "kx \<le> - (27600 * gd)" and "kx * kx \<le> MAX_V * MAX_V"
proof -
  define A where "A = G * SUN_GRAVITATIONAL_MASS / 24025"
  define rho where "rho = 155 / sqrt (24025 + 1 / 10 ^ 6 :: real)"
  have A: "27780 \<le> A" "A \<le> 27781"
    by (simp_all add: A_def G_def SUN_GRAVITATIONAL_MASS_def)
  have s1: "(155::real) \<le> sqrt (24025 + 1 / 10 ^ 6)"
    by (rule real_le_rsqrt) (simp add: power2_eq_square)
  have s2: "sqrt (24025 + 1 / 10 ^ 6) \<le> (156::real)"
    by (rule real_le_lsqrt) (simp_all add: power2_eq_square)
  have sp: "(0::real) < sqrt (24025 + 1 / 10 ^ 6)" by simp
  have r1: "rho \<le> 1" unfolding rho_def using s1 sp by (simp add: pos_divide_le_eq)
  have r0: "155 / 156 \<le> rho" unfolding rho_def using s2 sp
    by (intro divide_left_mono) simp_all
  have gd0: "0 < gd" and gd1: "gd \<le> 1 / 60" using g0 g1 by (simp_all add: gd_def)
  have k: "kx = - (A * rho * gd)"
    by (simp add: kx_def A_def rho_def)
  have "A * rho \<le> 27781 * 1"
    using A r1 r0 by (intro mult_mono) simp_all
  then have up: "A * rho \<le> 27781" by simp
  have "27780 * (155 / 156) \<le> A * rho"
    using A r0 by (intro mult_mono) simp_all
  then have lo: "27600 \<le> A * rho" by simp
  show "- (27781 * gd) \<le> kx"
    unfolding k using up gd0 by (simp add: mult_right_mono)
  show "kx \<le> - (27600 * gd)"
    unfolding k using lo gd0 by (simp add: mult_right_mono)
  have "A * rho * gd \<le> 27781 * (1 / 60)"
    using up gd1 gd0 lo by (intro mult_mono) simp_all
  then have a: "A * rho * gd \<le> 15000" by simp
  have b: "0 \<le> A * rho * gd" using lo gd0 by simp
  have "(A * rho * gd) * (A * rho * gd) \<le> 15000 * 15000"
    using a b by (intro mult_mono) simp_all
  then show "kx * kx \<le> MAX_V * MAX_V"
    unfolding k by (simp add: MAX_V_def)
qed

lemma approach_entry:
  fixes g :: real
  assumes g0: "0 < g" and g1: "g \<le> 1"
  defines "gd \<equiv> 1 / 60 * g"
  defines "kx \<equiv> - (G * SUN_GRAVITATIONAL_MASS / 24025 * 155 / sqrt (24025 + 1 / 10 ^ 6) * gd)"
  shows "\<exists>s6. collisionEntry (1/60) 0 (approach_state g) = Some s6
      \<and> celestialBodies s6 = [2, 3, 4]
      \<and> heap s6 2 = heap (approach_state g) 2
      \<and> heap s6 4 = body0\<lparr>b_x := 155 + kx * gd, b_vx := kx, b_mass := PLAYER_INITIAL_MASS, b_radius := 30\<rparr>
      \<and> flags (heap s6 3) = flags (heap (approach_state g) 3)
      \<and> b_mass (heap s6 3) = PLAYER_INITIAL_MASS
      \<and> sunCurrentGameMass s6 = SUN_GAME_MASS \<and> \<not> playerNeedsReset s6 \<and> \<not> gameWon s6
      \<and> currentGameSpeed s6 = g"
proof -
  define s where "s = approach_state g"
  define s1 where "s1 = s\<lparr>collisionDetectedThisFrame := False, celestialBodies := [2, 3, 4]\<rparr>"
  define gm where "gm = SUN_GRAVITATIONAL_MASS * (1 - gravityBlendFactor s1)"
  have c: "cleanup 0 (s\<lparr>collisionDetectedThisFrame := False\<rparr>) = s1"
    unfolding s_def s1_def by (rule approach_cleanup)
  have h1: "heap s1 = heap s" "celestialBodies s1 = [2, 3, 4]" "gravityBlendFactor s1 = 0"
    "gameWon s1 = False" "playerNeedsReset s1 = False" "sunCurrentGameMass s1 = SUN_GAME_MASS"
    "currentGameSpeed s1 = g"
    by (simp_all add: s1_def s_def approach_state_simps)
  have hs: "heap s 2 = body0\<lparr>b_mass := SUN_GAME_MASS, isSun := True, isGravitationalCenter := True\<rparr>"
    "heap s 3 = body0\<lparr>b_y := - 1000, b_mass := PLAYER_INITIAL_MASS, isPlayer := True, b_radius := 30\<rparr>"
    "heap s 4 = body0\<lparr>b_x := 155, b_mass := PLAYER_INITIAL_MASS, b_radius := 30\<rparr>"
    by (simp_all add: s_def approach_state_simps)
  have ts: "tickSun 0 s = Some 2" and tp: "tickPlayer 0 s = Some 3"
    by (simp_all add: tickSun_def tickPlayer_def c findBody_def h1 hs body0_def)
  obtain nvx nvy where k3: "gravityKick gm (heap s 2) (heap s 3) gd = (Fin nvx, Fin nvy)"
    using gravityKick_finite [of "heap s 3" "heap s 2" gm gd] by (auto simp: hs body0_def)
  have k4: "gravityKick gm (heap s 2) (heap s 4) gd = (Fin kx, Fin 0)"
    using gravityKick_apart [of "heap s 2" "heap s 4" gm gd]
    by (simp add: hs body0_def kx_def gm_def h1)
  define s2 where "s2 = upd 4 (\<lambda>b. b\<lparr>b_vx := kx, b_vy := 0\<rparr>)
                          (upd 3 (\<lambda>b. b\<lparr>b_vx := nvx, b_vy := nvy\<rparr>) s1)"
  have pm: "0 < PLAYER_INITIAL_MASS" by (simp add: PLAYER_INITIAL_MASS_eq)
  have gl: "gravityLoop gm 2 False gd [2, 3, 4] s1 = Some s2"
    using k3 k4 pm by (simp add: h1 hs s2_def body0_def)
  have f2: "celestialBodies s2 = [2, 3, 4]" "gravityBlendFactor s2 = 0"
    "gameWon s2 = False" "playerNeedsReset s2 = False" "sunCurrentGameMass s2 = SUN_GAME_MASS"
    "currentGameSpeed s2 = g"
    by (simp_all add: s2_def h1)
  have lt: "gravityBlendFactor s1 < 1" by (simp add: h1)
  have "sunGravity gd (Some 2) s1 = gravityLoop gm 2 False gd (celestialBodies s1) s1"
    by (simp only: sunGravity_def Let_def option.case gm_def lt if_True)
  then have sg: "sunGravity gd (Some 2) s1 = Some s2"
    by (simp only: h1(2) gl)
  have gs: "gravityStage gd (Some 2) (Some 3) s1 = Some s2"
    by (simp add: gravityStage_def sg playerGravity_def postWinGravity_def fatalCheck_def f2)
  define s6 where "s6 = updatePositions gd s2"
  have e: "collisionEntry (1/60) 0 (approach_state g) = Some s6"
  proof -
    have cg: "currentGameSpeed s = g" by (simp add: s_def approach_state_simps)
    have "collisionEntry (1/60) 0 s = Some s6"
      using gs by (simp add: collisionEntry_def Let_def c ts tp s6_def gd_def cg)
    then show ?thesis by (simp only: s_def)
  qed
  have h2: "heap s2 2 = heap s 2"
    "heap s2 3 = (heap s 3)\<lparr>b_vx := nvx, b_vy := nvy\<rparr>"
    "heap s2 4 = (heap s 4)\<lparr>b_vx := kx, b_vy := 0\<rparr>"
    by (simp_all add: s2_def h1)
  have m2: "moveBody gd st (heap s 2) = heap s 2" for st
    by (simp add: moveBody_def Let_def hs body0_def MAX_V_def)
  have kb: "\<not> kx * kx + 0 * 0 > MAX_V * MAX_V"
    using approach_kick_bounds(3) [OF g0 g1] by (simp add: kx_def gd_def)
  have m4: "moveBody gd st ((heap s 4)\<lparr>b_vx := kx, b_vy := 0\<rparr>)
             = body0\<lparr>b_x := 155 + kx * gd, b_vx := kx, b_mass := PLAYER_INITIAL_MASS, b_radius := 30\<rparr>" for st
    using kb by (subst moveBody_plain) (simp_all add: hs body0_def)
  have fl3: "flags ((heap s 3)\<lparr>b_vx := nvx, b_vy := nvy\<rparr>) = flags (heap s 3)"
    "b_mass (heap s 3) = PLAYER_INITIAL_MASS"
    by (simp_all add: flags_def hs)
  have r6: "celestialBodies s6 = [2, 3, 4]" "sunCurrentGameMass s6 = SUN_GAME_MASS"
    "\<not> playerNeedsReset s6" "\<not> gameWon s6" "currentGameSpeed s6 = g"
    by (simp_all add: s6_def updatePositions_def f2)
  have h6: "heap s6 2 = heap s 2"
    "heap s6 4 = body0\<lparr>b_x := 155 + kx * gd, b_vx := kx, b_mass := PLAYER_INITIAL_MASS, b_radius := 30\<rparr>"
    "flags (heap s6 3) = flags (heap s 3)" "b_mass (heap s6 3) = PLAYER_INITIAL_MASS"
    by (simp_all add: s6_def updatePositions_def f2 h2 m2 m4 flags_moveBody fl3)
  from e r6 h6 show ?thesis unfolding s_def by blast
qed


lemma sun_meets_fresh_body:
  assumes cb: "celestialBodies s = [sn, pl, b]" and ne: "sn \<noteq> pl" "sn \<noteq> b" "pl \<noteq> b"
    and fs: "isSun (heap s sn)" "\<not> isPlayer (heap s sn)" "\<not> isSpark (heap s sn)"
    and fp: "isPlayer (heap s pl)" "\<not> isSun (heap s pl)" "\<not> isSpark (heap s pl)"
    and fb: "\<not> isPlayer (heap s b)" "\<not> isSun (heap s b)" "\<not> isSpark (heap s b)"
            "\<not> isGravitationalCenter (heap s b)"
    and im: "now - creationTime (heap s b) < EJECTION_COLLISION_DELAY"
    and mb: "b_mass (heap s b) = m" "0 \<le> m" and ms: "m < b_mass (heap s sn)"
    and dt: "0 \<le> dt" "MASS_TRANSFER_PERCENT_PER_SEC * dt \<le> 1"
    and keep: "MIN_BODY_MASS < m - m * MASS_TRANSFER_PERCENT_PER_SEC * dt"
  shows "overlapping s (heap s b) (heap s sn) \<Longrightarrow>
           b_mass (heap (checkCollisions dt now s) b) = m - m * MASS_TRANSFER_PERCENT_PER_SEC * dt
         \<and> b_mass (heap (checkCollisions dt now s) sn) = b_mass (heap s sn) + m * MASS_TRANSFER_PERCENT_PER_SEC * dt
         \<and> b_mass (heap (checkCollisions dt now s) pl) = b_mass (heap s pl)
         \<and> playerNeedsReset (checkCollisions dt now s) = playerNeedsReset s"
    and "\<not> overlapping s (heap s b) (heap s sn) \<Longrightarrow> checkCollisions dt now s = s"
proof -
  have ex1: "excluded now (heap s b) (heap s pl)"
    using fp fb im by (simp add: excluded_def immune_def Let_def)
  have ex2: "\<not> excluded now (heap s b) (heap s sn)"
    using fs fb by (simp add: excluded_def immune_def Let_def)
  have ex3: "excluded now (heap s pl) (heap s sn)"
    using fs fp by (simp add: excluded_def immune_def Let_def)
  have "m * (MASS_TRANSFER_PERCENT_PER_SEC * dt) \<le> m * 1"
    using dt mb(2) by (intro mult_left_mono)
  then have le: "m * MASS_TRANSFER_PERCENT_PER_SEC * dt \<le> m" by (simp add: mult.assoc)
  have "0 \<le> m * (MASS_TRANSFER_PERCENT_PER_SEC * dt)"
    using dt mb(2) by (simp add: MASS_TRANSFER_PERCENT_PER_SEC_def)
  then have ge: "0 \<le> m * MASS_TRANSFER_PERCENT_PER_SEC * dt" by (simp add: mult.assoc)
  have tr: "transferAmount dt (heap s b) = m * MASS_TRANSFER_PERCENT_PER_SEC * dt"
    using fb mb le ge by (simp add: transferAmount_def Let_def)
  show "checkCollisions dt now s = s" if "\<not> overlapping s (heap s b) (heap s sn)"
    using that cb ex1 ex2 ex3
    by (simp add: checkCollisions_def numeral_3_eq_3 collidePair_def Let_def)
  show "b_mass (heap (checkCollisions dt now s) b) = m - m * MASS_TRANSFER_PERCENT_PER_SEC * dt
         \<and> b_mass (heap (checkCollisions dt now s) sn) = b_mass (heap s sn) + m * MASS_TRANSFER_PERCENT_PER_SEC * dt
         \<and> b_mass (heap (checkCollisions dt now s) pl) = b_mass (heap s pl)
         \<and> playerNeedsReset (checkCollisions dt now s) = playerNeedsReset s"
    if ov: "overlapping s (heap s b) (heap s sn)"
  proof -
    let ?s1 = "s\<lparr>collisionDetectedThisFrame := True\<rparr>"
    define s4 where "s4 = applyTransfer sn b (m * MASS_TRANSFER_PERCENT_PER_SEC * dt) ?s1"
    have msn: "0 \<le> b_mass (heap s sn)" using ms mb(2) by simp
    have m4: "b_mass (heap s4 b) = m - m * MASS_TRANSFER_PERCENT_PER_SEC * dt"
      "b_mass (heap s4 sn) = b_mass (heap s sn) + m * MASS_TRANSFER_PERCENT_PER_SEC * dt"
      "b_mass (heap s4 pl) = b_mass (heap s pl)"
      unfolding s4_def using ne mb le ge msn by (simp_all add: applyTransfer_mass)
    have r: "resolvePair dt 0 2 ?s1 = Continue s4"
      using cb fb keep m4 tr by (simp add: resolvePair_def Let_def s4_def)
    have c20: "collidePair dt now 2 0 s = Continue s4"
      using cb ex2 ov fb fs mb ms r by (simp add: collidePair_def Let_def)
    have c21: "collidePair dt now 2 1 s = Continue s"
      using cb ex1 by (simp add: collidePair_def Let_def)
    have f4: "celestialBodies s4 = [sn, pl, b]" "playerNeedsReset s4 = playerNeedsReset s"
      by (simp_all add: s4_def cb)
    have ex3': "excluded now (heap s4 pl) (heap s4 sn)"
      using fs fp by (simp add: excluded_def immune_def Let_def s4_def)
    have c10: "collidePair dt now 1 0 s4 = Continue s4"
      using f4 ex3' by (simp add: collidePair_def Let_def)
    have "checkCollisions dt now s = s4"
      using cb c20 c21 c10 f4
      by (simp add: checkCollisions_def numeral_3_eq_3 numeral_2_eq_2)
    with m4 f4 show ?thesis by simp
  qed
qed


lemma clear_fold_mass:
  "b_mass (heap (fold (\<lambda>r st. if r \<noteq> p then upd r (\<lambda>b. b\<lparr>isGravitationalCenter := False\<rparr>) st else st) rs s) x)
     = b_mass (heap s x)"
  by (induction rs arbitrary: s) auto

lemma winTransition_mass_other:
  "x \<noteq> p \<Longrightarrow> b_mass (heap (winTransition p sn s) x) = b_mass (heap s x)"
  by (simp add: winTransition_def clearOtherCenters_def Let_def clear_fold_mass)

lemma absorb_mass_other:
  assumes "x \<noteq> p" "x \<noteq> sn"
  shows "b_mass (heap (absorb dt p sn s) x) = b_mass (heap s x)"
  using assms by (simp add: absorb_def Let_def winTransition_mass_other)

lemma checkSunAbsorption_mass_other:
  assumes "\<not> isPlayer (heap s x)" "\<not> isSun (heap s x)"
  shows "b_mass (heap (checkSunAbsorption dt s) x) = b_mass (heap s x)"
proof (cases "absorptionPhase s")
  case Inactive
  then show ?thesis by (simp add: checkSunAbsorption_phase)
next
  case (NotEligible p sn)
  then show ?thesis by (simp add: checkSunAbsorption_phase Let_def)
next
  case (OutOfRange p sn)
  then show ?thesis by (simp add: checkSunAbsorption_phase)
next
  case (Absorbing p sn)
  then have "findBody isPlayer s = Some p" "findBody isSun s = Some sn"
    by (auto simp: absorptionPhase_def split: if_splits option.splits)
  then have "isPlayer (heap s p)" "isSun (heap s sn)" by (simp_all add: findBody_holds)
  with assms have "x \<noteq> p" "x \<noteq> sn" by auto
  with Absorbing show ?thesis by (simp add: checkSunAbsorption_phase absorb_mass_other)
qed

lemma mass_if:
  "b_mass (heap a x) = m \<Longrightarrow> b_mass (heap b x) = m \<Longrightarrow> b_mass (heap (if c then a else b) x) = m"
  by simp

lemma mass_upd_after:
  assumes "\<And>b. b_mass (f b) = b_mass b" and "b_mass (heap s1 x) = m"
  shows "b_mass (heap (upd r f s1) x) = m"
  using assms by auto

lemma orbitOne_mass: "b_mass (heap (orbitOne dt c pp m r s) x) = b_mass (heap s x)"
  unfolding orbitOne_def Let_def
  by (intro mass_if mass_upd_after refl) simp_all

lemma fold_mass:
  assumes "\<And>r st. b_mass (heap (f r st) x) = b_mass (heap st x)"
  shows "b_mass (heap (fold f rs s) x) = b_mass (heap s x)"
  by (induction rs arbitrary: s) (simp_all add: assms)

lemma orbitStage_mass: "b_mass (heap (orbitStage dt sun player s) x) = b_mass (heap s x)"
  by (simp add: orbitStage_def Let_def fold_mass orbitOne_mass split: option.splits)

lemma finishTick_heap: "heap (finishTick dt nowDecay player s) = heap s"
proof -
  have a: "heap (updateOrbitHistory st) = heap st" for st
    by (simp add: updateOrbitHistory_def Let_def split: option.splits)
  have b: "heap (decayEjectionMultiplier n st) = heap st" for n st
    by (simp add: decayEjectionMultiplier_def)
  show ?thesis
    unfolding finishTick_def Let_def b a by (simp split: option.splits)
qed

lemma afterCollisions_mass_other:
  assumes "\<not> playerNeedsReset s7" "\<not> isPlayer (heap s7 x)" "\<not> isSun (heap s7 x)"
  shows "b_mass (heap (afterCollisions dt nowDecay tnew rnd sun player s7) x) = b_mass (heap s7 x)"
  using assms
  by (simp add: afterCollisions_def finishTick_heap orbitStage_mass checkSunAbsorption_mass_other)


lemma approach_tick:
  fixes g :: real
  assumes g0: "0 < g" and g1: "g \<le> 1"
  defines "gd \<equiv> 1 / 60 * g"
  defines "kx \<equiv> - (G * SUN_GRAVITATIONAL_MASS / 24025 * 155 / sqrt (24025 + 1 / 10 ^ 6) * gd)"
  shows "\<exists>s'. updatePhysics (1/60) 0 0 0 tnew rnd (approach_state g) = Some s'
            \<and> b_mass (heap s' 4) =
                (if (155 + kx * gd) * (155 + kx * gd) < 22500
                 then PLAYER_INITIAL_MASS - PLAYER_INITIAL_MASS * MASS_TRANSFER_PERCENT_PER_SEC * (1/60)
                 else PLAYER_INITIAL_MASS)"
proof -
  from approach_entry [OF g0 g1, folded gd_def, folded kx_def] obtain s6 where
    e: "collisionEntry (1/60) 0 (approach_state g) = Some s6"
    and cb: "celestialBodies s6 = [2, 3, 4]"
    and h2: "heap s6 2 = heap (approach_state g) 2"
    and h4: "heap s6 4 = body0\<lparr>b_x := 155 + kx * gd, b_vx := kx, b_mass := PLAYER_INITIAL_MASS, b_radius := 30\<rparr>"
    and f3: "flags (heap s6 3) = flags (heap (approach_state g) 3)"
    and f: "sunCurrentGameMass s6 = SUN_GAME_MASS" "\<not> playerNeedsReset s6"
    by blast
  have h2': "heap s6 2 = body0\<lparr>b_mass := SUN_GAME_MASS, isSun := True, isGravitationalCenter := True\<rparr>"
    unfolding h2 by (simp add: approach_state_simps)
  have f3': "isPlayer (heap s6 3)" "\<not> isSun (heap s6 3)" "\<not> isSpark (heap s6 3)"
    using f3 by (simp_all add: flags_def approach_state_simps body0_def)
  define s7 where "s7 = checkCollisions (1/60) 0 s6"
  have sq: "(- 155 - kx * gd) * (- 155 - kx * gd) = (155 + kx * gd) * (155 + kx * gd)"
    by (simp add: algebra_simps)
  have ov: "overlapping s6 (heap s6 4) (heap s6 2) = ((155 + kx * gd) * (155 + kx * gd) < 22500)"
    using SUN_GAME_MASS_pos
    by (simp add: overlapping_def Let_def radius_def getSunDisplayRadius_def h2' h4 f body0_def
        SUN_DISPLAY_RADIUS_def not_le sq)
  have pim: "0 < PLAYER_INITIAL_MASS" by (simp add: PLAYER_INITIAL_MASS_eq)
  have keep: "MIN_BODY_MASS < PLAYER_INITIAL_MASS - PLAYER_INITIAL_MASS * MASS_TRANSFER_PERCENT_PER_SEC * (1/60)"
    by (simp add: MIN_BODY_MASS_def PLAYER_INITIAL_MASS_eq MASS_TRANSFER_PERCENT_PER_SEC_def)
  have lt: "PLAYER_INITIAL_MASS < b_mass (heap s6 2)"
    by (simp add: h2' body0_def SUN_GAME_MASS_eq PLAYER_INITIAL_MASS_eq)
  note S = sun_meets_fresh_body [where s = s6 and sn = 2 and pl = 3 and b = 4 and now = 0
      and m = PLAYER_INITIAL_MASS and dt = "1/60", OF cb]
  have m7: "b_mass (heap s7 4) =
              (if (155 + kx * gd) * (155 + kx * gd) < 22500
               then PLAYER_INITIAL_MASS - PLAYER_INITIAL_MASS * MASS_TRANSFER_PERCENT_PER_SEC * (1/60)
               else PLAYER_INITIAL_MASS)"
    and r7: "\<not> playerNeedsReset s7"
  proof -
    have a: "b_mass (heap s7 4) = PLAYER_INITIAL_MASS - PLAYER_INITIAL_MASS * MASS_TRANSFER_PERCENT_PER_SEC * (1/60)
           \<and> playerNeedsReset s7 = playerNeedsReset s6"
      if "overlapping s6 (heap s6 4) (heap s6 2)"
      unfolding s7_def using that f3' pim keep lt
      by (intro S(1) [THEN conjunct1] S(1) [THEN conjunct2, THEN conjunct2, THEN conjunct2] conjI)
         (simp_all add: h2' h4 body0_def EJECTION_COLLISION_DELAY_def MASS_TRANSFER_PERCENT_PER_SEC_def)
    have b: "s7 = s6" if "\<not> overlapping s6 (heap s6 4) (heap s6 2)"
      unfolding s7_def using that f3' pim keep lt
      by (intro S(2))
         (simp_all add: h2' h4 body0_def EJECTION_COLLISION_DELAY_def MASS_TRANSFER_PERCENT_PER_SEC_def)
    show "b_mass (heap s7 4) =
              (if (155 + kx * gd) * (155 + kx * gd) < 22500
               then PLAYER_INITIAL_MASS - PLAYER_INITIAL_MASS * MASS_TRANSFER_PERCENT_PER_SEC * (1/60)
               else PLAYER_INITIAL_MASS)"
      using a b unfolding ov by (simp add: h4)
    show "\<not> playerNeedsReset s7"
      using a b f(2) by (cases "overlapping s6 (heap s6 4) (heap s6 2)") simp_all
  qed
  have "frame s6 s7" unfolding s7_def by (rule frame_checkCollisions)
  then have "flags (heap s7 4) = flags (heap s6 4)" by (simp add: frame_def)
  then have f7: "\<not> isPlayer (heap s7 4)" "\<not> isSun (heap s7 4)"
    by (simp_all add: flags_eq_iff h4 body0_def)
  define s' where "s' = afterCollisions (1/60) 0 tnew rnd (tickSun 0 (approach_state g))
                          (tickPlayer 0 (approach_state g)) s7"
  have u: "updatePhysics (1/60) 0 0 0 tnew rnd (approach_state g) = Some s'"
    by (simp add: updatePhysics_stages e s'_def s7_def)
  have "b_mass (heap s' 4) = b_mass (heap s7 4)"
    unfolding s'_def using r7 f7 by (rule afterCollisions_mass_other)
  with u m7 show ?thesis by simp
qed


lemma pair_collision_masses:
  assumes cb: "celestialBodies s = [rb, rs] \<or> celestialBodies s = [rs, rb]" and ne: "rb \<noteq> rs"
    and ms: "b_mass (heap s rs) = m" "0 \<le> m" and mb: "m < b_mass (heap s rb)"
    and ov: "overlapping s (heap s rb) (heap s rs)"
    and ex: "\<not> excluded now (heap s rb) (heap s rs)" "\<not> excluded now (heap s rs) (heap s rb)"
    and ns: "\<not> isSpark (heap s rb)" "\<not> isSpark (heap s rs)"
    and sm: "\<not> isPlayer (heap s rs)" "\<not> isGravitationalCenter (heap s rs)"
    and dt: "0 \<le> dt"
  shows "b_mass (heap (checkCollisions dt now s) rs) = m - min m (m * MASS_TRANSFER_PERCENT_PER_SEC * dt)
       \<and> b_mass (heap (checkCollisions dt now s) rb)
            = b_mass (heap s rb) + min m (m * MASS_TRANSFER_PERCENT_PER_SEC * dt)"
proof -
  have "0 \<le> m * (MASS_TRANSFER_PERCENT_PER_SEC * dt)"
    using dt ms(2) by (simp add: MASS_TRANSFER_PERCENT_PER_SEC_def)
  then have ge: "0 \<le> m * MASS_TRANSFER_PERCENT_PER_SEC * dt" by (simp add: mult.assoc)
  have tr: "transferAmount dt (heap s rs) = min m (m * MASS_TRANSFER_PERCENT_PER_SEC * dt)"
    using ns ms ge by (simp add: transferAmount_def Let_def)
  define t where "t = min m (m * MASS_TRANSFER_PERCENT_PER_SEC * dt)"
  have tb: "0 \<le> t" "t \<le> m" using ge ms(2) by (simp_all add: t_def)
  have ov': "overlapping s (heap s rs) (heap s rb)"
    using ov by (simp add: overlapping_sym)
  have mbn: "0 \<le> b_mass (heap s rb)" "\<not> m \<ge> b_mass (heap s rb)" "b_mass (heap s rb) \<ge> m"
    using mb ms(2) by simp_all
  from cb have "b_mass (heap (checkCollisions dt now s) rs) = m - t
       \<and> b_mass (heap (checkCollisions dt now s) rb) = b_mass (heap s rb) + t"
  proof
    assume c: "celestialBodies s = [rb, rs]"
    show ?thesis
      using c ne ms mbn ex ov ov' ns sm tb
      apply (simp add: checkCollisions_def numeral_2_eq_2 collidePair_def Let_def)
      apply (simp add: resolvePair_def applyTransfer_mass Let_def tr t_def [symmetric] splice1_def)
      done
  next
    assume c: "celestialBodies s = [rs, rb]"
    show ?thesis
      using c ne ms mbn ex ov ov' ns sm tb
      apply (simp add: checkCollisions_def numeral_2_eq_2 collidePair_def Let_def)
      apply (simp add: resolvePair_def applyTransfer_mass Let_def tr t_def [symmetric] splice1_def)
      done
  qed
  then show ?thesis unfolding t_def .
qed

section \<open>The concrete collision scenario\<close>

text \<open>
  Claim C6.  Two overlapping bodies of masses 100 and 10, neither a spark nor inside its
  immunity window, are the whole registry (in either order); the small one is not the
  player and not the gravitational centre, and the pair is not the player with the sun.
  With \<open>dt = 0.5\<close> and the transfer rate 4.0 per second, \<^verbatim>\<open>checkCollisions\<close> moves
  \<open>min 10 (10 * 4.0 * 0.5) = 10\<close>, leaves the masses 110 and 0, and removes the small body
  from the registry in the same call.
\<close>

theorem collision_scenario_100_10:
  assumes cb: "celestialBodies s = [rb, rs] \<or> celestialBodies s = [rs, rb]" and ne: "rb \<noteq> rs"
    and mb: "b_mass (heap s rb) = 100" and ms: "b_mass (heap s rs) = 10"
    and ov: "overlapping s (heap s rb) (heap s rs)"
    and ni: "\<not> immune now (heap s rb)" "\<not> immune now (heap s rs)"
    and ns: "\<not> isSpark (heap s rb)" "\<not> isSpark (heap s rs)"
    and sm: "\<not> isPlayer (heap s rs)" "\<not> isGravitationalCenter (heap s rs)"
    and ps: "\<not> (isPlayer (heap s rb) \<and> isSun (heap s rs))"
  shows "transferAmount (1/2) (heap s rs) = min 10 (10 * MASS_TRANSFER_PERCENT_PER_SEC * (1/2))
       \<and> transferAmount (1/2) (heap s rs) = 10
       \<and> celestialBodies (checkCollisions (1/2) now s) = [rb]
       \<and> b_mass (heap (checkCollisions (1/2) now s) rb) = 110
       \<and> b_mass (heap (checkCollisions (1/2) now s) rs) = 0"
proof -
  have tr: "transferAmount (1/2) (heap s rs) = 10"
    using ms ns by (simp add: transferAmount_def MASS_TRANSFER_PERCENT_PER_SEC_def)
  have ex: "\<not> excluded now (heap s rb) (heap s rs)" "\<not> excluded now (heap s rs) (heap s rb)"
    using ni ns sm ps by (auto simp: excluded_def Let_def)
  have ov': "overlapping s (heap s rs) (heap s rb)"
    using ov by (simp add: overlapping_sym)
  from cb have "celestialBodies (checkCollisions (1/2) now s) = [rb]
       \<and> b_mass (heap (checkCollisions (1/2) now s) rb) = 110
       \<and> b_mass (heap (checkCollisions (1/2) now s) rs) = 0"
  proof
    assume c: "celestialBodies s = [rb, rs]"
    show ?thesis
      using c ne mb ms ex ov ov' ns sm MIN_BODY_MASS_pos
      apply (simp add: checkCollisions_def numeral_2_eq_2 collidePair_def Let_def)
      apply (simp add: resolvePair_def applyTransfer_mass Let_def tr splice1_def)
      done
  next
    assume c: "celestialBodies s = [rs, rb]"
    show ?thesis
      using c ne mb ms ex ov ov' ns sm MIN_BODY_MASS_pos
      apply (simp add: checkCollisions_def numeral_2_eq_2 collidePair_def Let_def)
      apply (simp add: resolvePair_def applyTransfer_mass Let_def tr splice1_def)
      done
  qed
  with tr show ?thesis by (simp add: MASS_TRANSFER_PERCENT_PER_SEC_def)
qed

text \<open>The scenario at a concrete state: both bodies at the origin, created 1000 ms ago.\<close>

theorem collision_scenario_100_10_witness:
  "celestialBodies (checkCollisions (1/2) 1000 scenario_state) = [0]
   \<and> b_mass (heap (checkCollisions (1/2) 1000 scenario_state) 0) = 110
   \<and> b_mass (heap (checkCollisions (1/2) 1000 scenario_state) 1) = 0"
proof -
  have h: "heap scenario_state 0 = body0\<lparr>b_mass := 100\<rparr>" "heap scenario_state 1 = body0\<lparr>b_mass := 10\<rparr>"
    "heap scenario_state (Suc 0) = body0\<lparr>b_mass := 10\<rparr>"
    "celestialBodies scenario_state = [0, 1]"
    by (simp_all add: scenario_state_def state0_def)
  have ov: "overlapping scenario_state (heap scenario_state 0) (heap scenario_state 1)"
    by (rule overlapping_same_pos) (simp_all add: h body0_def)
  show ?thesis
    using collision_scenario_100_10 [of scenario_state 0 1 1000, OF _ _ _ _ ov]
    by (simp add: h body0_def immune_def EJECTION_COLLISION_DELAY_def)
qed

section \<open>Mass conservation in collisions\<close>

text \<open>
  Claim C1.  For every pass of \<^verbatim>\<open>checkCollisions\<close> over a pair \<open>(i, j)\<close> of distinct
  registered bodies with non-negative masses, the combined mass of the two bodies after
  the pass equals their combined mass before it: the big body gains exactly the amount
  \<open>t\<close> that the small one loses, with \<open>0 \<le> t\<close> and \<open>t\<close> at most the small body's mass, so
  the clamp of the mass setter discards nothing.  When the pass removes the small body,
  the registry total drops only by what the small body still held; for a spark that is
  nothing, and the total of the remaining bodies is unchanged.
\<close>

theorem collision_pair_conserves_mass:
  assumes d: "distinct (celestialBodies s)" and ji: "j < i" and il: "i < length (celestialBodies s)"
    and m1: "0 \<le> b_mass (heap s (celestialBodies s ! i))"
    and m2: "0 \<le> b_mass (heap s (celestialBodies s ! j))"
    and big: "big = celestialBodies s ! bigOf s i j" and small: "small = celestialBodies s ! smallOf s i j"
    and s': "s' = state_of (collidePair dt now i j s)"
  shows "b_mass (heap s' big) + b_mass (heap s' small) = b_mass (heap s big) + b_mass (heap s small)
       \<and> (\<exists>t. 0 \<le> t \<and> t \<le> b_mass (heap s small)
              \<and> b_mass (heap s' big) = b_mass (heap s big) + t
              \<and> b_mass (heap s' small) = b_mass (heap s small) - t)
       \<and> (\<forall>k. collidePair dt now i j s = Break k s' \<longrightarrow>
              celestialBodies s' = splice1 (smallOf s i j) (celestialBodies s)
            \<and> totalMass s' + b_mass (heap s' small) = totalMass s
            \<and> (isSpark (heap s small) \<longrightarrow> b_mass (heap s' small) = 0 \<and> totalMass s' = totalMass s))"
proof -
  let ?s1 = "s\<lparr>collisionDetectedThisFrame := True\<rparr>"
  have ne: "big \<noteq> small"
    using d ji il big small by (auto simp: bigOf_def smallOf_def nth_eq_iff_index_eq)
  have idx: "bigOf s i j < length (celestialBodies s)" "smallOf s i j < length (celestialBodies s)"
    "bigOf s i j \<noteq> smallOf s i j"
    using ji il by (auto simp: bigOf_def smallOf_def)
  have mb: "0 \<le> b_mass (heap s big)" and ms: "0 \<le> b_mass (heap s small)"
    using m1 m2 big small by (auto simp: bigOf_def smallOf_def)
  consider (c0) "collidePair dt now i j s = Continue s"
    | (c1) "collidePair dt now i j s = Continue ?s1"
    | (res) "collidePair dt now i j s = resolvePair dt (bigOf s i j) (smallOf s i j) ?s1"
    using collidePair_cases [of dt now i j s] by (auto simp: bigOf_def smallOf_def)
  then show ?thesis
  proof cases
    case c0
    then show ?thesis using s' ms by auto
  next
    case c1
    then show ?thesis using s' ms by auto
  next
    case res
    let ?t = "transferAmount dt (heap s small)"
    have tb: "0 \<le> ?t \<and> ?t \<le> b_mass (heap s small)"
      using ms by (rule transferAmount_bounds)
    have m: "\<And>r. b_mass (heap s' r) =
           (if r = small then b_mass (heap s r) - ?t
            else if r = big then b_mass (heap s r) + ?t else b_mass (heap s r))"
      unfolding s' res
      using resolvePair_masses [of ?s1 "bigOf s i j" "smallOf s i j" dt] ne mb ms big small
      by simp
    have pair: "b_mass (heap s' big) = b_mass (heap s big) + ?t"
      "b_mass (heap s' small) = b_mass (heap s small) - ?t"
      using m [of big] m [of small] ne by simp_all
    have brk: "celestialBodies s' = splice1 (smallOf s i j) (celestialBodies s)
            \<and> totalMass s' + b_mass (heap s' small) = totalMass s
            \<and> (isSpark (heap s small) \<longrightarrow> b_mass (heap s' small) = 0 \<and> totalMass s' = totalMass s)"
      if b: "collidePair dt now i j s = Break k s'" for k
    proof -
      have rb: "resolvePair dt (bigOf s i j) (smallOf s i j) ?s1 = Break k s'"
        using b res by simp
      have reg: "celestialBodies s' = splice1 (smallOf s i j) (celestialBodies s)"
        using resolvePair_registry(1) [OF rb] by simp
      have tot: "totalMass s' + b_mass (heap s' small) = totalMass s"
        using resolvePair_Break_total [OF rb] d idx mb ms big small
        by (simp add: totalMass_def)
      have "b_mass (heap s' small) = 0" if "isSpark (heap s small)"
        using that pair(2) by (simp add: transferAmount_def Let_def ms max_def)
      with reg tot show ?thesis by auto
    qed
    from pair tb brk show ?thesis by auto
  qed
qed

text \<open>The sun absorbing an overlapping spark: the spark leaves the registry, the total stays.\<close>

theorem collision_pair_conserves_mass_witness:
  "collidePair (1/2) 1000 1 0 spark_state = Break 0 (state_of (collidePair (1/2) 1000 1 0 spark_state))
   \<and> b_mass (heap (state_of (collidePair (1/2) 1000 1 0 spark_state)) 0)
     + b_mass (heap (state_of (collidePair (1/2) 1000 1 0 spark_state)) 1) = 1001
   \<and> celestialBodies (state_of (collidePair (1/2) 1000 1 0 spark_state)) = [0]
   \<and> totalMass (state_of (collidePair (1/2) 1000 1 0 spark_state)) = totalMass spark_state"
proof -
  let ?s' = "state_of (collidePair (1/2) 1000 1 0 spark_state)"
  have ov: "overlapping spark_state (heap spark_state (Suc 0)) (heap spark_state 0)"
    by (rule overlapping_same_pos) (simp_all add: spark_state_simps body0_def)
  have br: "collidePair (1/2) 1000 1 0 spark_state = Break 0 ?s'"
    using ov MIN_BODY_MASS_pos
    by (simp add: collidePair_def Let_def spark_state_simps body0_def excluded_def immune_def
        resolvePair_def applyTransfer_mass transferAmount_def)
  have d: "distinct (celestialBodies spark_state)" and ji: "(0::nat) < 1"
    and il: "1 < length (celestialBodies spark_state)"
    and m1: "0 \<le> b_mass (heap spark_state (celestialBodies spark_state ! 1))"
    and m2: "0 \<le> b_mass (heap spark_state (celestialBodies spark_state ! 0))"
    and big: "0 = celestialBodies spark_state ! bigOf spark_state 1 0"
    and small: "1 = celestialBodies spark_state ! smallOf spark_state 1 0"
    by (simp_all add: bigOf_def smallOf_def spark_state_simps body0_def)
  have sp: "isSpark (heap spark_state 1)"
    by (simp add: spark_state_simps body0_def)
  note T = collision_pair_conserves_mass [OF d ji il m1 m2 big small refl, of "1/2" 1000]
  from T have sum: "b_mass (heap ?s' 0) + b_mass (heap ?s' 1)
        = b_mass (heap spark_state 0) + b_mass (heap spark_state 1)"
    by blast
  from T br sp have rem: "celestialBodies ?s' = splice1 (smallOf spark_state 1 0) (celestialBodies spark_state)"
    and tot: "totalMass ?s' = totalMass spark_state"
    by blast+
  have "b_mass (heap spark_state 0) + b_mass (heap spark_state 1) = 1001"
    by (simp add: spark_state_simps body0_def)
  moreover have "splice1 (smallOf spark_state 1 0) (celestialBodies spark_state) = [0]"
    by (simp add: smallOf_def spark_state_simps body0_def splice1_def)
  ultimately show ?thesis using br sum rem tot by simp
qed

section \<open>The ejection mass floor\<close>

text \<open>
  Claim C7.  In a state whose player \<open>p\<close> has a mass of at least \<^verbatim>\<open>MIN_PLAYER_MASS\<close>,
  every call of \<^verbatim>\<open>ejectMass\<close> leaves \<open>p\<close> the player, with a mass that is still at least
  \<^verbatim>\<open>MIN_PLAYER_MASS\<close>: the ejected amount is clamped to the floor, or nothing is ejected.
\<close>

theorem ejection_respects_mass_floor:
  assumes al: "allocated s" and pl: "findBody isPlayer s = Some p"
    and fl: "MIN_PLAYER_MASS \<le> b_mass (heap s p)"
  shows "findBody isPlayer (ejectMass now tnew rnd s) = Some p
       \<and> MIN_PLAYER_MASS \<le> b_mass (heap (ejectMass now tnew rnd s) p)"
proof -
  have pn: "p < nextRef s"
    using al pl by (blast intro: allocated_mem findBody_mem)
  define s1 where "s1 = s\<lparr>currentEjectionMultiplier := comboMultiplier now s\<rparr>"
  define init where "init = b_mass (heap s p)"
  have s1: "allocated s1" "findBody isPlayer s1 = Some p" "p < nextRef s1" "heap s1 = heap s"
    using al pl pn by (simp_all add: s1_def allocated_def findBody_def)
  have pos: "0 < MIN_PLAYER_MASS" by (simp add: MIN_PLAYER_MASS_eq)
  have perf: "findBody isPlayer (performEjection now tnew rnd p im em s1) = Some p
       \<and> MIN_PLAYER_MASS \<le> b_mass (heap (performEjection now tnew rnd p im em s1) p)"
    if "MIN_PLAYER_MASS \<le> init - em" for im em
    using that s1 pos by (simp add: performEjection_player performEjection_player_mass init_def)
  note c = ejectMass_cases [OF pl, of now tnew rnd, folded s1_def init_def]
  consider (floor) "init \<le> MIN_PLAYER_MASS"
    | (none) "\<not> init \<le> MIN_PLAYER_MASS" "init - proposedEjection now p s < MIN_PLAYER_MASS"
        "init - MIN_PLAYER_MASS \<le> 1 / 10 ^ 9"
    | (clamped) "\<not> init \<le> MIN_PLAYER_MASS" "init - proposedEjection now p s < MIN_PLAYER_MASS"
        "\<not> init - MIN_PLAYER_MASS \<le> 1 / 10 ^ 9"
    | (full) "\<not> init \<le> MIN_PLAYER_MASS" "\<not> init - proposedEjection now p s < MIN_PLAYER_MASS"
    by blast
  then show ?thesis
  proof cases
    case floor
    then show ?thesis using c(1) pl fl by simp
  next
    case none
    then show ?thesis using c(2) s1 fl by simp
  next
    case clamped
    then show ?thesis using c(3) perf [of "init - MIN_PLAYER_MASS" init] by simp
  next
    case full
    then show ?thesis using c(4) perf [of "proposedEjection now p s" init] by simp
  qed
qed

text \<open>A lone player of the initial mass, clicking once.\<close>

theorem ejection_respects_mass_floor_witness:
  "MIN_PLAYER_MASS \<le> b_mass (heap player_state 0)
   \<and> findBody isPlayer (ejectMass 1000 zero_times zero_random player_state) = Some 0
   \<and> MIN_PLAYER_MASS \<le> b_mass (heap (ejectMass 1000 zero_times zero_random player_state) 0)"
proof -
  have al: "allocated player_state"
    by (simp add: allocated_def player_state_simps)
  have pl: "findBody isPlayer player_state = Some 0"
    by (simp add: findBody_def player_state_simps)
  have fl: "MIN_PLAYER_MASS \<le> b_mass (heap player_state 0)"
    by (simp add: player_state_simps MIN_PLAYER_MASS_eq PLAYER_INITIAL_MASS_eq)
  from ejection_respects_mass_floor [OF al pl fl] fl show ?thesis by simp
qed


section \<open>The aborted ejection\<close>



section \<open>The gravity blend factor\<close>

text \<open>
  One call of \<^verbatim>\<open>checkSunAbsorption(dt)\<close> with \<open>0 \<le> dt\<close>, in a state where the factor lies in
  \<open>[0, 1]\<close> and the sun's remaining game mass between 0 and \<^verbatim>\<open>SUN_GAME_MASS\<close>, keeps both
  ranges.  The factor is unchanged when the function does nothing, decays by at most
  \<open>0.5 * dt\<close> when the player is ineligible and by at most \<open>0.3 * dt\<close> when the player is
  eligible but out of range.  When the player absorbs a positive amount, the factor is
  overwritten with the absorption progress after the transfer (with 1 at the win).
\<close>

lemma gravity_blend_one_call:
  assumes dt: "0 \<le> dt"
    and g: "0 \<le> gravityBlendFactor s" "gravityBlendFactor s \<le> 1"
    and m: "0 \<le> sunCurrentGameMass s" "sunCurrentGameMass s \<le> SUN_GAME_MASS"
    and s': "s' = checkSunAbsorption dt s"
  shows "0 \<le> gravityBlendFactor s' \<and> gravityBlendFactor s' \<le> 1
       \<and> 0 \<le> sunCurrentGameMass s' \<and> sunCurrentGameMass s' \<le> SUN_GAME_MASS
       \<and> (absorptionPhase s = Inactive \<longrightarrow> gravityBlendFactor s' = gravityBlendFactor s)
       \<and> (\<forall>p sn. absorptionPhase s = NotEligible p sn \<longrightarrow>
              gravityBlendFactor s - 0.5 * dt \<le> gravityBlendFactor s'
            \<and> gravityBlendFactor s' \<le> gravityBlendFactor s)
       \<and> (\<forall>p sn. absorptionPhase s = OutOfRange p sn \<longrightarrow>
              gravityBlendFactor s - 0.3 * dt \<le> gravityBlendFactor s'
            \<and> gravityBlendFactor s' \<le> gravityBlendFactor s)
       \<and> (\<forall>p sn. absorptionPhase s = Absorbing p sn \<longrightarrow>
              gravityBlendFactor s' =
                (if absorptionTransfer dt p sn s \<le> 0 then gravityBlendFactor s
                 else if sunCurrentGameMass s - absorptionTransfer dt p sn s < SUN_GAME_MASS * 0.02 then 1
                 else 1 - (sunCurrentGameMass s - absorptionTransfer dt p sn s) / SUN_GAME_MASS)
            \<and> (gravityBlendFactor s = 1 - sunCurrentGameMass s / SUN_GAME_MASS
                 \<and> \<not> sunCurrentGameMass s - absorptionTransfer dt p sn s < SUN_GAME_MASS * 0.02
                 \<longrightarrow> gravityBlendFactor s' - gravityBlendFactor s
                       = absorptionTransfer dt p sn s / SUN_GAME_MASS))"
proof (cases "absorptionPhase s")
  case Inactive
  then have "s' = s" by (simp add: s' checkSunAbsorption_phase)
  with Inactive g m show ?thesis by simp
next
  case (NotEligible p sn)
  then have "gravityBlendFactor s' = max 0 (gravityBlendFactor s - 0.5 * dt)"
    "sunCurrentGameMass s' = sunCurrentGameMass s"
    by (simp_all add: s' checkSunAbsorption_phase Let_def)
  with NotEligible g m dt show ?thesis by simp
next
  case (OutOfRange p sn)
  then have "gravityBlendFactor s' = max 0 (gravityBlendFactor s - 0.3 * dt)"
    "sunCurrentGameMass s' = sunCurrentGameMass s"
    by (simp_all add: s' checkSunAbsorption_phase)
  with OutOfRange g m dt show ?thesis by simp
next
  case (Absorbing p sn)
  define t where "t = absorptionTransfer dt p sn s"
  have tb: "0 \<le> t" "t \<le> sunCurrentGameMass s"
    using absorptionTransfer_bounds [OF m(1), of dt p sn] by (simp_all add: t_def)
  have e: "s' = absorb dt p sn s"
    using Absorbing by (simp add: s' checkSunAbsorption_phase)
  show ?thesis
  proof (cases "t \<le> 0")
    case True
    then have "s' = s" unfolding e t_def by (rule absorb_none)
    moreover from True tb have "absorptionTransfer dt p sn s = 0" by (simp add: t_def)
    ultimately show ?thesis using Absorbing g m by simp
  next
    case False
    then have tp: "0 < absorptionTransfer dt p sn s" by (simp add: t_def)
    note f = absorb_fields [OF tp, folded t_def e]
    have q: "0 \<le> (sunCurrentGameMass s - t) / SUN_GAME_MASS"
      "(sunCurrentGameMass s - t) / SUN_GAME_MASS \<le> 1"
      using tb m SUN_GAME_MASS_pos by (simp_all add: field_simps)
    have inc: "1 - (sunCurrentGameMass s - t) / SUN_GAME_MASS - (1 - sunCurrentGameMass s / SUN_GAME_MASS)
                = t / SUN_GAME_MASS"
      by (simp add: diff_divide_distrib)
    show ?thesis
    proof (cases "sunCurrentGameMass s - t < SUN_GAME_MASS * 0.02")
      case True
      with f(1,2) have "gravityBlendFactor s' = 1" "sunCurrentGameMass s' = 0" by simp_all
      with True False Absorbing SUN_GAME_MASS_pos show ?thesis
        by (simp add: t_def [symmetric])
    next
      case nw: False
      with f(1,2) q have v: "gravityBlendFactor s' = 1 - (sunCurrentGameMass s - t) / SUN_GAME_MASS"
        "sunCurrentGameMass s' = sunCurrentGameMass s - t"
        by (simp_all add: min_def)
      have r: "0 \<le> gravityBlendFactor s' \<and> gravityBlendFactor s' \<le> 1
         \<and> 0 \<le> sunCurrentGameMass s' \<and> sunCurrentGameMass s' \<le> SUN_GAME_MASS"
        using v q tb m by simp
      have i: "gravityBlendFactor s = 1 - sunCurrentGameMass s / SUN_GAME_MASS
                 \<longrightarrow> gravityBlendFactor s' - gravityBlendFactor s = t / SUN_GAME_MASS"
        using v(1) inc by simp
      from r i v(1) nw False Absorbing show ?thesis
        by (simp add: t_def [symmetric])
    qed
  qed
qed

text \<open>
  Claim C2.  The claim bounds the change of \<^verbatim>\<open>gravityBlendFactor\<close> in a tick by the
  applicable rate times \<open>dt\<close>, which in the absorbing branch is the increment of the
  absorption progress, \<open>transfer / SUN_GAME_MASS\<close>; the headers of absorption.js and
  physics.js describe the factor as a smooth transition, and leaving the absorption range
  as a gradual decay.  The code does not add the increment to the factor: the absorbing
  branch assigns \<^verbatim>\<open>gravityBlendFactor = Math.min(1, sunAbsorptionProgress)\<close>, and the
  progress does not decay with the factor.  After an absorption that was interrupted out
  of range the factor has decayed (in \<open>snap_state\<close> to 0) while the progress has stayed (at
  one half).  The next absorbing call, with \<open>dt = 1/100\<close>, moves \<open>3/400\<close> of the sun's game
  mass, so that the bound of the claim is \<open>3/400\<close>, and sets the factor from 0 to
  \<open>203/400\<close>.
\<close>

theorem gravity_blend_snaps_on_reentry:
  "absorptionPhase snap_state = Absorbing 3 2
   \<and> gravityBlendFactor snap_state = 0
   \<and> absorptionTransfer (1/100) 3 2 snap_state / SUN_GAME_MASS = 3/400
   \<and> gravityBlendFactor (checkSunAbsorption (1/100) snap_state) = 203/400
   \<and> \<not> \<bar>gravityBlendFactor (checkSunAbsorption (1/100) snap_state) - gravityBlendFactor snap_state\<bar>
        \<le> absorptionTransfer (1/100) 3 2 snap_state / SUN_GAME_MASS"
proof -
  have t: "absorptionTransfer (1/100) 3 2 snap_state / SUN_GAME_MASS = 3/400"
    using SUN_GAME_MASS_pos by (simp add: snap_state_transfer)
  have tp: "0 < absorptionTransfer (1/100) 3 2 snap_state"
    using SUN_GAME_MASS_pos by (simp add: snap_state_transfer)
  have e: "checkSunAbsorption (1/100) snap_state = absorb (1/100) 3 2 snap_state"
    by (simp add: checkSunAbsorption_phase snap_state_phase)
  have g: "gravityBlendFactor (checkSunAbsorption (1/100) snap_state) = 203/400"
    unfolding e absorb_fields(1) [OF tp]
    using SUN_GAME_MASS_pos by (simp add: snap_state_transfer snap_state_simps field_simps)
  have z: "gravityBlendFactor snap_state = 0" by (simp add: snap_state_simps)
  have "\<not> \<bar>gravityBlendFactor (checkSunAbsorption (1/100) snap_state) - gravityBlendFactor snap_state\<bar>
        \<le> absorptionTransfer (1/100) 3 2 snap_state / SUN_GAME_MASS"
    unfolding t g z by simp
  with snap_state_phase t g z show ?thesis by blast
qed


section \<open>The orbit solver on circular orbits\<close>

text \<open>
  Claim C8, as amended.  The centre is at rest at the origin, the body (of positive mass,
  not a spark, another object than the centre) is at the distance \<open>d > 0\<close> and moves
  tangentially, in either sense, with the speed \<open>sqrt (mu / d)\<close>, where \<open>mu > 0\<close> is the
  solver's gravitational parameter for the pair.  The solver puts \<^verbatim>\<open>1e-9\<close> under the root
  of the distance, so that the energy it computes for this orbit is
  \<open>mu / (2 * d) - mu / sqrt (d * d + 1e-9)\<close>.

  If that energy is below the solver's threshold \<^verbatim>\<open>-1e-9\<close>, the solver returns a finite
  semi-major axis \<open>a > 0\<close> and an eccentricity \<open>e \<ge> 0\<close> with
  \<open>a * (1 - 2e-9 / d\<^sup>2 - 1e-9) \<le> d \<le> a * (1 + 1e-9)\<close> and \<open>e\<^sup>2 \<le> 2e-9 / d\<^sup>2\<close>.  In exact
  arithmetic both errors are at most \<open>1e-9 / d\<^sup>2\<close>, the solver's own term, and \<open>a\<close> is not
  below \<open>d\<close>; the bounds stated leave room for the rounding of the program's doubles,
  which decides for instance whether \<open>e\<close> is returned as 0 or as the root of a number next
  to \<^verbatim>\<open>1e-9\<close> when \<open>d\<close> is 1.

  If that energy is not below the threshold, the solver returns its degenerate sentinel.
  (The claim as stated had no condition on the energy; the two bodies of mass 1 at the
  end of this section refute that.)
\<close>

theorem circular_orbit_round_trip:
  assumes ne: "body \<noteq> center" and mass: "0 < b_mass (heap s body)" and ns: "\<not> isSpark (heap s body)"
    and c0: "b_x (heap s center) = 0" "b_y (heap s center) = 0"
            "b_vx (heap s center) = 0" "b_vy (heap s center) = 0"
    and d: "d = sqrt (b_x (heap s body) * b_x (heap s body) + b_y (heap s body) * b_y (heap s body))"
    and dp: "0 < d"
    and mu: "mu = orbit_mu s body center" and mp: "0 < mu"
    and v: "v = sqrt (mu / d)"
    and tang: "(b_vx (heap s body) = - v * (b_y (heap s body) / d) \<and> b_vy (heap s body) = v * (b_x (heap s body) / d))
             \<or> (b_vx (heap s body) = v * (b_y (heap s body) / d) \<and> b_vy (heap s body) = - v * (b_x (heap s body) / d))"
  shows "(mu / (2 * d) - mu / sqrt (d * d + 1 / 10 ^ 9) < - (1 / 10 ^ 9) \<longrightarrow>
            0 \<le> op_e (calculateOrbitParameters s body (Some center))
          \<and> op_e (calculateOrbitParameters s body (Some center))
              * op_e (calculateOrbitParameters s body (Some center)) \<le> 2 / (10 ^ 9 * (d * d))
          \<and> (\<exists>a. op_a (calculateOrbitParameters s body (Some center)) = Fin a \<and> 0 < a
                 \<and> a * (1 - 2 / (10 ^ 9 * (d * d)) - 1 / 10 ^ 9) \<le> d
                 \<and> d \<le> a * (1 + 1 / 10 ^ 9)))
       \<and> (\<not> mu / (2 * d) - mu / sqrt (d * d + 1 / 10 ^ 9) < - (1 / 10 ^ 9) \<longrightarrow>
            calculateOrbitParameters s body (Some center) = orbit_degenerate)"
proof -
  define px where "px = b_x (heap s body)"
  define py where "py = b_y (heap s body)"
  define wx where "wx = b_vx (heap s body)"
  define wy where "wy = b_vy (heap s body)"
  have dd: "px * px + py * py = d * d"
    unfolding d px_def py_def by simp
  have vv: "v * v = mu / d"
    unfolding v using mp dp by simp
  have t: "(wx = - v * (py / d) \<and> wy = v * (px / d)) \<or> (wx = v * (py / d) \<and> wy = - v * (px / d))"
    using tang by (simp add: px_def py_def wx_def wy_def)
  have sq: "wx * wx + wy * wy = (v * v) * ((px * px + py * py) / (d * d))"
    using t
  proof (elim disjE conjE)
    assume a: "wx = - v * (py / d)" "wy = v * (px / d)"
    show ?thesis unfolding a using dp by (simp add: field_simps)
  next
    assume a: "wx = v * (py / d)" "wy = - v * (px / d)"
    show ?thesis unfolding a using dp by (simp add: field_simps)
  qed
  have vsq: "wx * wx + wy * wy = mu / d"
    unfolding sq dd vv using dp by simp
  have h: "px * wy - py * wx = v * ((px * px + py * py) / d) \<or> px * wy - py * wx = - (v * ((px * px + py * py) / d))"
    using t
  proof (elim disjE conjE)
    assume a: "wx = - v * (py / d)" "wy = v * (px / d)"
    have "px * wy - py * wx = v * ((px * px + py * py) / d)"
      unfolding a using dp by (simp add: field_simps)
    then show ?thesis by (rule disjI1)
  next
    assume a: "wx = v * (py / d)" "wy = - v * (px / d)"
    have "px * wy - py * wx = - (v * ((px * px + py * py) / d))"
      unfolding a using dp by (simp add: field_simps)
    then show ?thesis by (rule disjI2)
  qed
  have hd: "(px * px + py * py) / d = d" unfolding dd using dp by simp
  have "(px * wy - py * wx) * (px * wy - py * wx) = (v * v) * (d * d)"
    using h unfolding hd
  proof
    assume a: "px * wy - py * wx = v * d"
    show ?thesis unfolding a by (simp add: algebra_simps)
  next
    assume a: "px * wy - py * wx = - (v * d)"
    show ?thesis unfolding a by (simp add: algebra_simps)
  qed
  then have hh: "(px * wy - py * wx) * (px * wy - py * wx) = mu * d"
    unfolding vv using dp by simp
  define K where "K = keplerParams px py wx wy mu (radius s (heap s center) + radius s (heap s body))"
  have e: "calculateOrbitParameters s body (Some center) = K"
    unfolding K_def px_def py_def wx_def wy_def mu
    by (rule calculateOrbitParameters_fixed_center [OF ne mass ns c0])
  have eps: "0 \<le> 1 / (10 ^ 9 * (d * d))" using dp by simp
  have near: "0 \<le> op_e K \<and> op_e K * op_e K \<le> 2 / (10 ^ 9 * (d * d))
          \<and> (\<exists>a. op_a K = Fin a \<and> 0 < a
                 \<and> a * (1 - 2 / (10 ^ 9 * (d * d)) - 1 / 10 ^ 9) \<le> d
                 \<and> d \<le> a * (1 + 1 / 10 ^ 9))"
    if low: "mu / (2 * d) - mu / sqrt (d * d + 1 / 10 ^ 9) < - (1 / 10 ^ 9)"
  proof -
    from low have bound: "1 / 10 ^ 9 < mu / sqrt (d * d + 1 / 10 ^ 9) - mu / (2 * d)" by simp
    from kepler_circular_approx [OF dd dp mp vsq hh bound, of "radius s (heap s center) + radius s (heap s body)"]
    obtain a where e0: "0 \<le> op_e K" and e1: "op_e K * op_e K \<le> 1 / (10 ^ 9 * (d * d))"
      and a0: "op_a K = Fin a" and a1: "d \<le> a" and a2: "a * (1 - 1 / (10 ^ 9 * (d * d))) \<le> d"
      unfolding K_def by blast
    from a1 dp have ap: "0 < a" by simp
    define q where "q = 1 / (10 ^ 9 * (d * d))"
    have q0: "0 \<le> q" unfolding q_def by (rule eps)
    have tw: "2 / (10 ^ 9 * (d * d)) = 2 * q" unfolding q_def by simp
    from e1 q0 have e2: "op_e K * op_e K \<le> 2 / (10 ^ 9 * (d * d))"
      unfolding tw q_def [symmetric] by simp
    have "1 - 2 * q - 1 / 10 ^ 9 \<le> 1 - q" using q0 by simp
    then have "a * (1 - 2 * q - 1 / 10 ^ 9) \<le> a * (1 - q)"
      using ap by (intro mult_left_mono) simp_all
    with a2 have a3: "a * (1 - 2 / (10 ^ 9 * (d * d)) - 1 / 10 ^ 9) \<le> d"
      unfolding tw q_def [symmetric] by simp
    have "a * 1 \<le> a * (1 + 1 / 10 ^ 9)"
      using ap by (intro mult_left_mono) simp_all
    with a1 have a4: "d \<le> a * (1 + 1 / 10 ^ 9)" by simp
    from e0 e2 a0 ap a3 a4 show ?thesis by blast
  qed
  have far: "K = orbit_degenerate"
    if high: "\<not> mu / (2 * d) - mu / sqrt (d * d + 1 / 10 ^ 9) < - (1 / 10 ^ 9)"
  proof -
    from high have "(wx * wx + wy * wy) / 2 - mu / sqrt (px * px + py * py + 1 / 10 ^ 9) \<ge> - (1 / 10 ^ 9)"
      unfolding vsq dd by simp
    then show ?thesis unfolding K_def by (rule keplerParams_degenerate)
  qed
  from near far show ?thesis unfolding e by blast
qed

text \<open>A body of mass 1 circling a centre of mass \<open>10\<^sup>1\<^sup>2\<close> at distance 1.\<close>

theorem circular_orbit_round_trip_witness:
  "orbit_mu circ_state 3 2 / (2 * 1) - orbit_mu circ_state 3 2 / sqrt (1 * 1 + 1 / 10 ^ 9) < - (1 / 10 ^ 9)
   \<and> 0 \<le> op_e (calculateOrbitParameters circ_state 3 (Some 2))
   \<and> op_e (calculateOrbitParameters circ_state 3 (Some 2))
       * op_e (calculateOrbitParameters circ_state 3 (Some 2)) \<le> 2 / 10 ^ 9
   \<and> (\<exists>a. op_a (calculateOrbitParameters circ_state 3 (Some 2)) = Fin a \<and> 0 < a
          \<and> a * (1 - 3 / 10 ^ 9) \<le> 1 \<and> 1 \<le> a * (1 + 1 / 10 ^ 9))"
proof -
  define M where "M = G * (10 ^ 12 + 1)"
  have mu: "M = orbit_mu circ_state 3 2"
    by (simp add: M_def orbit_mu_ordinary circ_state_simps body0_def)
  have mp: "0 < M" and m6: "6 < M" by (simp_all add: M_def G_def)
  have d: "(1::real) = sqrt (b_x (heap circ_state 3) * b_x (heap circ_state 3)
                          + b_y (heap circ_state 3) * b_y (heap circ_state 3))"
    by (simp add: circ_state_simps body0_def)
  have tang: "(b_vx (heap circ_state 3) = - sqrt (M / 1) * (b_y (heap circ_state 3) / 1)
              \<and> b_vy (heap circ_state 3) = sqrt (M / 1) * (b_x (heap circ_state 3) / 1))
            \<or> (b_vx (heap circ_state 3) = sqrt (M / 1) * (b_y (heap circ_state 3) / 1)
              \<and> b_vy (heap circ_state 3) = - sqrt (M / 1) * (b_x (heap circ_state 3) / 1))"
    by (simp add: circ_state_simps body0_def M_def)
  have "sqrt (1 * 1 + 1 / 10 ^ 9) \<le> (3 / 2 :: real)"
    by (rule real_le_lsqrt) (simp_all add: power2_eq_square)
  moreover have "(0::real) < sqrt (1 * 1 + 1 / 10 ^ 9)" by simp
  ultimately have "M / (3 / 2) \<le> M / sqrt (1 * 1 + 1 / 10 ^ 9)"
    using mp by (intro divide_left_mono) simp_all
  with m6 have low: "M / (2 * 1) - M / sqrt (1 * 1 + 1 / 10 ^ 9) < - (1 / 10 ^ 9)"
    by simp
  note T = circular_orbit_round_trip
        [where s = circ_state and body = 3 and center = 2 and d = 1
           and mu = M and v = "sqrt (M / 1)", OF _ _ _ _ _ _ _ d _ mu mp refl tang]
  have "0 \<le> op_e (calculateOrbitParameters circ_state 3 (Some 2))
      \<and> op_e (calculateOrbitParameters circ_state 3 (Some 2))
          * op_e (calculateOrbitParameters circ_state 3 (Some 2)) \<le> 2 / (10 ^ 9 * (1 * 1))
      \<and> (\<exists>a. op_a (calculateOrbitParameters circ_state 3 (Some 2)) = Fin a \<and> 0 < a
             \<and> a * (1 - 2 / (10 ^ 9 * (1 * 1)) - 1 / 10 ^ 9) \<le> 1
             \<and> 1 \<le> a * (1 + 1 / 10 ^ 9))"
    using T low by (simp add: circ_state_simps body0_def)
  with low show ?thesis unfolding mu [symmetric] by simp
qed
text \<open>
  Two bodies of mass 1 at distance 1: \<open>mu = 2 * G\<close> is about \<^verbatim>\<open>1.3e-11\<close>, the energy of
  the circular orbit is above \<^verbatim>\<open>-1e-9\<close>, and the solver answers with eccentricity 1 and
  an infinite semi-major axis.
\<close>

theorem circular_orbit_weak_gravity:
  "b_x (heap weak_state 2) = 0 \<and> b_y (heap weak_state 2) = 0
   \<and> b_vx (heap weak_state 2) = 0 \<and> b_vy (heap weak_state 2) = 0
   \<and> b_x (heap weak_state 3) = 1 \<and> b_y (heap weak_state 3) = 0
   \<and> b_vx (heap weak_state 3) = 0
   \<and> b_vy (heap weak_state 3) = sqrt (orbit_mu weak_state 3 2 / 1)
   \<and> op_e (calculateOrbitParameters weak_state 3 (Some 2)) = 1
   \<and> op_a (calculateOrbitParameters weak_state 3 (Some 2)) = PInf"
proof -
  have mu: "orbit_mu weak_state 3 2 = G * (1 + 1)"
    by (simp add: orbit_mu_ordinary weak_state_simps body0_def)
  have e: "calculateOrbitParameters weak_state 3 (Some 2) =
             keplerParams 1 0 0 (sqrt (G * (1 + 1))) (G * (1 + 1))
               (radius weak_state (heap weak_state 2) + radius weak_state (heap weak_state 3))"
    using calculateOrbitParameters_fixed_center [of 3 2 weak_state]
    by (simp add: weak_state_simps body0_def mu)
  have r1: "1 \<le> sqrt (1 * 1 + 0 * 0 + 1 / 10 ^ 9 :: real)" by simp
  have gp: "0 \<le> G * (1 + 1)" by (simp add: G_def)
  have "G * (1 + 1) / sqrt (1 * 1 + 0 * 0 + 1 / 10 ^ 9) \<le> G * (1 + 1) / 1"
    using r1 gp by (intro divide_left_mono) simp_all
  also have "\<dots> \<le> 1 / 10 ^ 9" by (simp add: G_def)
  finally have lo: "G * (1 + 1) / sqrt (1 * 1 + 0 * 0 + 1 / 10 ^ 9) \<le> 1 / 10 ^ 9" .
  have "0 \<le> (0 * 0 + sqrt (G * (1 + 1)) * sqrt (G * (1 + 1))) / 2" by simp
  with lo have "(0 * 0 + sqrt (G * (1 + 1)) * sqrt (G * (1 + 1))) / 2
           - G * (1 + 1) / sqrt (1 * 1 + 0 * 0 + 1 / 10 ^ 9) \<ge> - (1 / 10 ^ 9)"
    by linarith
  then have "keplerParams 1 0 0 (sqrt (G * (1 + 1))) (G * (1 + 1))
               (radius weak_state (heap weak_state 2) + radius weak_state (heap weak_state 3))
             = orbit_degenerate"
    by (rule keplerParams_degenerate)
  with e have "calculateOrbitParameters weak_state 3 (Some 2) = orbit_degenerate" by simp
  then show ?thesis
    by (simp add: orbit_degenerate_def weak_state_simps body0_def mu)
qed

section \<open>Gravity at zero separation\<close>

text \<open>
  Claim C4 says that the gravity stage computes the acceleration with a floored distance,
  so that the velocity update is finite even when a body sits exactly on the gravity
  source.  The code floors only \<^verbatim>\<open>dist\<close>, the divisor of the direction; the inverse-square
  factor is \<^verbatim>\<open>G * effectiveGravMass / distSq\<close> with the raw \<^verbatim>\<open>distSq\<close>.  For a body at
  the position of the source, \<^verbatim>\<open>distSq\<close> is 0 and the factor is an infinity (or NaN), its
  product with \<^verbatim>\<open>dx = 0\<close> is NaN, and both velocity components become NaN, whatever the
  effective mass and the time step.  At the sample state, where an ordinary body sits
  on the sun, the tick therefore leaves the finite numbers.
\<close>

theorem gravity_kick_at_source_is_NaN:
  "gravityKick gm src (b\<lparr>b_x := b_x src, b_y := b_y src\<rparr>) gameDt = (NaN, NaN)
   \<and> gravityKick (SUN_GRAVITATIONAL_MASS * (1 - gravityBlendFactor coincide_state))
        (heap coincide_state 2) (heap coincide_state 3) (1/60 * BASE_GAME_SPEED) = (NaN, NaN)
   \<and> updatePhysics (1/60) 0 0 0 zero_times zero_random coincide_state = None"
proof (intro conjI)
  show "gravityKick gm src (b\<lparr>b_x := b_x src, b_y := b_y src\<rparr>) gameDt = (NaN, NaN)"
    by (rule gravityKick_same_place) simp_all
  show k: "gravityKick (SUN_GRAVITATIONAL_MASS * (1 - gravityBlendFactor coincide_state))
        (heap coincide_state 2) (heap coincide_state 3) (1/60 * BASE_GAME_SPEED) = (NaN, NaN)"
    by (rule gravityKick_same_place) (simp_all add: coincide_state_simps body0_def)
  define s1 where "s1 = cleanup 0 (coincide_state\<lparr>collisionDetectedThisFrame := False\<rparr>)"
  have h1: "heap s1 = heap coincide_state" "gravityBlendFactor s1 = 0"
    by (simp_all add: s1_def cleanup_def coincide_state_simps)
  have pm: "\<not> PLAYER_INITIAL_MASS < MIN_BODY_MASS" "0 < PLAYER_INITIAL_MASS"
    by (simp_all add: MIN_BODY_MASS_def PLAYER_INITIAL_MASS_eq)
  have r1: "celestialBodies s1 = [2, 3]"
    using pm by (simp add: s1_def cleanup_def coincide_state_simps keepBody_def body0_def)
  have ts: "tickSun 0 coincide_state = Some 2"
    by (simp add: tickSun_def s1_def [symmetric] findBody_def r1 h1 coincide_state_simps body0_def)
  have "gravityLoop (SUN_GRAVITATIONAL_MASS * (1 - gravityBlendFactor s1)) 2 False
          (1/60 * currentGameSpeed coincide_state) (celestialBodies s1) s1 = None"
  proof -
    have "gravityLoop (SUN_GRAVITATIONAL_MASS * (1 - gravityBlendFactor s1)) 2 False
          (1/60 * currentGameSpeed coincide_state) [3] s1 = None"
      using pm(2) by (intro gravityLoop_at_source) (simp_all add: h1 coincide_state_simps body0_def)
    then show ?thesis by (simp add: r1)
  qed
  then have "gravityStage (1/60 * currentGameSpeed coincide_state) (Some 2)
               (tickPlayer 0 coincide_state) s1 = None"
    by (simp add: gravityStage_def sunGravity_def Let_def h1)
  then have "collisionEntry (1/60) 0 coincide_state = None"
    by (simp add: collisionEntry_def Let_def ts s1_def [symmetric])
  then show "updatePhysics (1/60) 0 0 0 zero_times zero_random coincide_state = None"
    by (simp add: updatePhysics_stages)
qed

section \<open>The gravitational centre\<close>



section \<open>The state after the win\<close>




section \<open>Collisions and the game speed\<close>




end
